theory Spec2Isabelle
  imports Complex_Main
begin

section \<open>Conventions of the model\<close>

text \<open>
  The repository holds several prototypes of one Try-Confirm-Cancel coordinator, each a Go
  program of its own over MySQL tables. A table with a primary or unique key is a map from
  the key to the row; a table without one is the list of its rows in insertion order.
  \<^verbatim>\<open>QueryRow(...).Scan\<close> reads the first row the \<^verbatim>\<open>WHERE\<close> clause matches (absent:
  \<^verbatim>\<open>sql.ErrNoRows\<close>), \<^verbatim>\<open>Exec\<close> of an \<^verbatim>\<open>UPDATE\<close> rewrites every row it matches.
  A resource operation returns the error (\<open>None\<close> is Go's \<^verbatim>\<open>nil\<close>) and the tables
  after it; an operation that returns an error between \<^verbatim>\<open>Begin\<close> and \<^verbatim>\<open>Commit\<close> runs its
  deferred \<^verbatim>\<open>tx.Rollback()\<close> and so returns the tables it started from. Errors of the
  connection itself, column ranges and concurrent sessions are not part of the model: the
  integers are unbounded and each operation runs alone.
\<close>

definition update_where :: "('r \<Rightarrow> bool) \<Rightarrow> ('r \<Rightarrow> 'r) \<Rightarrow> 'r list \<Rightarrow> 'r list" where
  "update_where P f rows = map (\<lambda>r. if P r then f r else r) rows"

definition update_row :: "'k \<Rightarrow> ('r \<Rightarrow> 'r) \<Rightarrow> ('k \<rightharpoonup> 'r) \<Rightarrow> ('k \<rightharpoonup> 'r)" where
  "update_row k f tbl = (case tbl k of None \<Rightarrow> tbl | Some r \<Rightarrow> tbl(k \<mapsto> f r))"

text \<open>
  The three Go interfaces \<^verbatim>\<open>SeckillTCCResource\<close>, \<^verbatim>\<open>DirectTCCResource\<close> and
  \<^verbatim>\<open>ResourceManager\<close> have the same three methods; one record of three functions stands
  for all of them (\<open>'c\<close> is the context or argument bundle, \<open>'s\<close> the tables the resource
  works on, \<open>'e\<close> its errors). The coordinators below are written over any such
  resources. To state what a coordinator invokes, and in which order, each coordinator
  also returns the list of the resource calls it made.
\<close>

record ('c, 's, 'e) TCCResource =
  Try :: "'c \<Rightarrow> 's \<Rightarrow> 'e option \<times> 's"
  Confirm :: "'c \<Rightarrow> 's \<Rightarrow> 'e option \<times> 's"
  Cancel :: "'c \<Rightarrow> 's \<Rightarrow> 'e option \<times> 's"

datatype 'k event = TryCall 'k | ConfirmCall 'k | CancelCall 'k

section \<open>Freeze-record prototype (seckill\_tcc.go)\<close>

text \<open>
  \<^verbatim>\<open>SeckillTCCContext\<close> (lines 14-22). \<^verbatim>\<open>Price\<close> (a float64), \<^verbatim>\<open>CreatedAt\<close> and
  \<^verbatim>\<open>Timeout\<close> are read by no inventory operation except to fill the columns
  \<^verbatim>\<open>created_at\<close> and \<^verbatim>\<open>expires_at\<close>, which nothing reads back; they are left out.
  \<^verbatim>\<open>SeckillDirectTCCContext\<close> of the direct-deduct prototype has the same fields.
\<close>

record SeckillTCCContext =
  TransactionID :: string
  UserID :: int
  ProductID :: int
  Quantity :: int

text \<open>
  Table \<^verbatim>\<open>seckill_inventory\<close> (lines 503-512, \<^verbatim>\<open>product_id\<close> unique, signed \<^verbatim>\<open>INT\<close>
  counters) and table \<^verbatim>\<open>seckill_inventory_freeze\<close> (lines 514-525, no unique key on the
  transaction: a list of rows).
\<close>

record inventory_row =
  stock :: int
  frozen_stock :: int
  sold_stock :: int

datatype freeze_status = FROZEN | CONFIRMED | CANCELLED

record freeze_row =
  fz_transaction_id :: string
  fz_product_id :: int
  fz_quantity :: int
  fz_status :: freeze_status

record seckill_db =
  seckill_inventory :: "int \<rightharpoonup> inventory_row"
  seckill_inventory_freeze :: "freeze_row list"

text \<open>
  The errors the inventory resource returns, by the message of the source:
  \<open>QueryStockFailed\<close> (line 56), \<open>InsufficientStock remaining needed\<close> (line 61),
  \<open>StockInsufficientOrMissing\<close> (line 80), \<open>FreezeRecordNotFound\<close> (line 117).
\<close>

datatype seckill_error =
  QueryStockFailed
  | InsufficientStock int int
  | StockInsufficientOrMissing
  | FreezeRecordNotFound

definition freeze_key :: "SeckillTCCContext \<Rightarrow> freeze_row \<Rightarrow> bool" where
  "freeze_key ctx r \<longleftrightarrow>
     fz_transaction_id r = TransactionID ctx \<and> fz_product_id r = ProductID ctx"

text \<open>
  \<^verbatim>\<open>SeckillInventoryResource.Try\<close> (lines 42-99). There is no look-up of an earlier freeze
  record of the transaction. \<open>rowsAffected\<close> is the number of rows the conditional
  \<^verbatim>\<open>UPDATE ... WHERE product_id = ? AND stock >= ?\<close> matched.
\<close>

definition SeckillInventoryResource_Try ::
  "SeckillTCCContext \<Rightarrow> seckill_db \<Rightarrow> seckill_error option \<times> seckill_db" where
  "SeckillInventoryResource_Try ctx db =
     (case seckill_inventory db (ProductID ctx) of
        None \<Rightarrow> (Some QueryStockFailed, db)
      | Some row \<Rightarrow>
          if stock row < Quantity ctx
          then (Some (InsufficientStock (stock row) (Quantity ctx)), db)
          else
            let rowsAffected = (if stock row \<ge> Quantity ctx then 1 else 0 :: nat) in
            if rowsAffected = 0 then (Some StockInsufficientOrMissing, db)
            else
              (None,
               db\<lparr>seckill_inventory := (seckill_inventory db)(ProductID ctx \<mapsto>
                      row\<lparr>stock := stock row - Quantity ctx,
                          frozen_stock := frozen_stock row + Quantity ctx\<rparr>),
                  seckill_inventory_freeze := seckill_inventory_freeze db @
                      [\<lparr>fz_transaction_id = TransactionID ctx, fz_product_id = ProductID ctx,
                        fz_quantity = Quantity ctx, fz_status = FROZEN\<rparr>]\<rparr>))"

text \<open>
  \<^verbatim>\<open>SeckillInventoryResource.Confirm\<close> (lines 102-148): the first record of the
  transaction and product in status \<^verbatim>\<open>FROZEN\<close> gives the quantity; the inventory update
  has no row check; the status update matches every record of the transaction and
  product, whatever its status.
\<close>

definition SeckillInventoryResource_Confirm ::
  "SeckillTCCContext \<Rightarrow> seckill_db \<Rightarrow> seckill_error option \<times> seckill_db" where
  "SeckillInventoryResource_Confirm ctx db =
     (case find (\<lambda>r. freeze_key ctx r \<and> fz_status r = FROZEN) (seckill_inventory_freeze db) of
        None \<Rightarrow> (Some FreezeRecordNotFound, db)
      | Some fr \<Rightarrow>
          let frozenQuantity = fz_quantity fr in
          (None,
           db\<lparr>seckill_inventory := update_row (ProductID ctx)
                  (\<lambda>row. row\<lparr>frozen_stock := frozen_stock row - frozenQuantity,
                             sold_stock := sold_stock row + frozenQuantity\<rparr>)
                  (seckill_inventory db),
              seckill_inventory_freeze := update_where (freeze_key ctx)
                  (\<lambda>r. r\<lparr>fz_status := CONFIRMED\<rparr>) (seckill_inventory_freeze db)\<rparr>))"

text \<open>
  \<^verbatim>\<open>SeckillInventoryResource.Cancel\<close> (lines 151-209): the first record in status
  \<^verbatim>\<open>FROZEN\<close> or \<^verbatim>\<open>CONFIRMED\<close>; none is success with nothing done.
\<close>

definition SeckillInventoryResource_Cancel ::
  "SeckillTCCContext \<Rightarrow> seckill_db \<Rightarrow> seckill_error option \<times> seckill_db" where
  "SeckillInventoryResource_Cancel ctx db =
     (case find (\<lambda>r. freeze_key ctx r \<and> (fz_status r = FROZEN \<or> fz_status r = CONFIRMED))
             (seckill_inventory_freeze db) of
        None \<Rightarrow> (None, db)
      | Some fr \<Rightarrow>
          let frozenQuantity = fz_quantity fr;
              inv =
                (if fz_status fr = FROZEN then
                   update_row (ProductID ctx)
                     (\<lambda>row. row\<lparr>stock := stock row + frozenQuantity,
                                frozen_stock := frozen_stock row - frozenQuantity\<rparr>)
                     (seckill_inventory db)
                 else if fz_status fr = CONFIRMED then
                   update_row (ProductID ctx)
                     (\<lambda>row. row\<lparr>stock := stock row + frozenQuantity,
                                sold_stock := sold_stock row - frozenQuantity\<rparr>)
                     (seckill_inventory db)
                 else seckill_inventory db)
          in (None,
              db\<lparr>seckill_inventory := inv,
                 seckill_inventory_freeze := update_where (freeze_key ctx)
                     (\<lambda>r. r\<lparr>fz_status := CANCELLED\<rparr>) (seckill_inventory_freeze db)\<rparr>))"

definition SeckillInventoryResource ::
  "(SeckillTCCContext, seckill_db, seckill_error) TCCResource" where
  "SeckillInventoryResource =
     \<lparr>Try = SeckillInventoryResource_Try,
      Confirm = SeckillInventoryResource_Confirm,
      Cancel = SeckillInventoryResource_Cancel\<rparr>"

text \<open>
  \<^verbatim>\<open>SeckillTCCManager\<close> (lines 436-497) keeps its resources in a slice, in the order of
  \<^verbatim>\<open>AddResource\<close>. The two loops of \<^verbatim>\<open>ExecuteSeckillTCC\<close> and the loop of
  \<^verbatim>\<open>cancelResources\<close> run over the slice by index; the second argument is the index of
  the head of the list still to visit. The state is the resources' tables and the calls
  made so far.
\<close>

datatype 'e tcc_error = TryPhaseFailed 'e | ConfirmPhaseFailed 'e

fun ExecuteSeckillTCC_try_phase ::
  "('c, 's, 'e) TCCResource list \<Rightarrow> nat \<Rightarrow> 'c \<Rightarrow> 's \<times> nat event list \<Rightarrow>
     'e option \<times> ('s \<times> nat event list)" where
  "ExecuteSeckillTCC_try_phase [] i ctx st = (None, st)"
| "ExecuteSeckillTCC_try_phase (r # rs) i ctx (s, tr) =
     (case Try r ctx s of
        (Some err, s') \<Rightarrow> (Some err, (s', tr @ [TryCall i]))
      | (None, s') \<Rightarrow> ExecuteSeckillTCC_try_phase rs (Suc i) ctx (s', tr @ [TryCall i]))"

fun ExecuteSeckillTCC_confirm_phase ::
  "('c, 's, 'e) TCCResource list \<Rightarrow> nat \<Rightarrow> 'c \<Rightarrow> 's \<times> nat event list \<Rightarrow>
     'e option \<times> ('s \<times> nat event list)" where
  "ExecuteSeckillTCC_confirm_phase [] i ctx st = (None, st)"
| "ExecuteSeckillTCC_confirm_phase (r # rs) i ctx (s, tr) =
     (case Confirm r ctx s of
        (Some err, s') \<Rightarrow> (Some err, (s', tr @ [ConfirmCall i]))
      | (None, s') \<Rightarrow> ExecuteSeckillTCC_confirm_phase rs (Suc i) ctx (s', tr @ [ConfirmCall i]))"

text \<open>\<^verbatim>\<open>cancelResources\<close> (lines 490-497) logs a failed Cancel and goes on.\<close>

fun cancelResources ::
  "('c, 's, 'e) TCCResource list \<Rightarrow> nat \<Rightarrow> 'c \<Rightarrow> 's \<times> nat event list \<Rightarrow> 's \<times> nat event list" where
  "cancelResources [] i ctx st = st"
| "cancelResources (r # rs) i ctx (s, tr) =
     cancelResources rs (Suc i) ctx (snd (Cancel r ctx s), tr @ [CancelCall i])"

definition ExecuteSeckillTCC ::
  "('c, 's, 'e) TCCResource list \<Rightarrow> 'c \<Rightarrow> 's \<Rightarrow> 'e tcc_error option \<times> ('s \<times> nat event list)" where
  "ExecuteSeckillTCC resources ctx s =
     (case ExecuteSeckillTCC_try_phase resources 0 ctx (s, []) of
        (Some err, st) \<Rightarrow> (Some (TryPhaseFailed err), cancelResources resources 0 ctx st)
      | (None, st) \<Rightarrow>
          (case ExecuteSeckillTCC_confirm_phase resources 0 ctx st of
             (Some err, st') \<Rightarrow> (Some (ConfirmPhaseFailed err), cancelResources resources 0 ctx st')
           | (None, st') \<Rightarrow> (None, st')))"

text \<open>
  The invariant of the inventory counters. \<open>conserved_sum\<close> is the capacity of a product:
  the table has no column for the total, the three counters partition it.
  \<open>counters_nonneg\<close> is the pair of inequalities of the data model: \<^verbatim>\<open>stock\<close> and
  \<^verbatim>\<open>frozen_stock\<close> of every product are at least zero. \<open>freeze_backed\<close> links the frozen
  counter to the freeze records: every freeze record has a quantity of at least zero, and
  the frozen counter of a product covers the records of the product still in status
  \<^verbatim>\<open>FROZEN\<close>.
\<close>

definition frozen_sum :: "int \<Rightarrow> freeze_row list \<Rightarrow> int" where
  "frozen_sum p rows =
     sum_list (map fz_quantity (filter (\<lambda>r. fz_product_id r = p \<and> fz_status r = FROZEN) rows))"

definition freeze_backed :: "seckill_db \<Rightarrow> bool" where
  "freeze_backed db \<longleftrightarrow>
     (\<forall>r \<in> set (seckill_inventory_freeze db). 0 \<le> fz_quantity r) \<and>
     (\<forall>p row. seckill_inventory db p = Some row \<longrightarrow>
        frozen_sum p (seckill_inventory_freeze db) \<le> frozen_stock row)"

definition counters_nonneg :: "seckill_db \<Rightarrow> bool" where
  "counters_nonneg db \<longleftrightarrow>
     (\<forall>p row. seckill_inventory db p = Some row \<longrightarrow> 0 \<le> stock row \<and> 0 \<le> frozen_stock row)"

definition conserved_sum :: "inventory_row \<Rightarrow> int" where
  "conserved_sum row = stock row + frozen_stock row + sold_stock row"

text \<open>
  To say what a loop of a coordinator leaves behind: the tables after the given method
  of each resource of a list has been applied, in the order of the list, whatever each
  call returned.
\<close>

abbreviation tables_after ::
  "(('c, 's, 'e) TCCResource \<Rightarrow> 'c \<Rightarrow> 's \<Rightarrow> 'e option \<times> 's) \<Rightarrow> 'c \<Rightarrow>
     ('c, 's, 'e) TCCResource list \<Rightarrow> 's \<Rightarrow> 's" where
  "tables_after method ctx rs s \<equiv> foldl (\<lambda>s r. snd (method r ctx s)) s rs"
section \<open>Freeze-table prototype (improved\_seata\_style.go)\<close>

text \<open>
  The argument bundle \<^verbatim>\<open>map[string]interface{}\<close> is read by \<^verbatim>\<open>InventoryRM\<close> with the type
  assertions \<^verbatim>\<open>args["tx_id"].(string)\<close>, \<^verbatim>\<open>args["item_id"].(int64)\<close> and
  \<^verbatim>\<open>args["quantity"].(int)\<close>; the record carries these typed entries (the entries of the
  account and order managers are left out with them).
  Table \<^verbatim>\<open>seckill_inventory\<close> is keyed by \<^verbatim>\<open>item_id\<close>, table \<^verbatim>\<open>inventory_freeze\<close> has the
  unique key \<^verbatim>\<open>(tx_id, item_id)\<close> (improved\_mysql.sql). The states of a freeze record,
  \<^verbatim>\<open>'TRIED'\<close>, \<^verbatim>\<open>'CONFIRMED'\<close> and \<^verbatim>\<open>'CANCELLED'\<close>, carry the prefix \<open>ST_\<close>, the statuses of
  a global transaction the prefix \<open>GT_\<close>: the source uses the same words for both.
\<close>

record seata_args =
  tx_id :: string
  item_id :: int
  quantity :: int

record seata_inventory_row =
  total :: int
  available :: int

datatype freeze_state = ST_TRIED | ST_CONFIRMED | ST_CANCELLED

record inventory_freeze_row =
  freeze_quantity :: int
  state :: freeze_state

record seata_db =
  seata_inventory :: "int \<rightharpoonup> seata_inventory_row"
  inventory_freeze :: "string \<times> int \<rightharpoonup> inventory_freeze_row"

datatype seata_error = QueryInventoryFailed | InventoryInsufficient int int

text \<open>
  \<^verbatim>\<open>InventoryRM.Try\<close> (lines 28-78): a freeze record of the transaction and item, in any
  state, makes Try return \<^verbatim>\<open>nil\<close> at once.
\<close>

definition Seata_InventoryRM_Try :: "seata_args \<Rightarrow> seata_db \<Rightarrow> seata_error option \<times> seata_db" where
  "Seata_InventoryRM_Try args db =
     (case inventory_freeze db (tx_id args, item_id args) of
        Some existState \<Rightarrow> (None, db)
      | None \<Rightarrow>
          (case seata_inventory db (item_id args) of
             None \<Rightarrow> (Some QueryInventoryFailed, db)
           | Some row \<Rightarrow>
               if available row < quantity args
               then (Some (InventoryInsufficient (available row) (quantity args)), db)
               else
                 (None,
                  db\<lparr>seata_inventory := (seata_inventory db)(item_id args \<mapsto>
                         row\<lparr>available := available row - quantity args\<rparr>),
                     inventory_freeze := (inventory_freeze db)((tx_id args, item_id args) \<mapsto>
                         \<lparr>freeze_quantity = quantity args, state = ST_TRIED\<rparr>)\<rparr>)))"

text \<open>
  \<^verbatim>\<open>InventoryRM.Confirm\<close> (lines 80-117): no record, or a record in state
  \<^verbatim>\<open>CONFIRMED\<close>, returns \<^verbatim>\<open>nil\<close>. In every other state the total is reduced by
  \<^verbatim>\<open>args["quantity"]\<close>; only the second statement asks for state \<^verbatim>\<open>TRIED\<close>.
\<close>

definition Seata_InventoryRM_Confirm :: "seata_args \<Rightarrow> seata_db \<Rightarrow> seata_error option \<times> seata_db" where
  "Seata_InventoryRM_Confirm args db =
     (case inventory_freeze db (tx_id args, item_id args) of
        None \<Rightarrow> (None, db)
      | Some fr \<Rightarrow>
          if state fr = ST_CONFIRMED then (None, db)
          else
            (None,
             db\<lparr>seata_inventory := update_row (item_id args)
                    (\<lambda>row. row\<lparr>total := total row - quantity args\<rparr>) (seata_inventory db),
                inventory_freeze :=
                    (if state fr = ST_TRIED
                     then (inventory_freeze db)((tx_id args, item_id args) \<mapsto> fr\<lparr>state := ST_CONFIRMED\<rparr>)
                     else inventory_freeze db)\<rparr>))"

text \<open>
  \<^verbatim>\<open>InventoryRM.Cancel\<close> (lines 119-156): no record, or a record in state
  \<^verbatim>\<open>CANCELLED\<close>, returns \<^verbatim>\<open>nil\<close>; otherwise the recorded quantity goes back to
  \<^verbatim>\<open>available\<close>.
\<close>

definition Seata_InventoryRM_Cancel :: "seata_args \<Rightarrow> seata_db \<Rightarrow> seata_error option \<times> seata_db" where
  "Seata_InventoryRM_Cancel args db =
     (case inventory_freeze db (tx_id args, item_id args) of
        None \<Rightarrow> (None, db)
      | Some fr \<Rightarrow>
          if state fr = ST_CANCELLED then (None, db)
          else
            (None,
             db\<lparr>seata_inventory := update_row (item_id args)
                    (\<lambda>row. row\<lparr>available := available row + freeze_quantity fr\<rparr>) (seata_inventory db),
                inventory_freeze :=
                    (if state fr = ST_TRIED \<or> state fr = ST_CONFIRMED
                     then (inventory_freeze db)((tx_id args, item_id args) \<mapsto> fr\<lparr>state := ST_CANCELLED\<rparr>)
                     else inventory_freeze db)\<rparr>))"

definition Seata_InventoryRM :: "(seata_args, seata_db, seata_error) TCCResource" where
  "Seata_InventoryRM =
     \<lparr>Try = Seata_InventoryRM_Try, Confirm = Seata_InventoryRM_Confirm, Cancel = Seata_InventoryRM_Cancel\<rparr>"

text \<open>
  \<^verbatim>\<open>ImprovedCoordinator\<close> (lines 336-475) keeps its resource managers in a Go map from the
  resource name to the manager and visits them with \<^verbatim>\<open>for resourceName, rm := range c.resources\<close>.
  Go does not fix the order in which \<^verbatim>\<open>range\<close> yields the entries of a map, and it may
  differ from one loop to the next. The sequence in which one loop yields the entries is
  an argument of the model: \<open>entries\<close>, some arrangement of the map's entries.
  The loop stops at the first manager that returns an error.
\<close>

fun range_resources ::
  "(('a, 's, 'e) TCCResource \<Rightarrow> 'a \<Rightarrow> 's \<Rightarrow> 'e option \<times> 's) \<Rightarrow> (string \<Rightarrow> string event) \<Rightarrow>
     (string \<times> ('a, 's, 'e) TCCResource) list \<Rightarrow> 'a \<Rightarrow> 's \<times> string event list \<Rightarrow>
     'e option \<times> ('s \<times> string event list)" where
  "range_resources method ev [] args st = (None, st)"
| "range_resources method ev ((resourceName, rm) # rest) args (s, tr) =
     (case method rm args s of
        (Some err, s') \<Rightarrow> (Some err, (s', tr @ [ev resourceName]))
      | (None, s') \<Rightarrow> range_resources method ev rest args (s', tr @ [ev resourceName]))"

text \<open>
  Table \<^verbatim>\<open>tcc_transaction\<close> is keyed by \<^verbatim>\<open>tx_id\<close>; the coordinator reads and writes its
  \<^verbatim>\<open>status\<close> only. Each method of the coordinator runs in one database transaction
  with a deferred \<^verbatim>\<open>Rollback\<close>: when it returns an error, the tables are the ones it
  started from. The calls it made are returned as well.
\<close>

datatype global_status =
  GT_TRYING | GT_TRIED | GT_CONFIRMING | GT_CONFIRMED | GT_CANCELLING | GT_CANCELLED | GT_FAILED

record 's coordinator_db =
  tcc_transaction :: "string \<rightharpoonup> global_status"
  rm_tables :: 's

datatype 'e coordinator_error = CreateGlobalTxFailed | InvalidStateForConfirm | RMFailed 'e

definition set_status_where ::
  "string \<Rightarrow> (global_status \<Rightarrow> bool) \<Rightarrow> global_status \<Rightarrow> (string \<rightharpoonup> global_status) \<Rightarrow>
     (string \<rightharpoonup> global_status)" where
  "set_status_where txID P new tbl =
     (case tbl txID of
        None \<Rightarrow> tbl
      | Some st \<Rightarrow> if P st then tbl(txID \<mapsto> new) else tbl)"

text \<open>
  \<^verbatim>\<open>StartTransaction\<close> (lines 352-390). \<^verbatim>\<open>args["tx_id"] = txID\<close> is the record update. The
  \<^verbatim>\<open>INSERT\<close> fails on a transaction id that is already a key.
\<close>

definition ImprovedCoordinator_StartTransaction ::
  "(string \<times> (seata_args, 's, 'e) TCCResource) list \<Rightarrow> string \<Rightarrow> seata_args \<Rightarrow> 's coordinator_db \<Rightarrow>
     'e coordinator_error option \<times> 's coordinator_db \<times> string event list" where
  "ImprovedCoordinator_StartTransaction entries txID args0 db =
     (let args = args0\<lparr>tx_id := txID\<rparr> in
      case tcc_transaction db txID of
        Some st \<Rightarrow> (Some CreateGlobalTxFailed, db, [])
      | None \<Rightarrow>
          (case range_resources Try TryCall entries args (rm_tables db, []) of
             (Some err, (s', tr)) \<Rightarrow> (Some (RMFailed err), db, tr)
           | (None, (s', tr)) \<Rightarrow>
               (None,
                \<lparr>tcc_transaction = set_status_where txID (\<lambda>st. st = GT_TRYING) GT_TRIED
                     ((tcc_transaction db)(txID \<mapsto> GT_TRYING)),
                 rm_tables = s'\<rparr>,
                tr)))"

text \<open>\<^verbatim>\<open>ImprovedCoordinator.Confirm\<close> (lines 392-435).\<close>

definition ImprovedCoordinator_Confirm ::
  "(string \<times> (seata_args, 's, 'e) TCCResource) list \<Rightarrow> string \<Rightarrow> seata_args \<Rightarrow> 's coordinator_db \<Rightarrow>
     'e coordinator_error option \<times> 's coordinator_db \<times> string event list" where
  "ImprovedCoordinator_Confirm entries txID args0 db =
     (let args = args0\<lparr>tx_id := txID\<rparr>;
          rowsAffected = (if tcc_transaction db txID = Some GT_TRIED then 1 else 0 :: nat) in
      if rowsAffected = 0 then (Some InvalidStateForConfirm, db, [])
      else
        (case range_resources Confirm ConfirmCall entries args (rm_tables db, []) of
           (Some err, (s', tr)) \<Rightarrow> (Some (RMFailed err), db, tr)
         | (None, (s', tr)) \<Rightarrow>
             (None,
              \<lparr>tcc_transaction = set_status_where txID (\<lambda>st. st = GT_CONFIRMING) GT_CONFIRMED
                   (set_status_where txID (\<lambda>st. st = GT_TRIED) GT_CONFIRMING (tcc_transaction db)),
               rm_tables = s'\<rparr>,
              tr)))"

text \<open>
  \<^verbatim>\<open>ImprovedCoordinator.Cancel\<close> (lines 437-475). Its first statement,
  \<^verbatim>\<open>UPDATE tcc_transaction SET status = 'CANCELLING' ... WHERE tx_id = ? AND status IN ('TRYING', 'TRIED', 'CONFIRMING')\<close>,
  is \<open>mark_cancelling\<close>; the number of rows it changes is not looked at.
\<close>

definition mark_cancelling :: "string \<Rightarrow> (string \<rightharpoonup> global_status) \<Rightarrow> (string \<rightharpoonup> global_status)" where
  "mark_cancelling txID tbl =
     set_status_where txID (\<lambda>st. st = GT_TRYING \<or> st = GT_TRIED \<or> st = GT_CONFIRMING) GT_CANCELLING tbl"

definition ImprovedCoordinator_Cancel ::
  "(string \<times> (seata_args, 's, 'e) TCCResource) list \<Rightarrow> string \<Rightarrow> seata_args \<Rightarrow> 's coordinator_db \<Rightarrow>
     'e coordinator_error option \<times> 's coordinator_db \<times> string event list" where
  "ImprovedCoordinator_Cancel entries txID args0 db =
     (let args = args0\<lparr>tx_id := txID\<rparr> in
      case range_resources Cancel CancelCall entries args (rm_tables db, []) of
        (Some err, (s', tr)) \<Rightarrow> (Some (RMFailed err), db, tr)
      | (None, (s', tr)) \<Rightarrow>
          (None,
           \<lparr>tcc_transaction = set_status_where txID (\<lambda>st. st = GT_CANCELLING) GT_CANCELLED
                (mark_cancelling txID (tcc_transaction db)),
            rm_tables = s'\<rparr>,
           tr))"


text \<open>
  The coordinator does what its caller asks for: \<^verbatim>\<open>main\<close> (lines 477-534) calls
  \<^verbatim>\<open>StartTransaction\<close>, then \<^verbatim>\<open>Confirm\<close>, and \<^verbatim>\<open>Cancel\<close> after either returned an error.
  A request is one call of one of the three methods, with the sequence in which its loop
  yields the managers; \<open>ImprovedCoordinator_serve\<close> gives the committed tables after it,
  \<open>ImprovedCoordinator_run\<close> those after a sequence of requests.
\<close>

datatype request_kind = RequestStart | RequestConfirm | RequestCancel

type_synonym ('s, 'e) coordinator_request =
  "request_kind \<times> (string \<times> (seata_args, 's, 'e) TCCResource) list \<times> string \<times> seata_args"

fun ImprovedCoordinator_serve ::
  "'s coordinator_db \<Rightarrow> ('s, 'e) coordinator_request \<Rightarrow> 's coordinator_db" where
  "ImprovedCoordinator_serve db (RequestStart, entries, txID, args) =
     fst (snd (ImprovedCoordinator_StartTransaction entries txID args db))"
| "ImprovedCoordinator_serve db (RequestConfirm, entries, txID, args) =
     fst (snd (ImprovedCoordinator_Confirm entries txID args db))"
| "ImprovedCoordinator_serve db (RequestCancel, entries, txID, args) =
     fst (snd (ImprovedCoordinator_Cancel entries txID args db))"

definition ImprovedCoordinator_run ::
  "('s, 'e) coordinator_request list \<Rightarrow> 's coordinator_db \<Rightarrow> 's coordinator_db" where
  "ImprovedCoordinator_run requests db = foldl ImprovedCoordinator_serve db requests"
section \<open>Direct-deduct prototype (the file with \<^verbatim>\<open>SeckillDirectTCCManager\<close>)\<close>

text \<open>
  Table \<^verbatim>\<open>seckill_inventory\<close> of this prototype (\<^verbatim>\<open>product_id\<close> unique) has the counters
  \<^verbatim>\<open>stock\<close> and \<^verbatim>\<open>sold_count\<close> and a \<^verbatim>\<open>status\<close>; there is no frozen counter. Table
  \<^verbatim>\<open>inventory_deduct_log\<close> has no unique key: a list of rows. Its \<^verbatim>\<open>updated_at\<close> is read by
  \<^verbatim>\<open>ORDER BY updated_at DESC LIMIT 1\<close>, so the rows carry it and the tables carry the
  database clock \<^verbatim>\<open>NOW()\<close> as \<open>db_now\<close>. Among rows of equal \<^verbatim>\<open>updated_at\<close> MySQL may
  yield any first; the model takes the one inserted first. The operation types
  \<^verbatim>\<open>'CONFIRMED'\<close> and \<^verbatim>\<open>'CANCELLED'\<close> carry the prefix \<open>OP_\<close>.
\<close>

type_synonym SeckillDirectTCCContext = SeckillTCCContext

datatype inventory_status = ACTIVE | INACTIVE

record direct_inventory_row =
  d_stock :: int
  d_sold_count :: int
  d_status :: inventory_status

datatype operation_type = TRY_DEDUCT | OP_CONFIRMED | OP_CANCELLED

record deduct_log_row =
  log_transaction_id :: string
  log_product_id :: int
  log_quantity :: int
  log_operation_type :: operation_type
  log_updated_at :: int

record direct_db =
  direct_inventory :: "int \<rightharpoonup> direct_inventory_row"
  inventory_deduct_log :: "deduct_log_row list"
  db_now :: int

text \<open>
  The errors, by the message of the source: \<open>StockInsufficientOrUnavailable\<close> (line 106),
  \<open>TryRecordNotFound\<close> (line 147), \<open>AbnormalState t\<close> (line 160).
\<close>

datatype direct_error =
  StockInsufficientOrUnavailable
  | TryRecordNotFound
  | AbnormalState operation_type

definition latest_log :: "string \<Rightarrow> deduct_log_row list \<Rightarrow> deduct_log_row option" where
  "latest_log txid rows =
     (case sort_key (\<lambda>r. - log_updated_at r) (filter (\<lambda>r. log_transaction_id r = txid) rows) of
        [] \<Rightarrow> None
      | r # _ \<Rightarrow> Some r)"

text \<open>
  \<^verbatim>\<open>DirectInventoryResource.Try\<close> (lines 59-126): a log row of the transaction makes Try
  return \<^verbatim>\<open>nil\<close> at once; otherwise the conditional
  \<^verbatim>\<open>UPDATE ... WHERE product_id = ? AND stock >= ? AND status = 'ACTIVE'\<close> decides, by the
  number of rows it changed.
\<close>

definition DirectInventoryResource_Try ::
  "SeckillDirectTCCContext \<Rightarrow> direct_db \<Rightarrow> direct_error option \<times> direct_db" where
  "DirectInventoryResource_Try ctx db =
     (let count = length (filter
            (\<lambda>r. log_transaction_id r = TransactionID ctx \<and>
                 (log_operation_type r = TRY_DEDUCT \<or> log_operation_type r = OP_CONFIRMED \<or>
                  log_operation_type r = OP_CANCELLED))
            (inventory_deduct_log db)) in
      if count > 0 then (None, db)
      else
        let rowsAffected =
              (case direct_inventory db (ProductID ctx) of
                 None \<Rightarrow> 0
               | Some row \<Rightarrow>
                   (if d_stock row \<ge> Quantity ctx \<and> d_status row = ACTIVE then 1 else 0 :: nat)) in
        if rowsAffected = 0 then (Some StockInsufficientOrUnavailable, db)
        else
          (None,
           db\<lparr>direct_inventory := update_row (ProductID ctx)
                  (\<lambda>row. row\<lparr>d_stock := d_stock row - Quantity ctx,
                             d_sold_count := d_sold_count row + Quantity ctx\<rparr>)
                  (direct_inventory db),
              inventory_deduct_log := inventory_deduct_log db @
                  [\<lparr>log_transaction_id = TransactionID ctx, log_product_id = ProductID ctx,
                    log_quantity = Quantity ctx, log_operation_type = TRY_DEDUCT,
                    log_updated_at = db_now db\<rparr>]\<rparr>))"

text \<open>\<^verbatim>\<open>DirectInventoryResource.Confirm\<close> (lines 129-180).\<close>

definition DirectInventoryResource_Confirm ::
  "SeckillDirectTCCContext \<Rightarrow> direct_db \<Rightarrow> direct_error option \<times> direct_db" where
  "DirectInventoryResource_Confirm ctx db =
     (case latest_log (TransactionID ctx) (inventory_deduct_log db) of
        None \<Rightarrow> (Some TryRecordNotFound, db)
      | Some r \<Rightarrow>
          let currentType = log_operation_type r in
          if currentType = OP_CONFIRMED then (None, db)
          else if currentType \<noteq> TRY_DEDUCT then (Some (AbnormalState currentType), db)
          else
            (None,
             db\<lparr>inventory_deduct_log := update_where
                    (\<lambda>r. log_transaction_id r = TransactionID ctx \<and> log_operation_type r = TRY_DEDUCT)
                    (\<lambda>r. r\<lparr>log_operation_type := OP_CONFIRMED, log_updated_at := db_now db\<rparr>)
                    (inventory_deduct_log db)\<rparr>))"

text \<open>
  \<^verbatim>\<open>DirectInventoryResource.Cancel\<close> (lines 183-250): the quantity comes from the latest
  log row of the transaction, the product from the context.
\<close>

definition DirectInventoryResource_Cancel ::
  "SeckillDirectTCCContext \<Rightarrow> direct_db \<Rightarrow> direct_error option \<times> direct_db" where
  "DirectInventoryResource_Cancel ctx db =
     (case latest_log (TransactionID ctx) (inventory_deduct_log db) of
        None \<Rightarrow> (None, db)
      | Some r \<Rightarrow>
          let currentType = log_operation_type r; quantity = log_quantity r in
          if currentType = OP_CANCELLED then (None, db)
          else if currentType \<noteq> TRY_DEDUCT \<and> currentType \<noteq> OP_CONFIRMED then (None, db)
          else
            (None,
             db\<lparr>direct_inventory := update_row (ProductID ctx)
                    (\<lambda>row. row\<lparr>d_stock := d_stock row + quantity,
                               d_sold_count := d_sold_count row - quantity\<rparr>)
                    (direct_inventory db),
                inventory_deduct_log := update_where
                    (\<lambda>r. log_transaction_id r = TransactionID ctx)
                    (\<lambda>r. r\<lparr>log_operation_type := OP_CANCELLED, log_updated_at := db_now db\<rparr>)
                    (inventory_deduct_log db)\<rparr>))"

definition DirectInventoryResource ::
  "(SeckillDirectTCCContext, direct_db, direct_error) TCCResource" where
  "DirectInventoryResource =
     \<lparr>Try = DirectInventoryResource_Try,
      Confirm = DirectInventoryResource_Confirm,
      Cancel = DirectInventoryResource_Cancel\<rparr>"

text \<open>
  \<^verbatim>\<open>SeckillDirectTCCManager\<close> (lines 607-736). Beside the resources' tables the manager
  writes table \<^verbatim>\<open>tcc_transaction_log\<close> (keyed by the transaction id) and table
  \<^verbatim>\<open>tcc_resource_status\<close> (unique key: transaction, resource index, phase).
  The three functions \<^verbatim>\<open>markResourceTryCompleted\<close>, \<^verbatim>\<open>markResourceConfirmCompleted\<close> and
  \<^verbatim>\<open>markResourceCancelCompleted\<close> (lines 901-937) differ in the phase they write only: with
  \<^verbatim>\<open>INSERT ... ON DUPLICATE KEY UPDATE status = 'completed'\<close> a new row gets the resource
  type and the status \<^verbatim>\<open>'completed'\<close>, a row already there keeps its resource type. Each
  reads \<^verbatim>\<open>resourceTypes[resourceIndex]\<close> from a three-element slice: an index of three or
  more is a run-time panic, the result \<open>None\<close> of the model.
  \<^verbatim>\<open>NewSeckillDirectTCCManager\<close> builds the manager with three resources.
\<close>

datatype TCCTransactionStatus = TCCStatusTried | TCCStatusConfirmed | TCCStatusCancelled

datatype tcc_phase = PhaseTry | PhaseConfirm | PhaseCancel

record 's direct_manager_state =
  resource_tables :: 's
  tcc_transaction_log :: "string \<rightharpoonup> TCCTransactionStatus"
  tcc_resource_status :: "string \<times> nat \<times> tcc_phase \<rightharpoonup> string \<times> string"
  calls :: "nat event list"

datatype 'e direct_tcc_error = TransactionCancelled | SeckillFailed 'e | ConfirmFailed 'e

definition resourceTypes :: "string list" where
  "resourceTypes = [''inventory'', ''account'', ''order'']"

definition NewSeckillDirectTCCManager ::
  "(SeckillDirectTCCContext, 's, 'e) TCCResource \<Rightarrow> (SeckillDirectTCCContext, 's, 'e) TCCResource \<Rightarrow>
     (SeckillDirectTCCContext, 's, 'e) TCCResource \<Rightarrow> (SeckillDirectTCCContext, 's, 'e) TCCResource list" where
  "NewSeckillDirectTCCManager inventory account order = [inventory, account, order]"

definition logTCCTransaction ::
  "string \<Rightarrow> TCCTransactionStatus \<Rightarrow> 's direct_manager_state \<Rightarrow> 's direct_manager_state" where
  "logTCCTransaction transactionID status st =
     st\<lparr>tcc_transaction_log := (tcc_transaction_log st)(transactionID \<mapsto> status)\<rparr>"

definition markResourceCompleted ::
  "tcc_phase \<Rightarrow> string \<Rightarrow> nat \<Rightarrow> 's direct_manager_state \<Rightarrow> 's direct_manager_state option" where
  "markResourceCompleted phase transactionID resourceIndex st =
     (if resourceIndex < length resourceTypes
      then
        let resourceType = resourceTypes ! resourceIndex;
            key = (transactionID, resourceIndex, phase) in
        Some (st\<lparr>tcc_resource_status :=
          (case tcc_resource_status st key of
             None \<Rightarrow> (tcc_resource_status st)(key \<mapsto> (resourceType, ''completed''))
           | Some (ty, status) \<Rightarrow> (tcc_resource_status st)(key \<mapsto> (ty, ''completed'')))\<rparr>)
      else None)"

abbreviation markResourceTryCompleted ::
  "string \<Rightarrow> nat \<Rightarrow> 's direct_manager_state \<Rightarrow> 's direct_manager_state option" where
  "markResourceTryCompleted \<equiv> markResourceCompleted PhaseTry"

abbreviation markResourceConfirmCompleted ::
  "string \<Rightarrow> nat \<Rightarrow> 's direct_manager_state \<Rightarrow> 's direct_manager_state option" where
  "markResourceConfirmCompleted \<equiv> markResourceCompleted PhaseConfirm"

abbreviation markResourceCancelCompleted ::
  "string \<Rightarrow> nat \<Rightarrow> 's direct_manager_state \<Rightarrow> 's direct_manager_state option" where
  "markResourceCancelCompleted \<equiv> markResourceCompleted PhaseCancel"

text \<open>
  One resource call of the manager: the resource works on the resources' tables, and the
  call is recorded.
\<close>

definition call_resource ::
  "('c \<Rightarrow> 's \<Rightarrow> 'e option \<times> 's) \<Rightarrow> nat event \<Rightarrow> 'c \<Rightarrow> 's direct_manager_state \<Rightarrow>
     'e option \<times> 's direct_manager_state" where
  "call_resource method ev ctx st =
     (case method ctx (resource_tables st) of
        (res, s') \<Rightarrow> (res, st\<lparr>resource_tables := s', calls := calls st @ [ev]\<rparr>))"

text \<open>
  The inner loop of \<^verbatim>\<open>tryResources\<close> (lines 696-702), \<^verbatim>\<open>for j := i - 1; j >= 0; j--\<close>: the
  resources before the failed one are cancelled, last first.
\<close>

fun compensate_tried ::
  "(SeckillDirectTCCContext, 's, 'e) TCCResource list \<Rightarrow> nat \<Rightarrow> SeckillDirectTCCContext \<Rightarrow>
     's direct_manager_state \<Rightarrow> 's direct_manager_state option" where
  "compensate_tried resources 0 ctx st = Some st"
| "compensate_tried resources (Suc j) ctx st =
     (case call_resource (Cancel (resources ! j)) (CancelCall j) ctx st of
        (Some cancelErr, st') \<Rightarrow> compensate_tried resources j ctx st'
      | (None, st') \<Rightarrow>
          (case markResourceCancelCompleted (TransactionID ctx) j st' of
             None \<Rightarrow> None
           | Some st'' \<Rightarrow> compensate_tried resources j ctx st''))"

text \<open>
  \<^verbatim>\<open>tryResources\<close> (lines 690-709); the first argument is the whole slice, the second the
  part still to visit, the third the index of its head.
\<close>

fun tryResources_from ::
  "(SeckillDirectTCCContext, 's, 'e) TCCResource list \<Rightarrow>
     (SeckillDirectTCCContext, 's, 'e) TCCResource list \<Rightarrow> nat \<Rightarrow> SeckillDirectTCCContext \<Rightarrow>
     's direct_manager_state \<Rightarrow> ('e option \<times> 's direct_manager_state) option" where
  "tryResources_from resources [] i ctx st = Some (None, st)"
| "tryResources_from resources (resource # rest) i ctx st =
     (case call_resource (Try resource) (TryCall i) ctx st of
        (Some err, st') \<Rightarrow>
          (case compensate_tried resources i ctx st' of
             None \<Rightarrow> None
           | Some st'' \<Rightarrow> Some (Some err, st''))
      | (None, st') \<Rightarrow>
          (case markResourceTryCompleted (TransactionID ctx) i st' of
             None \<Rightarrow> None
           | Some st'' \<Rightarrow> tryResources_from resources rest (Suc i) ctx st''))"

definition tryResources ::
  "(SeckillDirectTCCContext, 's, 'e) TCCResource list \<Rightarrow> SeckillDirectTCCContext \<Rightarrow>
     's direct_manager_state \<Rightarrow> ('e option \<times> 's direct_manager_state) option" where
  "tryResources resources ctx st = tryResources_from resources resources 0 ctx st"

text \<open>\<^verbatim>\<open>confirmResources\<close> (lines 712-723).\<close>

fun confirmResources_from ::
  "(SeckillDirectTCCContext, 's, 'e) TCCResource list \<Rightarrow> nat \<Rightarrow> SeckillDirectTCCContext \<Rightarrow>
     's direct_manager_state \<Rightarrow> ('e option \<times> 's direct_manager_state) option" where
  "confirmResources_from [] i ctx st = Some (None, st)"
| "confirmResources_from (resource # rest) i ctx st =
     (case call_resource (Confirm resource) (ConfirmCall i) ctx st of
        (Some err, st') \<Rightarrow> Some (Some err, st')
      | (None, st') \<Rightarrow>
          (case markResourceConfirmCompleted (TransactionID ctx) i st' of
             None \<Rightarrow> None
           | Some st'' \<Rightarrow> confirmResources_from rest (Suc i) ctx st''))"

text \<open>\<^verbatim>\<open>cancelResources\<close> of this manager (lines 726-736).\<close>

fun direct_cancelResources_from ::
  "(SeckillDirectTCCContext, 's, 'e) TCCResource list \<Rightarrow> nat \<Rightarrow> SeckillDirectTCCContext \<Rightarrow>
     's direct_manager_state \<Rightarrow> 's direct_manager_state option" where
  "direct_cancelResources_from [] i ctx st = Some st"
| "direct_cancelResources_from (resource # rest) i ctx st =
     (case call_resource (Cancel resource) (CancelCall i) ctx st of
        (Some err, st') \<Rightarrow> direct_cancelResources_from rest (Suc i) ctx st'
      | (None, st') \<Rightarrow>
          (case markResourceCancelCompleted (TransactionID ctx) i st' of
             None \<Rightarrow> None
           | Some st'' \<Rightarrow> direct_cancelResources_from rest (Suc i) ctx st''))"

text \<open>
  \<^verbatim>\<open>ExecuteSeckill\<close> (lines 636-687). A transaction already logged as confirmed or
  cancelled returns at once. The result of \<^verbatim>\<open>logTCCTransaction\<close> is only logged.
\<close>

definition ExecuteSeckill ::
  "(SeckillDirectTCCContext, 's, 'e) TCCResource list \<Rightarrow> SeckillDirectTCCContext \<Rightarrow>
     's direct_manager_state \<Rightarrow> ('e direct_tcc_error option \<times> 's direct_manager_state) option" where
  "ExecuteSeckill resources ctx st =
     (case tcc_transaction_log st (TransactionID ctx) of
        Some TCCStatusConfirmed \<Rightarrow> Some (None, st)
      | Some TCCStatusCancelled \<Rightarrow> Some (Some TransactionCancelled, st)
      | _ \<Rightarrow>
          (case tryResources resources ctx st of
             None \<Rightarrow> None
           | Some (Some err, st1) \<Rightarrow>
               (case direct_cancelResources_from resources 0 ctx
                       (logTCCTransaction (TransactionID ctx) TCCStatusCancelled st1) of
                  None \<Rightarrow> None
                | Some st2 \<Rightarrow> Some (Some (SeckillFailed err), st2))
           | Some (None, st1) \<Rightarrow>
               (case confirmResources_from resources 0 ctx
                       (logTCCTransaction (TransactionID ctx) TCCStatusTried st1) of
                  None \<Rightarrow> None
                | Some (Some err, st2) \<Rightarrow>
                    (case direct_cancelResources_from resources 0 ctx
                            (logTCCTransaction (TransactionID ctx) TCCStatusCancelled st2) of
                       None \<Rightarrow> None
                     | Some st3 \<Rightarrow> Some (Some (ConfirmFailed err), st3))
                | Some (None, st2) \<Rightarrow>
                    Some (None, logTCCTransaction (TransactionID ctx) TCCStatusConfirmed st2))))"


text \<open>
  To say what a run of the manager has written to \<^verbatim>\<open>tcc_resource_status\<close>: every row of
  the table after the run is a row it had before or a row with the status
  \<^verbatim>\<open>'completed'\<close>, the only status \<^verbatim>\<open>markResourceTryCompleted\<close>,
  \<^verbatim>\<open>markResourceConfirmCompleted\<close> and \<^verbatim>\<open>markResourceCancelCompleted\<close> write.
\<close>

definition only_marks_added :: "'s direct_manager_state \<Rightarrow> 's direct_manager_state \<Rightarrow> bool" where
  "only_marks_added st st' \<longleftrightarrow>
     (\<forall>key. tcc_resource_status st' key = tcc_resource_status st key \<or>
            (\<exists>resourceType. tcc_resource_status st' key = Some (resourceType, ''completed'')))"
section \<open>Version-based prototype (seckill\_standard.go)\<close>

text \<open>
  The argument bundle of this prototype is kept as the Go map it is: the managers read
  it with type assertions such as \<^verbatim>\<open>args["account_id"].(int)\<close>, which panic on a missing
  entry and on an entry of another type. A manager that panics is the result
  \<open>TypeAssertionPanic\<close> with the tables as they were. Nothing in the file recovers a
  panic: a method of the coordinator in which a manager panics does not return (the
  result \<open>Panics\<close>), and the database transaction it had open is never committed.
\<close>

datatype go_value = GoInt int | GoString string | GoFloat64 rat

type_synonym go_args = "string \<rightharpoonup> go_value"

datatype std_error = ErrNoRows | TypeAssertionPanic

datatype 'a go_result = Returns 'a | Panics

definition assert_int :: "go_args \<Rightarrow> string \<Rightarrow> int option" where
  "assert_int args k = (case args k of Some (GoInt n) \<Rightarrow> Some n | _ \<Rightarrow> None)"

text \<open>
  \<^verbatim>\<open>AccountRM\<close> works on the table \<^verbatim>\<open>account\<close>, keyed by \<^verbatim>\<open>account_id\<close>; the columns it
  touches are \<^verbatim>\<open>balance\<close> and \<^verbatim>\<open>version\<close>.
\<close>

record account_row =
  balance :: int
  version :: int

type_synonym account_table = "int \<rightharpoonup> account_row"

text \<open>
  \<^verbatim>\<open>AccountRM.Try\<close> (lines 72-86): read the version under \<^verbatim>\<open>FOR UPDATE\<close>, then
  \<^verbatim>\<open>UPDATE account SET balance = balance - ?, version = version + 1 WHERE account_id = ? AND version = ?\<close>.
  The row is locked, so the version read is the version matched.
\<close>

definition Std_AccountRM_Try :: "go_args \<Rightarrow> account_table \<Rightarrow> std_error option \<times> account_table" where
  "Std_AccountRM_Try args tbl =
     (case assert_int args ''account_id'' of
        None \<Rightarrow> (Some TypeAssertionPanic, tbl)
      | Some accountID \<Rightarrow>
          (case assert_int args ''amount'' of
             None \<Rightarrow> (Some TypeAssertionPanic, tbl)
           | Some amount \<Rightarrow>
               (case tbl accountID of
                  None \<Rightarrow> (Some ErrNoRows, tbl)
                | Some row \<Rightarrow>
                    (None, tbl(accountID \<mapsto>
                       row\<lparr>balance := balance row - amount, version := version row + 1\<rparr>)))))"

text \<open>
  \<^verbatim>\<open>AccountRM.Confirm\<close> (lines 88-101): the same shape, with
  \<^verbatim>\<open>SET balance = balance + ?, version = version + 1\<close>.
\<close>

definition Std_AccountRM_Confirm :: "go_args \<Rightarrow> account_table \<Rightarrow> std_error option \<times> account_table" where
  "Std_AccountRM_Confirm args tbl =
     (case assert_int args ''account_id'' of
        None \<Rightarrow> (Some TypeAssertionPanic, tbl)
      | Some accountID \<Rightarrow>
          (case assert_int args ''amount'' of
             None \<Rightarrow> (Some TypeAssertionPanic, tbl)
           | Some amount \<Rightarrow>
               (case tbl accountID of
                  None \<Rightarrow> (Some ErrNoRows, tbl)
                | Some row \<Rightarrow>
                    (None, tbl(accountID \<mapsto>
                       row\<lparr>balance := balance row + amount, version := version row + 1\<rparr>)))))"

text \<open>
  \<^verbatim>\<open>AccountRM.Cancel\<close> (lines 103-116) has the statements of \<^verbatim>\<open>AccountRM.Confirm\<close>.
\<close>

definition Std_AccountRM_Cancel :: "go_args \<Rightarrow> account_table \<Rightarrow> std_error option \<times> account_table" where
  "Std_AccountRM_Cancel args tbl =
     (case assert_int args ''account_id'' of
        None \<Rightarrow> (Some TypeAssertionPanic, tbl)
      | Some accountID \<Rightarrow>
          (case assert_int args ''amount'' of
             None \<Rightarrow> (Some TypeAssertionPanic, tbl)
           | Some amount \<Rightarrow>
               (case tbl accountID of
                  None \<Rightarrow> (Some ErrNoRows, tbl)
                | Some row \<Rightarrow>
                    (None, tbl(accountID \<mapsto>
                       row\<lparr>balance := balance row + amount, version := version row + 1\<rparr>)))))"

text \<open>
  \<^verbatim>\<open>InventoryRM\<close> of this file (lines 20-66) works on the table \<^verbatim>\<open>seckill_inventory\<close>,
  keyed by \<^verbatim>\<open>item_id\<close>, with the counters \<^verbatim>\<open>frozen\<close>, \<^verbatim>\<open>available\<close> and \<^verbatim>\<open>total\<close> and a
  \<^verbatim>\<open>version\<close> (prefix \<open>si_\<close>). Each method reads \<^verbatim>\<open>args["item_id"].(int)\<close> and
  \<^verbatim>\<open>args["quantity"].(int)\<close> (\<open>qty\<close>), reads the version of the item and updates the row.
\<close>

record std_inventory_row =
  si_frozen :: int
  si_available :: int
  si_total :: int
  si_version :: int

type_synonym std_inventory_table = "int \<rightharpoonup> std_inventory_row"

definition Std_InventoryRM_Try ::
  "go_args \<Rightarrow> std_inventory_table \<Rightarrow> std_error option \<times> std_inventory_table" where
  "Std_InventoryRM_Try args tbl =
     (case assert_int args ''item_id'' of
        None \<Rightarrow> (Some TypeAssertionPanic, tbl)
      | Some itemID \<Rightarrow>
          (case assert_int args ''quantity'' of
             None \<Rightarrow> (Some TypeAssertionPanic, tbl)
           | Some qty \<Rightarrow>
               (case tbl itemID of
                  None \<Rightarrow> (Some ErrNoRows, tbl)
                | Some row \<Rightarrow>
                    (None, tbl(itemID \<mapsto>
                       row\<lparr>si_frozen := si_frozen row + qty,
                           si_available := si_available row - qty,
                           si_version := si_version row + 1\<rparr>)))))"

definition Std_InventoryRM_Confirm ::
  "go_args \<Rightarrow> std_inventory_table \<Rightarrow> std_error option \<times> std_inventory_table" where
  "Std_InventoryRM_Confirm args tbl =
     (case assert_int args ''item_id'' of
        None \<Rightarrow> (Some TypeAssertionPanic, tbl)
      | Some itemID \<Rightarrow>
          (case assert_int args ''quantity'' of
             None \<Rightarrow> (Some TypeAssertionPanic, tbl)
           | Some qty \<Rightarrow>
               (case tbl itemID of
                  None \<Rightarrow> (Some ErrNoRows, tbl)
                | Some row \<Rightarrow>
                    (None, tbl(itemID \<mapsto>
                       row\<lparr>si_frozen := si_frozen row - qty,
                           si_total := si_total row - qty,
                           si_version := si_version row + 1\<rparr>)))))"

definition Std_InventoryRM_Cancel ::
  "go_args \<Rightarrow> std_inventory_table \<Rightarrow> std_error option \<times> std_inventory_table" where
  "Std_InventoryRM_Cancel args tbl =
     (case assert_int args ''item_id'' of
        None \<Rightarrow> (Some TypeAssertionPanic, tbl)
      | Some itemID \<Rightarrow>
          (case assert_int args ''quantity'' of
             None \<Rightarrow> (Some TypeAssertionPanic, tbl)
           | Some qty \<Rightarrow>
               (case tbl itemID of
                  None \<Rightarrow> (Some ErrNoRows, tbl)
                | Some row \<Rightarrow>
                    (None, tbl(itemID \<mapsto>
                       row\<lparr>si_frozen := si_frozen row - qty,
                           si_available := si_available row + qty,
                           si_version := si_version row + 1\<rparr>)))))"

text \<open>
  The two managers as resources of the coordinator, over the tables of both. The third
  manager of \<^verbatim>\<open>NewCoordinator\<close>, \<^verbatim>\<open>OrderRM\<close>, is left out: the table \<^verbatim>\<open>seckill_order\<close> and
  the key its \<^verbatim>\<open>INSERT\<close> leaves to the database are defined nowhere in the repository.
  Its Confirm and its Cancel begin with \<^verbatim>\<open>args["order_id"].(int)\<close>.
\<close>

record std_tables =
  std_inventory :: std_inventory_table
  std_account :: account_table

definition on_inventory ::
  "(go_args \<Rightarrow> std_inventory_table \<Rightarrow> std_error option \<times> std_inventory_table) \<Rightarrow>
     go_args \<Rightarrow> std_tables \<Rightarrow> std_error option \<times> std_tables" where
  "on_inventory method args s =
     (case method args (std_inventory s) of (err, tbl) \<Rightarrow> (err, s\<lparr>std_inventory := tbl\<rparr>))"

definition on_account ::
  "(go_args \<Rightarrow> account_table \<Rightarrow> std_error option \<times> account_table) \<Rightarrow>
     go_args \<Rightarrow> std_tables \<Rightarrow> std_error option \<times> std_tables" where
  "on_account method args s =
     (case method args (std_account s) of (err, tbl) \<Rightarrow> (err, s\<lparr>std_account := tbl\<rparr>))"

definition Std_InventoryRM :: "(go_args, std_tables, std_error) TCCResource" where
  "Std_InventoryRM =
     \<lparr>Try = on_inventory Std_InventoryRM_Try, Confirm = on_inventory Std_InventoryRM_Confirm,
      Cancel = on_inventory Std_InventoryRM_Cancel\<rparr>"

definition Std_AccountRM :: "(go_args, std_tables, std_error) TCCResource" where
  "Std_AccountRM =
     \<lparr>Try = on_account Std_AccountRM_Try, Confirm = on_account Std_AccountRM_Confirm,
      Cancel = on_account Std_AccountRM_Cancel\<rparr>"

text \<open>
  Table \<^verbatim>\<open>tcc_transaction\<close> with the columns of concept\_clarification.sql that the
  sweepers read: status, retry count, maximal retry count, timeout (nullable), creation
  and update time. Times are seconds. The table is the list of its rows, since the
  sweepers select from it; \<^verbatim>\<open>tx_id\<close> is its primary key. Table \<^verbatim>\<open>tcc_branch\<close> has the transaction, the resource and a
  status (prefix \<open>BR_\<close>).
\<close>

record tcc_transaction_row =
  t_tx_id :: string
  t_status :: global_status
  t_retry_count :: nat
  t_max_retry :: nat
  t_timeout_time :: "int option"
  t_create_time :: int
  t_update_time :: int

datatype branch_status = BR_PREPARED | BR_CONFIRMED | BR_CANCELLED

record tcc_branch_row =
  b_tx_id :: string
  b_resource_id :: string
  b_status :: branch_status

record 's std_db =
  std_tcc_transaction :: "tcc_transaction_row list"
  std_tcc_branch :: "tcc_branch_row list"
  std_rm_tables :: 's

datatype 'e std_coordinator_error = InvalidStateForConfirmStd | InvalidStateForCancelStd | RMFailedStd 'e

definition set_t_status ::
  "int \<Rightarrow> string \<Rightarrow> global_status \<Rightarrow> global_status \<Rightarrow> tcc_transaction_row list \<Rightarrow>
     tcc_transaction_row list" where
  "set_t_status now txID old new rows =
     update_where (\<lambda>r. t_tx_id r = txID \<and> t_status r = old)
       (\<lambda>r. r\<lparr>t_status := new, t_update_time := now\<rparr>) rows"

text \<open>
  \<^verbatim>\<open>Coordinator.Confirm\<close> (lines 214-243) and \<^verbatim>\<open>Coordinator.Cancel\<close> (lines 245-275): both
  ask for status \<^verbatim>\<open>TRIED\<close> and return an error when no row has it; both roll back
  before they return an error. The resource managers are again the entries of a Go map,
  in the sequence \<open>entries\<close> the loop yields them; \<open>now\<close> is the database clock. The loop
  ends at the first manager that returns an error or panics.
\<close>

definition Coordinator_Confirm ::
  "(string \<times> (go_args, 's, std_error) TCCResource) list \<Rightarrow> int \<Rightarrow> string \<Rightarrow> go_args \<Rightarrow> 's std_db \<Rightarrow>
     (std_error std_coordinator_error option \<times> 's std_db) go_result" where
  "Coordinator_Confirm entries now txID args db =
     (let rows = length (filter (\<lambda>r. t_tx_id r = txID \<and> t_status r = GT_TRIED) (std_tcc_transaction db)) in
      if rows = 0 then Returns (Some InvalidStateForConfirmStd, db)
      else
        (case range_resources Confirm ConfirmCall entries args (std_rm_tables db, []) of
           (Some err, st) \<Rightarrow>
             if err = TypeAssertionPanic then Panics else Returns (Some (RMFailedStd err), db)
         | (None, (s', tr)) \<Rightarrow>
             Returns
               (None,
                \<lparr>std_tcc_transaction =
                     set_t_status now txID GT_CONFIRMING GT_CONFIRMED
                       (set_t_status now txID GT_TRIED GT_CONFIRMING (std_tcc_transaction db)),
                 std_tcc_branch =
                     update_where (\<lambda>b. b_tx_id b = txID) (\<lambda>b. b\<lparr>b_status := BR_CONFIRMED\<rparr>)
                       (std_tcc_branch db),
                 std_rm_tables = s'\<rparr>)))"

definition Coordinator_Cancel ::
  "(string \<times> (go_args, 's, std_error) TCCResource) list \<Rightarrow> int \<Rightarrow> string \<Rightarrow> go_args \<Rightarrow> 's std_db \<Rightarrow>
     (std_error std_coordinator_error option \<times> 's std_db) go_result" where
  "Coordinator_Cancel entries now txID args db =
     (let rows = length (filter (\<lambda>r. t_tx_id r = txID \<and> t_status r = GT_TRIED) (std_tcc_transaction db)) in
      if rows = 0 then Returns (Some InvalidStateForCancelStd, db)
      else
        (case range_resources Cancel CancelCall entries args (std_rm_tables db, []) of
           (Some err, st) \<Rightarrow>
             if err = TypeAssertionPanic then Panics else Returns (Some (RMFailedStd err), db)
         | (None, (s', tr)) \<Rightarrow>
             Returns
               (None,
                \<lparr>std_tcc_transaction =
                     set_t_status now txID GT_CANCELLING GT_CANCELLED
                       (set_t_status now txID GT_TRIED GT_CANCELLING (std_tcc_transaction db)),
                 std_tcc_branch =
                     update_where (\<lambda>b. b_tx_id b = txID) (\<lambda>b. b\<lparr>b_status := BR_CANCELLED\<rparr>)
                       (std_tcc_branch db),
                 std_rm_tables = s'\<rparr>)))"

text \<open>
  \<^verbatim>\<open>recoverArgs\<close> (lines 323-327) returns the same bundle for every transaction.
\<close>

definition recoverArgs :: "string \<Rightarrow> go_args" where
  "recoverArgs txID =
     [''item_id'' \<mapsto> GoInt 1, ''quantity'' \<mapsto> GoInt 1, ''user_id'' \<mapsto> GoInt 1,
      ''order_id'' \<mapsto> GoString ''example'', ''amount'' \<mapsto> GoFloat64 100]"

text \<open>
  \<^verbatim>\<open>Compensate\<close> (lines 278-320) sleeps a minute and sweeps, for ever, in a goroutine of
  its own; the model is one sweep. Its query takes the transactions in one of four
  statuses whose \<^verbatim>\<open>create_time < NOW() - INTERVAL 5 MINUTE\<close>; no other column is looked
  at. The sweep then switches on the status read by the query and calls the coordinator
  with the bundle of \<^verbatim>\<open>recoverArgs\<close>. An error the call returns is logged and the sweep
  goes on to the next row. A panic in the call ends the goroutine, and with it the
  process: the sweep ends there (\<open>ProcessPanicked\<close>), with the tables as committed before
  the call. The calls of the coordinator the sweep makes are recorded. Each call runs a
  loop of its own over the map of managers: \<open>yield txID\<close> is the sequence in which the
  loop of the call for transaction \<open>txID\<close> yields them.
\<close>

definition non_terminal :: "global_status \<Rightarrow> bool" where
  "non_terminal st \<longleftrightarrow> st = GT_TRYING \<or> st = GT_TRIED \<or> st = GT_CONFIRMING \<or> st = GT_CANCELLING"

definition Compensate_query :: "int \<Rightarrow> tcc_transaction_row list \<Rightarrow> (string \<times> global_status) list" where
  "Compensate_query now rows =
     map (\<lambda>r. (t_tx_id r, t_status r))
       (filter (\<lambda>r. non_terminal (t_status r) \<and> t_create_time r < now - 300) rows)"

datatype coordinator_call = CallConfirm string | CallCancel string

datatype sweep_end = SweepCompleted | ProcessPanicked

fun Compensate_rows ::
  "(string \<Rightarrow> (string \<times> (go_args, 's, std_error) TCCResource) list) \<Rightarrow> int \<Rightarrow>
     (string \<times> global_status) list \<Rightarrow> 's std_db \<times> coordinator_call list \<Rightarrow>
     's std_db \<times> coordinator_call list \<times> sweep_end" where
  "Compensate_rows yield now [] (db, cs) = (db, cs, SweepCompleted)"
| "Compensate_rows yield now ((txID, status) # rest) (db, cs) =
     (let args = recoverArgs txID in
      case status of
        GT_TRYING \<Rightarrow>
          (case Coordinator_Cancel (yield txID) now txID args db of
             Panics \<Rightarrow> (db, cs @ [CallCancel txID], ProcessPanicked)
           | Returns (err, db') \<Rightarrow>
               Compensate_rows yield now rest (db', cs @ [CallCancel txID]))
      | GT_TRIED \<Rightarrow>
          (case Coordinator_Confirm (yield txID) now txID args db of
             Panics \<Rightarrow> (db, cs @ [CallConfirm txID], ProcessPanicked)
           | Returns (err, db') \<Rightarrow>
               Compensate_rows yield now rest (db', cs @ [CallConfirm txID]))
      | GT_CONFIRMING \<Rightarrow>
          (case Coordinator_Confirm (yield txID) now txID args db of
             Panics \<Rightarrow> (db, cs @ [CallConfirm txID], ProcessPanicked)
           | Returns (err, db') \<Rightarrow>
               Compensate_rows yield now rest (db', cs @ [CallConfirm txID]))
      | GT_CANCELLING \<Rightarrow>
          (case Coordinator_Cancel (yield txID) now txID args db of
             Panics \<Rightarrow> (db, cs @ [CallCancel txID], ProcessPanicked)
           | Returns (err, db') \<Rightarrow>
               Compensate_rows yield now rest (db', cs @ [CallCancel txID]))
      | _ \<Rightarrow> Compensate_rows yield now rest (db, cs))"

definition Compensate_sweep ::
  "(string \<Rightarrow> (string \<times> (go_args, 's, std_error) TCCResource) list) \<Rightarrow> int \<Rightarrow> 's std_db \<Rightarrow>
     's std_db \<times> coordinator_call list \<times> sweep_end" where
  "Compensate_sweep yield now db =
     Compensate_rows yield now (Compensate_query now (std_tcc_transaction db)) (db, [])"

text \<open>
  The re-drive as the specification words it, to compare the sweep with: a transaction
  in phase \<^verbatim>\<open>TRIED\<close> or \<^verbatim>\<open>CONFIRMING\<close> is re-driven by the coordinator's Confirm, one in
  phase \<^verbatim>\<open>TRYING\<close> or \<^verbatim>\<open>CANCELLING\<close> by its Cancel. \<open>spec_redriven\<close> gives the tables after
  a list of transactions has been re-driven in order: the tables a call returns, and
  those before it for a call that panics.
\<close>

fun spec_redrive ::
  "(string \<Rightarrow> (string \<times> (go_args, 's, std_error) TCCResource) list) \<Rightarrow> int \<Rightarrow>
     string \<times> global_status \<Rightarrow> 's std_db \<Rightarrow>
     (std_error std_coordinator_error option \<times> 's std_db) go_result" where
  "spec_redrive yield now (txID, status) db =
     (if status = GT_TRIED \<or> status = GT_CONFIRMING
      then Coordinator_Confirm (yield txID) now txID (recoverArgs txID) db
      else Coordinator_Cancel (yield txID) now txID (recoverArgs txID) db)"

fun spec_redrive_call :: "string \<times> global_status \<Rightarrow> coordinator_call" where
  "spec_redrive_call (txID, status) =
     (if status = GT_TRIED \<or> status = GT_CONFIRMING then CallConfirm txID else CallCancel txID)"

definition spec_redriven ::
  "(string \<Rightarrow> (string \<times> (go_args, 's, std_error) TCCResource) list) \<Rightarrow> int \<Rightarrow>
     (string \<times> global_status) list \<Rightarrow> 's std_db \<Rightarrow> 's std_db" where
  "spec_redriven yield now xs db =
     foldl (\<lambda>d x. case spec_redrive yield now x d of Returns (err, d') \<Rightarrow> d' | Panics \<Rightarrow> d) db xs"

text \<open>
  The sweep of the design notes (the SQL flow beside the branch-table prototype, lines
  583-619): the query
  \<^verbatim>\<open>WHERE status IN (...) AND retry_count < max_retry AND NOW() < timeout_time ORDER BY update_time LIMIT 100\<close>,
  the case list that names the coordinator call for each status, and the statement that
  marks a transaction past its timeout \<^verbatim>\<open>FAILED\<close>. A comparison with a \<^verbatim>\<open>NULL\<close> timeout
  selects nothing. Rows of equal \<^verbatim>\<open>update_time\<close> stay in table order.
\<close>

definition before_timeout :: "int \<Rightarrow> tcc_transaction_row \<Rightarrow> bool" where
  "before_timeout now r = (case t_timeout_time r of None \<Rightarrow> False | Some t \<Rightarrow> now < t)"

definition past_timeout :: "int \<Rightarrow> tcc_transaction_row \<Rightarrow> bool" where
  "past_timeout now r = (case t_timeout_time r of None \<Rightarrow> False | Some t \<Rightarrow> now > t)"

definition sweep_query :: "int \<Rightarrow> tcc_transaction_row list \<Rightarrow> tcc_transaction_row list" where
  "sweep_query now rows =
     take 100 (sort_key t_update_time
       (filter (\<lambda>r. non_terminal (t_status r) \<and> t_retry_count r < t_max_retry r \<and> before_timeout now r)
          rows))"

fun sweep_case :: "tcc_transaction_row \<Rightarrow> coordinator_call option" where
  "sweep_case r =
     (case t_status r of
        GT_TRYING \<Rightarrow> Some (CallCancel (t_tx_id r))
      | GT_TRIED \<Rightarrow> Some (CallConfirm (t_tx_id r))
      | GT_CONFIRMING \<Rightarrow> Some (CallConfirm (t_tx_id r))
      | GT_CANCELLING \<Rightarrow> Some (CallCancel (t_tx_id r))
      | _ \<Rightarrow> None)"

definition timeout_failed :: "int \<Rightarrow> string \<Rightarrow> tcc_transaction_row list \<Rightarrow> tcc_transaction_row list" where
  "timeout_failed now txID rows =
     update_where (\<lambda>r. t_tx_id r = txID \<and> past_timeout now r)
       (\<lambda>r. r\<lparr>t_status := GT_FAILED, t_update_time := now\<rparr>) rows"

section \<open>Example inputs\<close>

text \<open>
  Concrete inputs for the witnesses and the counterexamples: the context and the stock of
  \<^verbatim>\<open>main\<close> and \<^verbatim>\<open>initTestData\<close> of seckill\_tcc.go, and three stand-ins for a resource
  whose operations do not touch the tables: one that always succeeds, one whose Confirm
  returns the given error, one whose Try returns the given error.
\<close>

definition ex_ctx :: SeckillTCCContext where
  "ex_ctx = \<lparr>TransactionID = ''tx1'', UserID = 1001, ProductID = 2001, Quantity = 1\<rparr>"

definition ex_seckill_db :: seckill_db where
  "ex_seckill_db =
     \<lparr>seckill_inventory = [2001 \<mapsto> \<lparr>stock = 100, frozen_stock = 0, sold_stock = 0\<rparr>],
      seckill_inventory_freeze = []\<rparr>"

definition ok_resource :: "('c, 's, 'e) TCCResource" where
  "ok_resource =
     \<lparr>Try = (\<lambda>ctx s. (None, s)), Confirm = (\<lambda>ctx s. (None, s)), Cancel = (\<lambda>ctx s. (None, s))\<rparr>"

definition confirm_failing_resource :: "'e \<Rightarrow> ('c, 's, 'e) TCCResource" where
  "confirm_failing_resource err =
     \<lparr>Try = (\<lambda>ctx s. (None, s)), Confirm = (\<lambda>ctx s. (Some err, s)),
      Cancel = (\<lambda>ctx s. (None, s))\<rparr>"

definition try_failing_resource :: "'e \<Rightarrow> ('c, 's, 'e) TCCResource" where
  "try_failing_resource err =
     \<lparr>Try = (\<lambda>ctx s. (Some err, s)), Confirm = (\<lambda>ctx s. (None, s)),
      Cancel = (\<lambda>ctx s. (None, s))\<rparr>"

definition ex_seata_args :: seata_args where
  "ex_seata_args = \<lparr>tx_id = ''tx1'', item_id = 2001, quantity = 2\<rparr>"

definition ex_seata_db :: seata_db where
  "ex_seata_db =
     \<lparr>seata_inventory = [2001 \<mapsto> \<lparr>total = 10, available = 10\<rparr>],
      inventory_freeze = Map.empty\<rparr>"

definition ex_direct_db :: direct_db where
  "ex_direct_db =
     \<lparr>direct_inventory = [2001 \<mapsto> \<lparr>d_stock = 100, d_sold_count = 0, d_status = ACTIVE\<rparr>],
      inventory_deduct_log = [],
      db_now = 1000\<rparr>"

definition ex_tx_row :: tcc_transaction_row where
  "ex_tx_row =
     \<lparr>t_tx_id = ''tx1'', t_status = GT_TRIED, t_retry_count = 5, t_max_retry = 5,
      t_timeout_time = Some 500, t_create_time = 100, t_update_time = 100\<rparr>"

definition ex_resources_confirm_fails :: "(SeckillTCCContext, unit, string) TCCResource list" where
  "ex_resources_confirm_fails = [ok_resource, confirm_failing_resource ''confirm failed'']"

definition ex_entries :: "(string \<times> (seata_args, seata_db, seata_error) TCCResource) list" where
  "ex_entries = [(''inventory'', Seata_InventoryRM)]"

definition ex_coordinator_db :: "seata_db coordinator_db" where
  "ex_coordinator_db = \<lparr>tcc_transaction = [''tx1'' \<mapsto> GT_CONFIRMING], rm_tables = ex_seata_db\<rparr>"

definition ex_seata_db_tried :: seata_db where
  "ex_seata_db_tried =
     \<lparr>seata_inventory = [2001 \<mapsto> \<lparr>total = 10, available = 8\<rparr>],
      inventory_freeze = [(''tx1'', 2001) \<mapsto> \<lparr>freeze_quantity = 2, state = ST_TRIED\<rparr>]\<rparr>"

definition ex_seata_db_cancelled :: seata_db where
  "ex_seata_db_cancelled =
     \<lparr>seata_inventory = [2001 \<mapsto> \<lparr>total = 10, available = 10\<rparr>],
      inventory_freeze = [(''tx1'', 2001) \<mapsto> \<lparr>freeze_quantity = 2, state = ST_CANCELLED\<rparr>]\<rparr>"

definition ex_direct_db_sold_out :: direct_db where
  "ex_direct_db_sold_out =
     \<lparr>direct_inventory = [2001 \<mapsto> \<lparr>d_stock = 0, d_sold_count = 100, d_status = ACTIVE\<rparr>],
      inventory_deduct_log =
        [\<lparr>log_transaction_id = ''tx1'', log_product_id = 2001, log_quantity = 1,
          log_operation_type = TRY_DEDUCT, log_updated_at = 900\<rparr>],
      db_now = 1000\<rparr>"

definition ex_tx_row_fresh :: tcc_transaction_row where
  "ex_tx_row_fresh =
     \<lparr>t_tx_id = ''tx2'', t_status = GT_CONFIRMING, t_retry_count = 0, t_max_retry = 5,
      t_timeout_time = Some 2000, t_create_time = 100, t_update_time = 100\<rparr>"

text \<open>
  The version-based prototype: tables with one account and no item, a transaction table
  with \<open>ex_tx_row\<close> alone and one with three transactions in status \<^verbatim>\<open>TRIED\<close>, and the two
  sequences in which a loop can yield the inventory and the account manager.
\<close>

definition ex_std_tables :: std_tables where
  "ex_std_tables =
     \<lparr>std_inventory = Map.empty, std_account = [1 \<mapsto> \<lparr>balance = 100, version = 0\<rparr>]\<rparr>"

definition ex_std_db :: "std_tables std_db" where
  "ex_std_db =
     \<lparr>std_tcc_transaction = [ex_tx_row], std_tcc_branch = [], std_rm_tables = ex_std_tables\<rparr>"

definition ex_tx_row3 :: tcc_transaction_row where
  "ex_tx_row3 =
     \<lparr>t_tx_id = ''tx3'', t_status = GT_TRIED, t_retry_count = 0, t_max_retry = 5,
      t_timeout_time = Some 2000, t_create_time = 200, t_update_time = 200\<rparr>"

definition ex_tx_row4 :: tcc_transaction_row where
  "ex_tx_row4 =
     \<lparr>t_tx_id = ''tx4'', t_status = GT_TRIED, t_retry_count = 0, t_max_retry = 5,
      t_timeout_time = Some 2000, t_create_time = 300, t_update_time = 300\<rparr>"

definition ex_std_db3 :: "std_tables std_db" where
  "ex_std_db3 =
     \<lparr>std_tcc_transaction = [ex_tx_row, ex_tx_row3, ex_tx_row4], std_tcc_branch = [],
      std_rm_tables = ex_std_tables\<rparr>"

definition ex_inventory_first :: "(string \<times> (go_args, std_tables, std_error) TCCResource) list" where
  "ex_inventory_first = [(''inventory'', Std_InventoryRM), (''account'', Std_AccountRM)]"

definition ex_account_first :: "(string \<times> (go_args, std_tables, std_error) TCCResource) list" where
  "ex_account_first = [(''account'', Std_AccountRM), (''inventory'', Std_InventoryRM)]"

definition ex_yield :: "string \<Rightarrow> (string \<times> (go_args, std_tables, std_error) TCCResource) list" where
  "ex_yield txID = (if txID = ''tx3'' then ex_account_first else ex_inventory_first)"

text \<open>
  The inventory resource of seckill\_tcc.go registered first, and second a resource whose
  Confirm fails as that of the account resource does when it finds no frozen amount.
\<close>

definition ex_seckill_resources ::
  "(SeckillTCCContext, seckill_db, seckill_error) TCCResource list" where
  "ex_seckill_resources = [SeckillInventoryResource, confirm_failing_resource FreezeRecordNotFound]"

text \<open>
  Tables in which a freeze record in status \<^verbatim>\<open>FROZEN\<close> is not covered by the frozen
  counter.
\<close>

definition ex_seckill_db_unbacked :: seckill_db where
  "ex_seckill_db_unbacked =
     \<lparr>seckill_inventory = [2001 \<mapsto> \<lparr>stock = 100, frozen_stock = 0, sold_stock = 0\<rparr>],
      seckill_inventory_freeze =
        [\<lparr>fz_transaction_id = ''tx1'', fz_product_id = 2001, fz_quantity = 5,
          fz_status = FROZEN\<rparr>]\<rparr>"


text \<open>
  The tables of \<open>ex_seckill_db\<close> after the Try of \<open>ex_ctx\<close>: one unit frozen, with its
  freeze record.
\<close>

definition ex_seckill_db_frozen :: seckill_db where
  "ex_seckill_db_frozen =
     \<lparr>seckill_inventory = [2001 \<mapsto> \<lparr>stock = 99, frozen_stock = 1, sold_stock = 0\<rparr>],
      seckill_inventory_freeze =
        [\<lparr>fz_transaction_id = ''tx1'', fz_product_id = 2001, fz_quantity = 1,
          fz_status = FROZEN\<rparr>]\<rparr>"

text \<open>The same tables after the Confirm, and after the Cancel that follows the Confirm.\<close>

definition ex_seckill_db_confirmed :: seckill_db where
  "ex_seckill_db_confirmed =
     \<lparr>seckill_inventory = [2001 \<mapsto> \<lparr>stock = 99, frozen_stock = 0, sold_stock = 1\<rparr>],
      seckill_inventory_freeze =
        [\<lparr>fz_transaction_id = ''tx1'', fz_product_id = 2001, fz_quantity = 1,
          fz_status = CONFIRMED\<rparr>]\<rparr>"

definition ex_seckill_db_cancelled :: seckill_db where
  "ex_seckill_db_cancelled =
     \<lparr>seckill_inventory = [2001 \<mapsto> \<lparr>stock = 100, frozen_stock = 0, sold_stock = 0\<rparr>],
      seckill_inventory_freeze =
        [\<lparr>fz_transaction_id = ''tx1'', fz_product_id = 2001, fz_quantity = 1,
          fz_status = CANCELLED\<rparr>]\<rparr>"

text \<open>
  The coordinator of the freeze-table prototype before any transaction, and after the
  \<^verbatim>\<open>StartTransaction\<close> of \<open>tx1\<close>; the inventory manager together with a manager whose
  Confirm returns an error.
\<close>

definition ex_coordinator_db_new :: "seata_db coordinator_db" where
  "ex_coordinator_db_new = \<lparr>tcc_transaction = Map.empty, rm_tables = ex_seata_db\<rparr>"

definition ex_coordinator_db_tried :: "seata_db coordinator_db" where
  "ex_coordinator_db_tried =
     \<lparr>tcc_transaction = [''tx1'' \<mapsto> GT_TRIED], rm_tables = ex_seata_db_tried\<rparr>"

definition ex_seata_db_confirmed :: seata_db where
  "ex_seata_db_confirmed =
     \<lparr>seata_inventory = [2001 \<mapsto> \<lparr>total = 8, available = 8\<rparr>],
      inventory_freeze = [(''tx1'', 2001) \<mapsto> \<lparr>freeze_quantity = 2, state = ST_CONFIRMED\<rparr>]\<rparr>"

definition ex_entries_confirm_fails ::
  "(string \<times> (seata_args, seata_db, seata_error) TCCResource) list" where
  "ex_entries_confirm_fails =
     [(''inventory'', Seata_InventoryRM),
      (''account'', confirm_failing_resource QueryInventoryFailed)]"

text \<open>
  The manager of seckill\_tcc.go with the inventory resource first, as \<^verbatim>\<open>main\<close> registers
  it (lines 595-597), then a resource whose Try returns an error, then one that always
  succeeds; and the direct-deduct manager built the same way, with its state before any
  transaction.
\<close>

definition ex_seckill_resources_try_fails ::
  "(SeckillTCCContext, seckill_db, seckill_error) TCCResource list" where
  "ex_seckill_resources_try_fails =
     [SeckillInventoryResource, try_failing_resource StockInsufficientOrMissing, ok_resource]"

definition ex_direct_resources_try_fails ::
  "(SeckillDirectTCCContext, direct_db, direct_error) TCCResource list" where
  "ex_direct_resources_try_fails =
     NewSeckillDirectTCCManager DirectInventoryResource
       (try_failing_resource StockInsufficientOrUnavailable) ok_resource"

definition ex_direct_manager_state :: "direct_db direct_manager_state" where
  "ex_direct_manager_state =
     \<lparr>resource_tables = ex_direct_db, tcc_transaction_log = Map.empty,
      tcc_resource_status = Map.empty, calls = []\<rparr>"

definition ex_direct_db_tried :: direct_db where
  "ex_direct_db_tried =
     \<lparr>direct_inventory = [2001 \<mapsto> \<lparr>d_stock = 99, d_sold_count = 1, d_status = ACTIVE\<rparr>],
      inventory_deduct_log =
        [\<lparr>log_transaction_id = ''tx1'', log_product_id = 2001, log_quantity = 1,
          log_operation_type = TRY_DEDUCT, log_updated_at = 1000\<rparr>],
      db_now = 1000\<rparr>"

definition ex_direct_db_cancelled :: direct_db where
  "ex_direct_db_cancelled =
     \<lparr>direct_inventory = [2001 \<mapsto> \<lparr>d_stock = 100, d_sold_count = 0, d_status = ACTIVE\<rparr>],
      inventory_deduct_log =
        [\<lparr>log_transaction_id = ''tx1'', log_product_id = 2001, log_quantity = 1,
          log_operation_type = OP_CANCELLED, log_updated_at = 1000\<rparr>],
      db_now = 1000\<rparr>"

text \<open>
  The last unit of a product: the tables before the purchase of \<open>ex_ctx\<close>, after it has
  been confirmed, and after a Cancel of the same transaction.
\<close>

definition ex_seckill_db_last_unit :: seckill_db where
  "ex_seckill_db_last_unit =
     \<lparr>seckill_inventory = [2001 \<mapsto> \<lparr>stock = 1, frozen_stock = 0, sold_stock = 0\<rparr>],
      seckill_inventory_freeze = []\<rparr>"

definition ex_seckill_db_sold_out :: seckill_db where
  "ex_seckill_db_sold_out =
     \<lparr>seckill_inventory = [2001 \<mapsto> \<lparr>stock = 0, frozen_stock = 0, sold_stock = 1\<rparr>],
      seckill_inventory_freeze =
        [\<lparr>fz_transaction_id = ''tx1'', fz_product_id = 2001, fz_quantity = 1,
          fz_status = CONFIRMED\<rparr>]\<rparr>"

definition ex_seckill_db_reverted :: seckill_db where
  "ex_seckill_db_reverted =
     \<lparr>seckill_inventory = [2001 \<mapsto> \<lparr>stock = 1, frozen_stock = 0, sold_stock = 0\<rparr>],
      seckill_inventory_freeze =
        [\<lparr>fz_transaction_id = ''tx1'', fz_product_id = 2001, fz_quantity = 1,
          fz_status = CANCELLED\<rparr>]\<rparr>"
section \<open>The inventory resource of the freeze-record prototype keeps its invariant\<close>

lemma frozen_sum_nonneg:
  "\<forall>r \<in> set rows. 0 \<le> fz_quantity r \<Longrightarrow> 0 \<le> frozen_sum p rows"
  unfolding frozen_sum_def by (induction rows) auto

lemma frozen_sum_append:
  "frozen_sum p (xs @ ys) = frozen_sum p xs + frozen_sum p ys"
  by (simp add: frozen_sum_def)

lemma frozen_sum_update_le:
  assumes "\<forall>r \<in> set rows. 0 \<le> fz_quantity r" "st \<noteq> FROZEN"
  shows "frozen_sum p (update_where P (\<lambda>r. r\<lparr>fz_status := st\<rparr>) rows) \<le> frozen_sum p rows"
  using assms unfolding frozen_sum_def update_where_def by (induction rows) auto

lemma frozen_sum_update_other:
  assumes "p \<noteq> ProductID ctx"
  shows "frozen_sum p (update_where (freeze_key ctx) (\<lambda>r. r\<lparr>fz_status := st\<rparr>) rows) = frozen_sum p rows"
  using assms unfolding frozen_sum_def update_where_def freeze_key_def
  by (induction rows) auto

lemma frozen_sum_update_found:
  assumes "\<forall>r \<in> set rows. 0 \<le> fz_quantity r" "st \<noteq> FROZEN"
    and "find (\<lambda>r. freeze_key ctx r \<and> Q r) rows = Some fr" "fz_status fr = FROZEN"
  shows "frozen_sum (ProductID ctx) (update_where (freeze_key ctx) (\<lambda>r. r\<lparr>fz_status := st\<rparr>) rows)
           + fz_quantity fr \<le> frozen_sum (ProductID ctx) rows"
  using assms
proof (induction rows)
  case Nil
  then show ?case by simp
next
  case (Cons a rows)
  show ?case
  proof (cases "freeze_key ctx a \<and> Q a")
    case True
    then have fr: "fr = a" using Cons.prems(3) by simp
    have le: "frozen_sum (ProductID ctx) (update_where (freeze_key ctx) (\<lambda>r. r\<lparr>fz_status := st\<rparr>) rows)
               \<le> frozen_sum (ProductID ctx) rows"
      using Cons.prems(1,2) by (intro frozen_sum_update_le) auto
    from True fr Cons.prems(2,4) le show ?thesis
      by (simp add: frozen_sum_def update_where_def freeze_key_def)
  next
    case False
    then have "find (\<lambda>r. freeze_key ctx r \<and> Q r) rows = Some fr" using Cons.prems(3) by auto
    with Cons have IH: "frozen_sum (ProductID ctx) (update_where (freeze_key ctx) (\<lambda>r. r\<lparr>fz_status := st\<rparr>) rows)
           + fz_quantity fr \<le> frozen_sum (ProductID ctx) rows" by simp
    have "0 \<le> fz_quantity a" using Cons.prems(1) by simp
    with IH Cons.prems(2) show ?thesis
      by (auto simp: frozen_sum_def update_where_def)
  qed
qed

lemma find_in_set: "find P rows = Some x \<Longrightarrow> x \<in> set rows \<and> P x"
  by (induction rows) (auto split: if_splits)

lemma update_where_quantity:
  "\<forall>r \<in> set rows. 0 \<le> fz_quantity r \<Longrightarrow>
   \<forall>r \<in> set (update_where P (\<lambda>r. r\<lparr>fz_status := st\<rparr>) rows). 0 \<le> fz_quantity r"
  by (auto simp: update_where_def)

lemma SeckillInventoryResource_Try_backed:
  assumes "counters_nonneg db" "freeze_backed db" "0 \<le> Quantity ctx"
  shows "counters_nonneg (snd (SeckillInventoryResource_Try ctx db)) \<and>
         freeze_backed (snd (SeckillInventoryResource_Try ctx db))"
  using assms
  unfolding SeckillInventoryResource_Try_def freeze_backed_def counters_nonneg_def
  by (auto simp: frozen_sum_append Let_def frozen_sum_def split: option.splits)

lemma update_row_Some:
  "update_row k f tbl p = Some r' \<longleftrightarrow>
     (p \<noteq> k \<and> tbl p = Some r') \<or> (p = k \<and> (\<exists>r. tbl k = Some r \<and> r' = f r))"
  by (auto simp: update_row_def split: option.splits)

lemma SeckillInventoryResource_Confirm_backed:
  assumes nn: "counters_nonneg db" and bk: "freeze_backed db"
  shows "counters_nonneg (snd (SeckillInventoryResource_Confirm ctx db)) \<and>
         freeze_backed (snd (SeckillInventoryResource_Confirm ctx db))"
proof (cases "find (\<lambda>r. freeze_key ctx r \<and> fz_status r = FROZEN) (seckill_inventory_freeze db)")
  case None
  then show ?thesis using nn bk by (simp add: SeckillInventoryResource_Confirm_def)
next
  case (Some fr)
  let ?rows = "seckill_inventory_freeze db"
  let ?rows' = "update_where (freeze_key ctx) (\<lambda>r. r\<lparr>fz_status := CONFIRMED\<rparr>) ?rows"
  let ?f = "\<lambda>row. row\<lparr>frozen_stock := frozen_stock row - fz_quantity fr,
                        sold_stock := sold_stock row + fz_quantity fr\<rparr>"
  have q: "\<forall>r \<in> set ?rows. 0 \<le> fz_quantity r" using bk by (simp add: freeze_backed_def)
  have inv: "\<And>p row. seckill_inventory db p = Some row \<Longrightarrow>
               0 \<le> stock row \<and> frozen_sum p ?rows \<le> frozen_stock row"
    using nn bk by (simp add: freeze_backed_def counters_nonneg_def)
  have fr: "fz_status fr = FROZEN" using find_in_set[OF Some] by simp
  have found: "frozen_sum (ProductID ctx) ?rows' + fz_quantity fr \<le> frozen_sum (ProductID ctx) ?rows"
    using frozen_sum_update_found[OF q _ Some fr, of CONFIRMED] by simp
  have other: "\<And>p. p \<noteq> ProductID ctx \<Longrightarrow> frozen_sum p ?rows' = frozen_sum p ?rows"
    by (rule frozen_sum_update_other)
  have res: "snd (SeckillInventoryResource_Confirm ctx db) =
       db\<lparr>seckill_inventory := update_row (ProductID ctx) ?f (seckill_inventory db),
          seckill_inventory_freeze := ?rows'\<rparr>"
    using Some by (simp add: SeckillInventoryResource_Confirm_def Let_def)
  have "0 \<le> stock row' \<and> frozen_sum p ?rows' \<le> frozen_stock row'"
    if "update_row (ProductID ctx) ?f (seckill_inventory db) p = Some row'" for p row'
  proof -
    from that consider "p \<noteq> ProductID ctx" "seckill_inventory db p = Some row'"
      | row where "p = ProductID ctx" "seckill_inventory db p = Some row" "row' = ?f row"
      by (auto simp: update_row_Some)
    then show ?thesis
    proof cases
      case 1
      then show ?thesis using inv[of p row'] other[of p] by simp
    next
      case 2
      then show ?thesis using inv[of p row] found by simp
    qed
  qed
  note step = this
  have q': "\<forall>r \<in> set ?rows'. 0 \<le> fz_quantity r"
    using update_where_quantity[OF q, of "freeze_key ctx" CONFIRMED] .
  have "0 \<le> stock row' \<and> 0 \<le> frozen_stock row' \<and> frozen_sum p ?rows' \<le> frozen_stock row'"
    if "update_row (ProductID ctx) ?f (seckill_inventory db) p = Some row'" for p row'
    using step[OF that] frozen_sum_nonneg[OF q', of p] by linarith
  then show ?thesis
    unfolding res freeze_backed_def counters_nonneg_def using q' by simp
qed

lemma SeckillInventoryResource_Cancel_backed:
  assumes nn: "counters_nonneg db" and bk: "freeze_backed db"
  shows "counters_nonneg (snd (SeckillInventoryResource_Cancel ctx db)) \<and>
         freeze_backed (snd (SeckillInventoryResource_Cancel ctx db))"
proof (cases "find (\<lambda>r. freeze_key ctx r \<and> (fz_status r = FROZEN \<or> fz_status r = CONFIRMED))
                (seckill_inventory_freeze db)")
  case None
  then show ?thesis using nn bk by (simp add: SeckillInventoryResource_Cancel_def)
next
  case (Some fr)
  let ?rows = "seckill_inventory_freeze db"
  let ?rows' = "update_where (freeze_key ctx) (\<lambda>r. r\<lparr>fz_status := CANCELLED\<rparr>) ?rows"
  let ?f = "\<lambda>row. row\<lparr>stock := stock row + fz_quantity fr,
                        frozen_stock := frozen_stock row - fz_quantity fr\<rparr>"
  let ?g = "\<lambda>row. row\<lparr>stock := stock row + fz_quantity fr,
                        sold_stock := sold_stock row - fz_quantity fr\<rparr>"
  let ?inv' = "if fz_status fr = FROZEN then update_row (ProductID ctx) ?f (seckill_inventory db)
               else update_row (ProductID ctx) ?g (seckill_inventory db)"
  have q: "\<forall>r \<in> set ?rows. 0 \<le> fz_quantity r" using bk by (simp add: freeze_backed_def)
  have inv: "\<And>p row. seckill_inventory db p = Some row \<Longrightarrow>
               0 \<le> stock row \<and> frozen_sum p ?rows \<le> frozen_stock row"
    using nn bk by (simp add: freeze_backed_def counters_nonneg_def)
  have frq: "0 \<le> fz_quantity fr" using find_in_set[OF Some] q by blast
  have st: "fz_status fr = FROZEN \<or> fz_status fr = CONFIRMED" using find_in_set[OF Some] by simp
  have found: "fz_status fr = FROZEN \<Longrightarrow>
      frozen_sum (ProductID ctx) ?rows' + fz_quantity fr \<le> frozen_sum (ProductID ctx) ?rows"
    using frozen_sum_update_found[OF q _ Some, of CANCELLED] by simp
  have le: "\<And>p. frozen_sum p ?rows' \<le> frozen_sum p ?rows"
    using frozen_sum_update_le[OF q, of CANCELLED] by simp
  have res: "snd (SeckillInventoryResource_Cancel ctx db) =
       db\<lparr>seckill_inventory := ?inv', seckill_inventory_freeze := ?rows'\<rparr>"
    using Some st by (auto simp: SeckillInventoryResource_Cancel_def Let_def)
  have "0 \<le> stock row' \<and> frozen_sum p ?rows' \<le> frozen_stock row'"
    if "?inv' p = Some row'" for p row'
  proof (cases "fz_status fr = FROZEN")
    case True
    with that consider "p \<noteq> ProductID ctx" "seckill_inventory db p = Some row'"
      | row where "p = ProductID ctx" "seckill_inventory db p = Some row" "row' = ?f row"
      by (auto simp: update_row_Some)
    then show ?thesis
    proof cases
      case 1
      then show ?thesis using inv[of p row'] le[of p] by simp
    next
      case 2
      then show ?thesis using inv[of p row] found[OF True] frq by simp
    qed
  next
    case False
    with that consider "p \<noteq> ProductID ctx" "seckill_inventory db p = Some row'"
      | row where "p = ProductID ctx" "seckill_inventory db p = Some row" "row' = ?g row"
      by (auto simp: update_row_Some)
    then show ?thesis
    proof cases
      case 1
      then show ?thesis using inv[of p row'] le[of p] by simp
    next
      case 2
      then show ?thesis using inv[of p row] le[of p] frq by simp
    qed
  qed
  note step = this
  have q': "\<forall>r \<in> set ?rows'. 0 \<le> fz_quantity r"
    using update_where_quantity[OF q, of "freeze_key ctx" CANCELLED] .
  have "0 \<le> stock row' \<and> 0 \<le> frozen_stock row' \<and> frozen_sum p ?rows' \<le> frozen_stock row'"
    if "?inv' p = Some row'" for p row'
    using step[OF that] frozen_sum_nonneg[OF q', of p] by linarith
  then show ?thesis
    unfolding res freeze_backed_def counters_nonneg_def using q' by simp
qed

lemma conserved_update_row:
  assumes "\<And>row. conserved_sum (f row) = conserved_sum row"
  shows "map_option conserved_sum (update_row k f tbl p) = map_option conserved_sum (tbl p)"
  using assms by (auto simp: update_row_def split: option.splits)

lemma SeckillInventoryResource_Try_conserved:
  "map_option conserved_sum (seckill_inventory (snd (SeckillInventoryResource_Try ctx db)) p)
     = map_option conserved_sum (seckill_inventory db p)"
  by (auto simp: SeckillInventoryResource_Try_def conserved_sum_def Let_def split: option.splits)

lemma SeckillInventoryResource_Confirm_conserved:
  "map_option conserved_sum (seckill_inventory (snd (SeckillInventoryResource_Confirm ctx db)) p)
     = map_option conserved_sum (seckill_inventory db p)"
  by (auto simp: SeckillInventoryResource_Confirm_def Let_def conserved_sum_def
      intro!: conserved_update_row split: option.splits)

lemma SeckillInventoryResource_Cancel_conserved:
  "map_option conserved_sum (seckill_inventory (snd (SeckillInventoryResource_Cancel ctx db)) p)
     = map_option conserved_sum (seckill_inventory db p)"
  by (auto simp: SeckillInventoryResource_Cancel_def Let_def conserved_sum_def
      intro!: conserved_update_row split: option.splits)

subsection \<open>Try without capacity, repeated Try, Try then Cancel\<close>

lemma SeckillInventoryResource_Try_insufficient:
  assumes "seckill_inventory db (ProductID ctx) = Some row" "stock row < Quantity ctx"
  shows "SeckillInventoryResource_Try ctx db =
           (Some (InsufficientStock (stock row) (Quantity ctx)), db)"
  using assms by (simp add: SeckillInventoryResource_Try_def)

lemma SeckillInventoryResource_Try_sufficient:
  assumes "seckill_inventory db (ProductID ctx) = Some row" "Quantity ctx \<le> stock row"
  shows "SeckillInventoryResource_Try ctx db =
           (None,
            db\<lparr>seckill_inventory := (seckill_inventory db)(ProductID ctx \<mapsto>
                   row\<lparr>stock := stock row - Quantity ctx,
                       frozen_stock := frozen_stock row + Quantity ctx\<rparr>),
               seckill_inventory_freeze := seckill_inventory_freeze db @
                   [\<lparr>fz_transaction_id = TransactionID ctx, fz_product_id = ProductID ctx,
                     fz_quantity = Quantity ctx, fz_status = FROZEN\<rparr>]\<rparr>)"
  using assms by (simp add: SeckillInventoryResource_Try_def)

lemma SeckillInventoryResource_Try_success_cases:
  assumes "SeckillInventoryResource_Try ctx db = (None, db1)"
  obtains row where "seckill_inventory db (ProductID ctx) = Some row" "Quantity ctx \<le> stock row"
  using assms
  by (auto simp: SeckillInventoryResource_Try_def Let_def split: option.splits if_splits)

lemma SeckillInventoryResource_Try_twice:
  assumes "SeckillInventoryResource_Try ctx db = (None, db1)"
    and "SeckillInventoryResource_Try ctx db1 = (None, db2)"
  shows "\<exists>row. seckill_inventory db (ProductID ctx) = Some row \<and>
           seckill_inventory db2 (ProductID ctx) =
             Some (row\<lparr>stock := stock row - 2 * Quantity ctx,
                       frozen_stock := frozen_stock row + 2 * Quantity ctx\<rparr>) \<and>
           length (seckill_inventory_freeze db2) = length (seckill_inventory_freeze db) + 2"
proof -
  from assms(1) obtain row where row: "seckill_inventory db (ProductID ctx) = Some row"
    "Quantity ctx \<le> stock row"
    by (rule SeckillInventoryResource_Try_success_cases)
  have db1: "db1 = db\<lparr>seckill_inventory := (seckill_inventory db)(ProductID ctx \<mapsto>
                   row\<lparr>stock := stock row - Quantity ctx,
                       frozen_stock := frozen_stock row + Quantity ctx\<rparr>),
               seckill_inventory_freeze := seckill_inventory_freeze db @
                   [\<lparr>fz_transaction_id = TransactionID ctx, fz_product_id = ProductID ctx,
                     fz_quantity = Quantity ctx, fz_status = FROZEN\<rparr>]\<rparr>"
    using assms(1) SeckillInventoryResource_Try_sufficient[OF row] by simp
  from assms(2) obtain row1 where row1: "seckill_inventory db1 (ProductID ctx) = Some row1"
    "Quantity ctx \<le> stock row1"
    by (rule SeckillInventoryResource_Try_success_cases)
  have r1: "row1 = row\<lparr>stock := stock row - Quantity ctx,
                       frozen_stock := frozen_stock row + Quantity ctx\<rparr>"
    using row1(1) db1 by simp
  have "db2 = db1\<lparr>seckill_inventory := (seckill_inventory db1)(ProductID ctx \<mapsto>
                   row1\<lparr>stock := stock row1 - Quantity ctx,
                       frozen_stock := frozen_stock row1 + Quantity ctx\<rparr>),
               seckill_inventory_freeze := seckill_inventory_freeze db1 @
                   [\<lparr>fz_transaction_id = TransactionID ctx, fz_product_id = ProductID ctx,
                     fz_quantity = Quantity ctx, fz_status = FROZEN\<rparr>]\<rparr>"
    using assms(2) SeckillInventoryResource_Try_sufficient[OF row1] by simp
  then show ?thesis using row(1) r1 db1 by simp
qed

lemma find_append_None: "find P xs = None \<Longrightarrow> find P (xs @ ys) = find P ys"
  by (induction xs) (auto split: if_splits)

lemma update_where_id: "\<forall>r \<in> set rows. \<not> P r \<Longrightarrow> update_where P f rows = rows"
  by (induction rows) (auto simp: update_where_def)

lemma SeckillInventoryResource_Try_Cancel:
  assumes fresh: "\<forall>r \<in> set (seckill_inventory_freeze db).
                    \<not> (freeze_key ctx r \<and> (fz_status r = FROZEN \<or> fz_status r = CONFIRMED))"
    and ok: "SeckillInventoryResource_Try ctx db = (None, db1)"
  shows "\<exists>db2. SeckillInventoryResource_Cancel ctx db1 = (None, db2) \<and>
           seckill_inventory db2 = seckill_inventory db"
proof -
  from ok obtain row where row: "seckill_inventory db (ProductID ctx) = Some row"
    "Quantity ctx \<le> stock row"
    by (rule SeckillInventoryResource_Try_success_cases)
  let ?new = "\<lparr>fz_transaction_id = TransactionID ctx, fz_product_id = ProductID ctx,
               fz_quantity = Quantity ctx, fz_status = FROZEN\<rparr>"
  have db1: "db1 = db\<lparr>seckill_inventory := (seckill_inventory db)(ProductID ctx \<mapsto>
                   row\<lparr>stock := stock row - Quantity ctx,
                       frozen_stock := frozen_stock row + Quantity ctx\<rparr>),
               seckill_inventory_freeze := seckill_inventory_freeze db @ [?new]\<rparr>"
    using ok SeckillInventoryResource_Try_sufficient[OF row] by simp
  have "find (\<lambda>r. freeze_key ctx r \<and> (fz_status r = FROZEN \<or> fz_status r = CONFIRMED))
          (seckill_inventory_freeze db) = None"
    using fresh by (simp add: find_None_iff)
  then have found: "find (\<lambda>r. freeze_key ctx r \<and> (fz_status r = FROZEN \<or> fz_status r = CONFIRMED))
          (seckill_inventory_freeze db1) = Some ?new"
    unfolding db1 by (simp add: find_append_None freeze_key_def)
  have restored: "update_row (ProductID ctx)
                (\<lambda>r. r\<lparr>stock := stock r + Quantity ctx, frozen_stock := frozen_stock r - Quantity ctx\<rparr>)
                (seckill_inventory db1) = seckill_inventory db"
    unfolding db1 using row(1) by (auto simp: update_row_def fun_eq_iff)
  show ?thesis
    using found restored by (simp add: SeckillInventoryResource_Cancel_def Let_def)
qed

lemma SeckillInventoryResource_Try_error_unchanged:
  "SeckillInventoryResource_Try ctx db = (Some e, db1) \<Longrightarrow> db1 = db"
  by (auto simp: SeckillInventoryResource_Try_def Let_def split: option.splits if_splits)

lemma SeckillInventoryResource_Cancel_nothing:
  assumes "\<forall>r \<in> set (seckill_inventory_freeze db).
             \<not> (freeze_key ctx r \<and> (fz_status r = FROZEN \<or> fz_status r = CONFIRMED))"
  shows "SeckillInventoryResource_Cancel ctx db = (None, db)"
proof -
  have "find (\<lambda>r. freeze_key ctx r \<and> (fz_status r = FROZEN \<or> fz_status r = CONFIRMED))
          (seckill_inventory_freeze db) = None"
    using assms by (simp add: find_None_iff)
  then show ?thesis by (simp add: SeckillInventoryResource_Cancel_def)
qed

lemma SeckillInventoryResource_Confirm_after_cancel:
  assumes "\<forall>r \<in> set (seckill_inventory_freeze db). freeze_key ctx r \<longrightarrow> fz_status r = CANCELLED"
  shows "SeckillInventoryResource_Confirm ctx db = (Some FreezeRecordNotFound, db)"
proof -
  have "find (\<lambda>r. freeze_key ctx r \<and> fz_status r = FROZEN) (seckill_inventory_freeze db) = None"
    using assms by (auto simp: find_None_iff)
  then show ?thesis by (simp add: SeckillInventoryResource_Confirm_def)
qed

section \<open>The calls of \<^verbatim>\<open>ExecuteSeckillTCC\<close>\<close>

text \<open>
  Each loop of the manager visits the slice from index 0 upwards; the Try and the Confirm
  loop stop after the first resource that fails, the Cancel loop visits every resource.
\<close>

lemma ExecuteSeckillTCC_try_phase_calls:
  "ExecuteSeckillTCC_try_phase rs i ctx (s, tr) = (res, (s', tr')) \<Longrightarrow>
   \<exists>k. k \<le> length rs \<and> tr' = tr @ map TryCall [i..<i + k] \<and>
       (res = None \<longrightarrow> k = length rs) \<and> (res \<noteq> None \<longrightarrow> 0 < k)"
proof (induction rs arbitrary: i s tr)
  case Nil
  then show ?case by simp
next
  case (Cons r rs)
  obtain e s1 where t: "Try r ctx s = (e, s1)" by (cases "Try r ctx s")
  show ?case
  proof (cases e)
    case None
    with t Cons.prems have
      "ExecuteSeckillTCC_try_phase rs (Suc i) ctx (s1, tr @ [TryCall i]) = (res, (s', tr'))"
      by simp
    from Cons.IH[OF this] obtain k where k: "k \<le> length rs"
      "tr' = (tr @ [TryCall i]) @ map TryCall [Suc i..<Suc i + k]"
      "res = None \<longrightarrow> k = length rs" by blast
    have "tr' = tr @ map TryCall [i..<i + Suc k]"
      using k(2) by (simp add: upt_conv_Cons)
    with k(1,3) show ?thesis
      by (intro exI[of _ "Suc k"]) simp
  next
    case (Some err)
    with t Cons.prems have "res = Some err" "tr' = tr @ [TryCall i]" by simp_all
    then show ?thesis by (intro exI[of _ 1]) simp
  qed
qed

lemma ExecuteSeckillTCC_confirm_phase_calls:
  "ExecuteSeckillTCC_confirm_phase rs i ctx (s, tr) = (res, (s', tr')) \<Longrightarrow>
   \<exists>k. k \<le> length rs \<and> tr' = tr @ map ConfirmCall [i..<i + k] \<and>
       (res = None \<longrightarrow> k = length rs) \<and> (res \<noteq> None \<longrightarrow> 0 < k)"
proof (induction rs arbitrary: i s tr)
  case Nil
  then show ?case by simp
next
  case (Cons r rs)
  obtain e s1 where t: "Confirm r ctx s = (e, s1)" by (cases "Confirm r ctx s")
  show ?case
  proof (cases e)
    case None
    with t Cons.prems have
      "ExecuteSeckillTCC_confirm_phase rs (Suc i) ctx (s1, tr @ [ConfirmCall i]) = (res, (s', tr'))"
      by simp
    from Cons.IH[OF this] obtain k where k: "k \<le> length rs"
      "tr' = (tr @ [ConfirmCall i]) @ map ConfirmCall [Suc i..<Suc i + k]"
      "res = None \<longrightarrow> k = length rs" by blast
    have "tr' = tr @ map ConfirmCall [i..<i + Suc k]"
      using k(2) by (simp add: upt_conv_Cons)
    with k(1,3) show ?thesis
      by (intro exI[of _ "Suc k"]) simp
  next
    case (Some err)
    with t Cons.prems have "res = Some err" "tr' = tr @ [ConfirmCall i]" by simp_all
    then show ?thesis by (intro exI[of _ 1]) simp
  qed
qed

lemma cancelResources_calls:
  "snd (cancelResources rs i ctx (s, tr)) = tr @ map CancelCall [i..<i + length rs]"
proof (induction rs arbitrary: i s tr)
  case Nil
  then show ?case by simp
next
  case (Cons r rs)
  have "[i..<Suc (i + length rs)] = i # [Suc i..<Suc (i + length rs)]"
    by (rule upt_conv_Cons) simp
  then show ?case by (simp add: Cons.IH)
qed

lemma ExecuteSeckillTCC_try_failure:
  assumes "ExecuteSeckillTCC_try_phase rs 0 ctx (s, []) = (Some err, st)"
  shows "\<exists>k s'. 0 < k \<and> k \<le> length rs \<and>
           ExecuteSeckillTCC rs ctx s =
             (Some (TryPhaseFailed err),
              (s', map TryCall [0..<k] @ map CancelCall [0..<length rs]))"
proof -
  obtain s1 tr1 where st: "st = (s1, tr1)" by (cases st)
  from ExecuteSeckillTCC_try_phase_calls[OF assms[unfolded st]] obtain k where
    k: "k \<le> length rs" "tr1 = map TryCall [0..<k]" "0 < k" by auto
  have "snd (cancelResources rs 0 ctx (s1, tr1)) = tr1 @ map CancelCall [0..<length rs]"
    using cancelResources_calls[of rs 0 ctx s1 tr1] by simp
  then have "cancelResources rs 0 ctx (s1, tr1) =
      (fst (cancelResources rs 0 ctx (s1, tr1)), map TryCall [0..<k] @ map CancelCall [0..<length rs])"
    using k(2) by (metis prod.collapse)
  then show ?thesis
    using assms k(1,3) unfolding ExecuteSeckillTCC_def st by auto
qed

lemma ExecuteSeckillTCC_confirm_failure:
  assumes "ExecuteSeckillTCC_try_phase rs 0 ctx (s, []) = (None, st)"
    and "ExecuteSeckillTCC_confirm_phase rs 0 ctx st = (Some err, st')"
  shows "\<exists>j s'. 0 < j \<and> j \<le> length rs \<and>
           ExecuteSeckillTCC rs ctx s =
             (Some (ConfirmPhaseFailed err),
              (s', map TryCall [0..<length rs] @ map ConfirmCall [0..<j] @
                   map CancelCall [0..<length rs]))"
proof -
  obtain s1 tr1 where st: "st = (s1, tr1)" by (cases st)
  obtain s2 tr2 where st': "st' = (s2, tr2)" by (cases st')
  from ExecuteSeckillTCC_try_phase_calls[OF assms(1)[unfolded st]] have
    tr1: "tr1 = map TryCall [0..<length rs]" by auto
  from ExecuteSeckillTCC_confirm_phase_calls[OF assms(2)[unfolded st st']] obtain j where
    j: "j \<le> length rs" "tr2 = tr1 @ map ConfirmCall [0..<j]" "0 < j" by auto
  have "snd (cancelResources rs 0 ctx (s2, tr2)) = tr2 @ map CancelCall [0..<length rs]"
    using cancelResources_calls[of rs 0 ctx s2 tr2] by simp
  then have "cancelResources rs 0 ctx (s2, tr2) =
      (fst (cancelResources rs 0 ctx (s2, tr2)),
       map TryCall [0..<length rs] @ map ConfirmCall [0..<j] @ map CancelCall [0..<length rs])"
    using j(2) tr1 by (metis prod.collapse append.assoc)
  then show ?thesis
    using assms j(1,3) unfolding ExecuteSeckillTCC_def st st' by auto
qed

lemma ExecuteSeckillTCC_success:
  assumes "ExecuteSeckillTCC_try_phase rs 0 ctx (s, []) = (None, st)"
    and "ExecuteSeckillTCC_confirm_phase rs 0 ctx st = (None, st')"
  shows "\<exists>s'. ExecuteSeckillTCC rs ctx s =
             (None, (s', map TryCall [0..<length rs] @ map ConfirmCall [0..<length rs]))"
proof -
  obtain s1 tr1 where st: "st = (s1, tr1)" by (cases st)
  obtain s2 tr2 where st': "st' = (s2, tr2)" by (cases st')
  from ExecuteSeckillTCC_try_phase_calls[OF assms(1)[unfolded st]] have
    tr1: "tr1 = map TryCall [0..<length rs]" by auto
  from ExecuteSeckillTCC_confirm_phase_calls[OF assms(2)[unfolded st st']] have
    "tr2 = tr1 @ map ConfirmCall [0..<length rs]" by auto
  then show ?thesis
    using assms tr1 unfolding ExecuteSeckillTCC_def st st' by auto
qed

lemma ExecuteSeckillTCC_calls_shape:
  "\<exists>k j c. k \<le> length rs \<and> j \<le> length rs \<and>
     snd (snd (ExecuteSeckillTCC rs ctx s)) =
       map TryCall [0..<k] @ map ConfirmCall [0..<j] @
       (if c then map CancelCall [0..<length rs] else [])"
proof -
  obtain r1 st where t: "ExecuteSeckillTCC_try_phase rs 0 ctx (s, []) = (r1, st)"
    by (metis prod.collapse)
  show ?thesis
  proof (cases r1)
    case (Some err)
    from ExecuteSeckillTCC_try_failure[OF t[unfolded Some]] obtain k s' where
      "k \<le> length rs"
      "ExecuteSeckillTCC rs ctx s =
         (Some (TryPhaseFailed err), (s', map TryCall [0..<k] @ map CancelCall [0..<length rs]))"
      by blast
    then show ?thesis
      by (intro exI[of _ k] exI[of _ 0] exI[of _ True]) simp
  next
    case None
    obtain r2 st' where c: "ExecuteSeckillTCC_confirm_phase rs 0 ctx st = (r2, st')"
      by (metis prod.collapse)
    show ?thesis
    proof (cases r2)
      case (Some err)
      from ExecuteSeckillTCC_confirm_failure[OF t[unfolded None] c[unfolded Some]]
      obtain j s' where "j \<le> length rs"
        "ExecuteSeckillTCC rs ctx s =
           (Some (ConfirmPhaseFailed err),
            (s', map TryCall [0..<length rs] @ map ConfirmCall [0..<j] @
                 map CancelCall [0..<length rs]))"
        by blast
      then show ?thesis
        by (intro exI[of _ "length rs"] exI[of _ j] exI[of _ True]) simp
    next
      case None' : None
      from ExecuteSeckillTCC_success[OF t[unfolded None] c[unfolded None']]
      obtain s' where
        "ExecuteSeckillTCC rs ctx s =
           (None, (s', map TryCall [0..<length rs] @ map ConfirmCall [0..<length rs]))"
        by blast
      then show ?thesis
        by (intro exI[of _ "length rs"] exI[of _ "length rs"] exI[of _ False]) simp
    qed
  qed
qed


subsection \<open>The tables \<^verbatim>\<open>ExecuteSeckillTCC\<close> leaves\<close>

text \<open>
  The three loops in terms of the resources' own methods: the Try loop and the Confirm
  loop apply the method of each resource up to the first that fails and of none after
  it; the Cancel loop applies the Cancel of every resource.
\<close>

lemma upt_shift_Cons: "[i..<Suc (i + n)] = i # [Suc i..<Suc (i + n)]"
  by (rule upt_conv_Cons) simp

lemma upt_shift_Cons2: "[i..<Suc (Suc (i + n))] = i # [Suc i..<Suc (Suc (i + n))]"
  by (rule upt_conv_Cons) simp

lemma ExecuteSeckillTCC_try_phase_all:
  assumes "\<forall>k<length rs. fst (Try (rs ! k) ctx (tables_after Try ctx (take k rs) s)) = None"
  shows "ExecuteSeckillTCC_try_phase rs i ctx (s, tr) =
           (None, (tables_after Try ctx rs s, tr @ map TryCall [i..<i + length rs]))"
  using assms
proof (induction rs arbitrary: i s tr)
  case Nil
  then show ?case by simp
next
  case (Cons r rs)
  from Cons.prems have h: "fst (Try r ctx s) = None" by fastforce
  have t: "\<forall>k<length rs. fst (Try (rs ! k) ctx
              (tables_after Try ctx (take k rs) (snd (Try r ctx s)))) = None"
  proof (intro allI impI)
    fix k assume "k < length rs"
    then have "Suc k < length (r # rs)" by simp
    from Cons.prems[rule_format, OF this] show
      "fst (Try (rs ! k) ctx (tables_after Try ctx (take k rs) (snd (Try r ctx s)))) = None"
      by simp
  qed
  obtain s1 where s1: "Try r ctx s = (None, s1)" using h by (cases "Try r ctx s") simp
  show ?case
    using Cons.IH[OF t, of "Suc i" "tr @ [TryCall i]"] s1
    by (simp del: upt_Suc add: upt_shift_Cons)
qed

lemma ExecuteSeckillTCC_try_phase_fails_at:
  assumes "k < length rs"
    and "\<forall>m<k. fst (Try (rs ! m) ctx (tables_after Try ctx (take m rs) s)) = None"
    and "fst (Try (rs ! k) ctx (tables_after Try ctx (take k rs) s)) = Some err"
  shows "ExecuteSeckillTCC_try_phase rs i ctx (s, tr) =
           (Some err, (tables_after Try ctx (take (Suc k) rs) s, tr @ map TryCall [i..<i + Suc k]))"
  using assms
proof (induction rs arbitrary: i s tr k)
  case Nil
  then show ?case by simp
next
  case (Cons r rs)
  show ?case
  proof (cases k)
    case 0
    with Cons.prems(3) obtain s1 where "Try r ctx s = (Some err, s1)"
      by (cases "Try r ctx s") simp
    with 0 show ?thesis by simp
  next
    case (Suc k')
    with Cons.prems(2) have "fst (Try ((r # rs) ! 0) ctx (tables_after Try ctx (take 0 (r # rs)) s)) = None"
      by blast
    then obtain s1 where s1: "Try r ctx s = (None, s1)" by (cases "Try r ctx s") simp
    have k': "k' < length rs" using Cons.prems(1) Suc by simp
    have before: "\<forall>m<k'. fst (Try (rs ! m) ctx (tables_after Try ctx (take m rs) s1)) = None"
    proof (intro allI impI)
      fix m assume "m < k'"
      then have "Suc m < k" using Suc by simp
      from Cons.prems(2)[rule_format, OF this] s1 show
        "fst (Try (rs ! m) ctx (tables_after Try ctx (take m rs) s1)) = None" by simp
    qed
    have at: "fst (Try (rs ! k') ctx (tables_after Try ctx (take k' rs) s1)) = Some err"
      using Cons.prems(3) Suc s1 by simp
    show ?thesis
      using Cons.IH[OF k' before at, of "Suc i" "tr @ [TryCall i]"] s1 Suc
      by (simp del: upt_Suc add: upt_shift_Cons2)
  qed
qed

lemma ExecuteSeckillTCC_confirm_phase_all:
  assumes "\<forall>k<length rs. fst (Confirm (rs ! k) ctx (tables_after Confirm ctx (take k rs) s)) = None"
  shows "ExecuteSeckillTCC_confirm_phase rs i ctx (s, tr) =
           (None, (tables_after Confirm ctx rs s, tr @ map ConfirmCall [i..<i + length rs]))"
  using assms
proof (induction rs arbitrary: i s tr)
  case Nil
  then show ?case by simp
next
  case (Cons r rs)
  from Cons.prems have h: "fst (Confirm r ctx s) = None" by fastforce
  have t: "\<forall>k<length rs. fst (Confirm (rs ! k) ctx
              (tables_after Confirm ctx (take k rs) (snd (Confirm r ctx s)))) = None"
  proof (intro allI impI)
    fix k assume "k < length rs"
    then have "Suc k < length (r # rs)" by simp
    from Cons.prems[rule_format, OF this] show
      "fst (Confirm (rs ! k) ctx (tables_after Confirm ctx (take k rs) (snd (Confirm r ctx s)))) = None"
      by simp
  qed
  obtain s1 where s1: "Confirm r ctx s = (None, s1)" using h by (cases "Confirm r ctx s") simp
  show ?case
    using Cons.IH[OF t, of "Suc i" "tr @ [ConfirmCall i]"] s1
    by (simp del: upt_Suc add: upt_shift_Cons)
qed

lemma ExecuteSeckillTCC_confirm_phase_fails_at:
  assumes "k < length rs"
    and "\<forall>m<k. fst (Confirm (rs ! m) ctx (tables_after Confirm ctx (take m rs) s)) = None"
    and "fst (Confirm (rs ! k) ctx (tables_after Confirm ctx (take k rs) s)) = Some err"
  shows "ExecuteSeckillTCC_confirm_phase rs i ctx (s, tr) =
           (Some err, (tables_after Confirm ctx (take (Suc k) rs) s,
                       tr @ map ConfirmCall [i..<i + Suc k]))"
  using assms
proof (induction rs arbitrary: i s tr k)
  case Nil
  then show ?case by simp
next
  case (Cons r rs)
  show ?case
  proof (cases k)
    case 0
    with Cons.prems(3) obtain s1 where "Confirm r ctx s = (Some err, s1)"
      by (cases "Confirm r ctx s") simp
    with 0 show ?thesis by simp
  next
    case (Suc k')
    with Cons.prems(2) have
      "fst (Confirm ((r # rs) ! 0) ctx (tables_after Confirm ctx (take 0 (r # rs)) s)) = None"
      by blast
    then obtain s1 where s1: "Confirm r ctx s = (None, s1)" by (cases "Confirm r ctx s") simp
    have k': "k' < length rs" using Cons.prems(1) Suc by simp
    have before: "\<forall>m<k'. fst (Confirm (rs ! m) ctx (tables_after Confirm ctx (take m rs) s1)) = None"
    proof (intro allI impI)
      fix m assume "m < k'"
      then have "Suc m < k" using Suc by simp
      from Cons.prems(2)[rule_format, OF this] s1 show
        "fst (Confirm (rs ! m) ctx (tables_after Confirm ctx (take m rs) s1)) = None" by simp
    qed
    have at: "fst (Confirm (rs ! k') ctx (tables_after Confirm ctx (take k' rs) s1)) = Some err"
      using Cons.prems(3) Suc s1 by simp
    show ?thesis
      using Cons.IH[OF k' before at, of "Suc i" "tr @ [ConfirmCall i]"] s1 Suc
      by (simp del: upt_Suc add: upt_shift_Cons2)
  qed
qed

lemma cancelResources_all:
  "cancelResources rs i ctx (s, tr) =
     (tables_after Cancel ctx rs s, tr @ map CancelCall [i..<i + length rs])"
proof (induction rs arbitrary: i s tr)
  case Nil
  then show ?case by simp
next
  case (Cons r rs)
  show ?case by (simp del: upt_Suc add: upt_shift_Cons Cons.IH)
qed

lemma ExecuteSeckillTCC_try_fails_at:
  assumes "k < length rs"
    and "\<forall>m<k. fst (Try (rs ! m) ctx (tables_after Try ctx (take m rs) s)) = None"
    and "fst (Try (rs ! k) ctx (tables_after Try ctx (take k rs) s)) = Some err"
  shows "ExecuteSeckillTCC rs ctx s =
           (Some (TryPhaseFailed err),
            (tables_after Cancel ctx rs (tables_after Try ctx (take (Suc k) rs) s),
             map TryCall [0..<Suc k] @ map CancelCall [0..<length rs]))"
  using ExecuteSeckillTCC_try_phase_fails_at[OF assms, of 0 "[]"]
  by (simp add: ExecuteSeckillTCC_def cancelResources_all)

lemma ExecuteSeckillTCC_confirm_fails_at:
  assumes "j < length rs"
    and "\<forall>k<length rs. fst (Try (rs ! k) ctx (tables_after Try ctx (take k rs) s)) = None"
    and "\<forall>k<j. fst (Confirm (rs ! k) ctx
            (tables_after Confirm ctx (take k rs) (tables_after Try ctx rs s))) = None"
    and "fst (Confirm (rs ! j) ctx
            (tables_after Confirm ctx (take j rs) (tables_after Try ctx rs s))) = Some err"
  shows "ExecuteSeckillTCC rs ctx s =
           (Some (ConfirmPhaseFailed err),
            (tables_after Cancel ctx rs
               (tables_after Confirm ctx (take (Suc j) rs) (tables_after Try ctx rs s)),
             map TryCall [0..<length rs] @ map ConfirmCall [0..<Suc j] @
             map CancelCall [0..<length rs]))"
  using ExecuteSeckillTCC_try_phase_all[OF assms(2), of 0 "[]"]
    ExecuteSeckillTCC_confirm_phase_fails_at[OF assms(1,3,4), of 0 "map TryCall [0..<length rs]"]
  by (simp add: ExecuteSeckillTCC_def cancelResources_all)
section \<open>The inventory manager of the freeze-table prototype\<close>

lemma Seata_InventoryRM_Try_replay:
  assumes "inventory_freeze db (tx_id args, item_id args) = Some fr"
  shows "Seata_InventoryRM_Try args db = (None, db)"
  using assms by (simp add: Seata_InventoryRM_Try_def)

lemma Seata_InventoryRM_Try_idem:
  "Seata_InventoryRM_Try args (snd (Seata_InventoryRM_Try args db)) = Seata_InventoryRM_Try args db"
  by (auto simp: Seata_InventoryRM_Try_def split: option.splits)

lemma Seata_InventoryRM_Try_Cancel:
  assumes fresh: "inventory_freeze db (tx_id args, item_id args) = None"
    and ok: "Seata_InventoryRM_Try args db = (None, db1)"
  shows "\<exists>db2. Seata_InventoryRM_Cancel args db1 = (None, db2) \<and>
           seata_inventory db2 = seata_inventory db \<and>
           inventory_freeze db2 (tx_id args, item_id args) =
             Some \<lparr>freeze_quantity = quantity args, state = ST_CANCELLED\<rparr>"
proof -
  from ok fresh obtain row where row: "seata_inventory db (item_id args) = Some row"
    and db1: "db1 = db\<lparr>seata_inventory := (seata_inventory db)(item_id args \<mapsto>
                         row\<lparr>available := available row - quantity args\<rparr>),
                     inventory_freeze := (inventory_freeze db)((tx_id args, item_id args) \<mapsto>
                         \<lparr>freeze_quantity = quantity args, state = ST_TRIED\<rparr>)\<rparr>"
    by (auto simp: Seata_InventoryRM_Try_def split: option.splits if_splits)
  have "update_row (item_id args) (\<lambda>r. r\<lparr>available := available r + quantity args\<rparr>)
          (seata_inventory db1) = seata_inventory db"
    unfolding db1 using row by (auto simp: update_row_def fun_eq_iff)
  then show ?thesis
    unfolding db1 by (simp add: Seata_InventoryRM_Cancel_def)
qed

subsection \<open>The calls of \<^verbatim>\<open>ImprovedCoordinator\<close>\<close>

lemma range_resources_calls:
  "range_resources method ev entries args (s, tr) = (res, (s', tr')) \<Longrightarrow>
   \<exists>k. k \<le> length entries \<and> tr' = tr @ map ev (take k (map fst entries)) \<and>
       (res = None \<longrightarrow> k = length entries) \<and> (res \<noteq> None \<longrightarrow> 0 < k)"
proof (induction entries arbitrary: s tr)
  case Nil
  then show ?case by simp
next
  case (Cons a entries)
  obtain name rm where a: "a = (name, rm)" by (cases a)
  obtain e s1 where t: "method rm args s = (e, s1)" by (cases "method rm args s")
  show ?case
  proof (cases e)
    case None
    with t a Cons.prems have
      "range_resources method ev entries args (s1, tr @ [ev name]) = (res, (s', tr'))"
      by simp
    from Cons.IH[OF this] obtain k where k: "k \<le> length entries"
      "tr' = (tr @ [ev name]) @ map ev (take k (map fst entries))"
      "res = None \<longrightarrow> k = length entries" by blast
    then show ?thesis using a
      by (intro exI[of _ "Suc k"]) simp
  next
    case (Some err)
    with t a Cons.prems have "res = Some err" "tr' = tr @ [ev name]" by simp_all
    then show ?thesis using a by (intro exI[of _ 1]) simp
  qed
qed

lemma ImprovedCoordinator_StartTransaction_calls:
  "\<exists>k. k \<le> length entries \<and>
       snd (snd (ImprovedCoordinator_StartTransaction entries txID args db)) =
         map TryCall (take k (map fst entries))"
proof (cases "tcc_transaction db txID")
  case (Some st)
  then show ?thesis
    by (intro exI[of _ 0]) (simp add: ImprovedCoordinator_StartTransaction_def)
next
  case None
  obtain res s' tr where r: "range_resources Try TryCall entries (args\<lparr>tx_id := txID\<rparr>)
      (rm_tables db, []) = (res, (s', tr))"
    by (metis prod.collapse)
  from range_resources_calls[OF r] obtain k where
    k: "k \<le> length entries" "tr = map TryCall (take k (map fst entries))" by auto
  show ?thesis
    using None r k
    by (intro exI[of _ k]) (auto simp: ImprovedCoordinator_StartTransaction_def split: option.splits)
qed

lemma ImprovedCoordinator_Confirm_calls:
  "\<exists>k. k \<le> length entries \<and>
       snd (snd (ImprovedCoordinator_Confirm entries txID args db)) =
         map ConfirmCall (take k (map fst entries))"
proof (cases "tcc_transaction db txID = Some GT_TRIED")
  case False
  then show ?thesis
    by (intro exI[of _ 0]) (simp add: ImprovedCoordinator_Confirm_def)
next
  case True
  obtain res s' tr where r: "range_resources Confirm ConfirmCall entries (args\<lparr>tx_id := txID\<rparr>)
      (rm_tables db, []) = (res, (s', tr))"
    by (metis prod.collapse)
  from range_resources_calls[OF r] obtain k where
    k: "k \<le> length entries" "tr = map ConfirmCall (take k (map fst entries))" by auto
  show ?thesis
    using True r k
    by (intro exI[of _ k]) (auto simp: ImprovedCoordinator_Confirm_def split: option.splits)
qed

lemma ImprovedCoordinator_Cancel_calls:
  "\<exists>k. k \<le> length entries \<and>
       snd (snd (ImprovedCoordinator_Cancel entries txID args db)) =
         map CancelCall (take k (map fst entries))"
proof -
  obtain res s' tr where r: "range_resources Cancel CancelCall entries (args\<lparr>tx_id := txID\<rparr>)
      (rm_tables db, []) = (res, (s', tr))"
    by (metis prod.collapse)
  from range_resources_calls[OF r] obtain k where
    k: "k \<le> length entries" "tr = map CancelCall (take k (map fst entries))" by auto
  show ?thesis
    using r k
    by (intro exI[of _ k]) (auto simp: ImprovedCoordinator_Cancel_def split: option.splits)
qed


subsection \<open>The statuses \<^verbatim>\<open>ImprovedCoordinator\<close> commits\<close>

text \<open>
  Each method writes its in-between status (\<^verbatim>\<open>TRYING\<close>, \<^verbatim>\<open>CONFIRMING\<close>, \<^verbatim>\<open>CANCELLING\<close>) and
  its final status in the same database transaction, so that the in-between status is
  never committed: a method that fails rolls back, a method that succeeds has replaced
  it.
\<close>

lemma ImprovedCoordinator_Confirm_failure_rolls_back:
  "fst (ImprovedCoordinator_Confirm entries txID args db) \<noteq> None \<Longrightarrow>
   fst (snd (ImprovedCoordinator_Confirm entries txID args db)) = db"
  by (auto simp: ImprovedCoordinator_Confirm_def Let_def split: prod.splits option.splits if_splits)

lemma ImprovedCoordinator_Confirm_success:
  "fst (ImprovedCoordinator_Confirm entries txID args db) = None \<Longrightarrow>
   tcc_transaction db txID = Some GT_TRIED \<and>
   tcc_transaction (fst (snd (ImprovedCoordinator_Confirm entries txID args db))) txID =
     Some GT_CONFIRMED"
  by (auto simp: ImprovedCoordinator_Confirm_def Let_def set_status_where_def
      split: prod.splits option.splits if_splits)

lemma ImprovedCoordinator_serve_never_CONFIRMING:
  assumes "\<forall>t. tcc_transaction db t \<noteq> Some GT_CONFIRMING"
  shows "\<forall>t. tcc_transaction (ImprovedCoordinator_serve db request) t \<noteq> Some GT_CONFIRMING"
proof -
  obtain kind entries txID args where r: "request = (kind, entries, txID, args)"
    by (cases request)
  show ?thesis
  proof (cases kind)
    case RequestStart
    then show ?thesis
      using assms r
      by (auto simp: ImprovedCoordinator_StartTransaction_def Let_def set_status_where_def
          split: prod.splits option.splits if_splits)
  next
    case RequestConfirm
    then show ?thesis
      using assms r
      by (auto simp: ImprovedCoordinator_Confirm_def Let_def set_status_where_def
          split: prod.splits option.splits if_splits)
  next
    case RequestCancel
    then show ?thesis
      using assms r
      by (auto simp: ImprovedCoordinator_Cancel_def Let_def set_status_where_def
          mark_cancelling_def split: prod.splits option.splits if_splits)
  qed
qed

lemma ImprovedCoordinator_run_never_CONFIRMING:
  assumes "\<forall>t. tcc_transaction db t \<noteq> Some GT_CONFIRMING"
  shows "\<forall>t. tcc_transaction (ImprovedCoordinator_run requests db) t \<noteq> Some GT_CONFIRMING"
  using assms unfolding ImprovedCoordinator_run_def
proof (induction requests arbitrary: db)
  case Nil
  then show ?case by simp
next
  case (Cons a requests)
  from ImprovedCoordinator_serve_never_CONFIRMING[OF Cons.prems]
  have "\<forall>t. tcc_transaction (ImprovedCoordinator_serve db a) t \<noteq> Some GT_CONFIRMING" .
  from Cons.IH[OF this] show ?case by simp
qed
section \<open>The inventory resource of the direct-deduct prototype\<close>

lemma direct_count_pos:
  "0 < length (filter
            (\<lambda>r. log_transaction_id r = txid \<and>
                 (log_operation_type r = TRY_DEDUCT \<or> log_operation_type r = OP_CONFIRMED \<or>
                  log_operation_type r = OP_CANCELLED)) rows)
   \<longleftrightarrow> (\<exists>r \<in> set rows. log_transaction_id r = txid)"
proof -
  have "\<And>r. (log_operation_type r = TRY_DEDUCT \<or> log_operation_type r = OP_CONFIRMED \<or>
                  log_operation_type r = OP_CANCELLED)"
    by (metis operation_type.exhaust)
  then show ?thesis by (auto simp: filter_empty_conv)
qed

lemma DirectInventoryResource_Try_replay:
  assumes "\<exists>r \<in> set (inventory_deduct_log db). log_transaction_id r = TransactionID ctx"
  shows "DirectInventoryResource_Try ctx db = (None, db)"
  using assms direct_count_pos[of "TransactionID ctx" "inventory_deduct_log db"]
  unfolding DirectInventoryResource_Try_def Let_def by simp

lemma DirectInventoryResource_Try_insufficient:
  assumes "\<forall>r \<in> set (inventory_deduct_log db). log_transaction_id r \<noteq> TransactionID ctx"
    and "direct_inventory db (ProductID ctx) = Some row" "d_stock row < Quantity ctx"
  shows "DirectInventoryResource_Try ctx db = (Some StockInsufficientOrUnavailable, db)"
  using assms direct_count_pos[of "TransactionID ctx" "inventory_deduct_log db"]
  unfolding DirectInventoryResource_Try_def Let_def by simp

lemma DirectInventoryResource_Try_fresh_success:
  assumes "\<forall>r \<in> set (inventory_deduct_log db). log_transaction_id r \<noteq> TransactionID ctx"
    and "DirectInventoryResource_Try ctx db = (None, db1)"
  shows "\<exists>row. direct_inventory db (ProductID ctx) = Some row \<and> Quantity ctx \<le> d_stock row \<and>
           d_status row = ACTIVE \<and>
           db1 = db\<lparr>direct_inventory := (direct_inventory db)(ProductID ctx \<mapsto>
                      row\<lparr>d_stock := d_stock row - Quantity ctx,
                          d_sold_count := d_sold_count row + Quantity ctx\<rparr>),
                    inventory_deduct_log := inventory_deduct_log db @
                      [\<lparr>log_transaction_id = TransactionID ctx, log_product_id = ProductID ctx,
                        log_quantity = Quantity ctx, log_operation_type = TRY_DEDUCT,
                        log_updated_at = db_now db\<rparr>]\<rparr>"
  using assms direct_count_pos[of "TransactionID ctx" "inventory_deduct_log db"]
  unfolding DirectInventoryResource_Try_def Let_def
  by (auto simp: update_row_def split: option.splits if_splits)

lemma DirectInventoryResource_Try_idem:
  "DirectInventoryResource_Try ctx (snd (DirectInventoryResource_Try ctx db)) =
     DirectInventoryResource_Try ctx db"
proof (cases "\<exists>r \<in> set (inventory_deduct_log db). log_transaction_id r = TransactionID ctx")
  case True
  then show ?thesis by (simp add: DirectInventoryResource_Try_replay)
next
  case False
  then have fresh: "\<forall>r \<in> set (inventory_deduct_log db). log_transaction_id r \<noteq> TransactionID ctx"
    by simp
  obtain res db1 where r: "DirectInventoryResource_Try ctx db = (res, db1)"
    by (cases "DirectInventoryResource_Try ctx db")
  show ?thesis
  proof (cases res)
    case None
    from DirectInventoryResource_Try_fresh_success[OF fresh r[unfolded None]]
    have "\<exists>r \<in> set (inventory_deduct_log db1). log_transaction_id r = TransactionID ctx"
      by auto
    then show ?thesis using r None by (simp add: DirectInventoryResource_Try_replay)
  next
    case (Some e)
    then have "db1 = db" using r
      unfolding DirectInventoryResource_Try_def Let_def by (auto split: if_splits)
    then show ?thesis using r by simp
  qed
qed

lemma latest_log_fresh_append:
  assumes "\<forall>r \<in> set rows. log_transaction_id r \<noteq> txid" "log_transaction_id new = txid"
  shows "latest_log txid (rows @ [new]) = Some new"
proof -
  have "filter (\<lambda>r. log_transaction_id r = txid) rows = []"
    using assms(1) by (simp add: filter_empty_conv)
  then show ?thesis using assms(2) by (simp add: latest_log_def)
qed

lemma DirectInventoryResource_Try_Cancel:
  assumes fresh: "\<forall>r \<in> set (inventory_deduct_log db). log_transaction_id r \<noteq> TransactionID ctx"
    and ok: "DirectInventoryResource_Try ctx db = (None, db1)"
  shows "\<exists>db2. DirectInventoryResource_Cancel ctx db1 = (None, db2) \<and>
           direct_inventory db2 = direct_inventory db"
proof -
  from DirectInventoryResource_Try_fresh_success[OF fresh ok] obtain row where
    row: "direct_inventory db (ProductID ctx) = Some row"
    and db1: "db1 = db\<lparr>direct_inventory := (direct_inventory db)(ProductID ctx \<mapsto>
                      row\<lparr>d_stock := d_stock row - Quantity ctx,
                          d_sold_count := d_sold_count row + Quantity ctx\<rparr>),
                    inventory_deduct_log := inventory_deduct_log db @
                      [\<lparr>log_transaction_id = TransactionID ctx, log_product_id = ProductID ctx,
                        log_quantity = Quantity ctx, log_operation_type = TRY_DEDUCT,
                        log_updated_at = db_now db\<rparr>]\<rparr>"
    by blast
  have latest: "latest_log (TransactionID ctx) (inventory_deduct_log db1) =
      Some \<lparr>log_transaction_id = TransactionID ctx, log_product_id = ProductID ctx,
            log_quantity = Quantity ctx, log_operation_type = TRY_DEDUCT,
            log_updated_at = db_now db\<rparr>"
    unfolding db1 using latest_log_fresh_append[OF fresh] by simp
  have restored: "update_row (ProductID ctx)
          (\<lambda>r. r\<lparr>d_stock := d_stock r + Quantity ctx, d_sold_count := d_sold_count r - Quantity ctx\<rparr>)
          (direct_inventory db1) = direct_inventory db"
    unfolding db1 using row by (auto simp: update_row_def fun_eq_iff)
  show ?thesis
    using latest restored by (simp add: DirectInventoryResource_Cancel_def Let_def)
qed

lemma DirectInventoryResource_Confirm_after_cancel:
  assumes "latest_log (TransactionID ctx) (inventory_deduct_log db) = Some r"
    and "log_operation_type r = OP_CANCELLED"
  shows "DirectInventoryResource_Confirm ctx db = (Some (AbnormalState OP_CANCELLED), db)"
  using assms by (simp add: DirectInventoryResource_Confirm_def Let_def)

subsection \<open>The calls of \<^verbatim>\<open>SeckillDirectTCCManager\<close>\<close>

text \<open>
  With at most three resources no index is out of range: every loop of the manager
  returns, and the calls it made are the ones its index runs through.
\<close>

lemma NewSeckillDirectTCCManager_length:
  "length (NewSeckillDirectTCCManager inventory account order) = 3"
  by (simp add: NewSeckillDirectTCCManager_def)

lemma call_resource_frame:
  assumes "call_resource method ev ctx st = (res, st')"
  shows "calls st' = calls st @ [ev] \<and> tcc_transaction_log st' = tcc_transaction_log st"
  using assms by (auto simp: call_resource_def split: prod.splits)

lemma markResourceCompleted_frame:
  assumes "markResourceCompleted phase txid i st = Some st'"
  shows "calls st' = calls st \<and> tcc_transaction_log st' = tcc_transaction_log st"
  using assms by (auto simp: markResourceCompleted_def Let_def split: if_splits)

lemma markResourceCompleted_defined:
  "i < 3 \<Longrightarrow> \<exists>st'. markResourceCompleted phase txid i st = Some st'"
  by (simp add: markResourceCompleted_def resourceTypes_def Let_def)

subsection \<open>The tables \<^verbatim>\<open>ExecuteSeckill\<close> leaves when a Try fails\<close>

lemma call_resource_result:
  "call_resource method ev ctx st =
     (fst (method ctx (resource_tables st)),
      st\<lparr>resource_tables := snd (method ctx (resource_tables st)), calls := calls st @ [ev]\<rparr>)"
  by (simp add: call_resource_def split: prod.splits)

lemma markResourceCompleted_tables:
  assumes "markResourceCompleted phase txid i st = Some st'"
  shows "resource_tables st' = resource_tables st"
  using assms by (auto simp: markResourceCompleted_def Let_def split: if_splits)

lemma compensate_tried_exact:
  assumes "j \<le> 3" "j \<le> length rs"
  shows "\<exists>st'. compensate_tried rs j ctx st = Some st' \<and>
           resource_tables st' = tables_after Cancel ctx (rev (take j rs)) (resource_tables st) \<and>
           calls st' = calls st @ map CancelCall (rev [0..<j]) \<and>
           tcc_transaction_log st' = tcc_transaction_log st"
  using assms
proof (induction j arbitrary: st)
  case 0
  then show ?case by simp
next
  case (Suc j)
  obtain res st1 where c: "call_resource (Cancel (rs ! j)) (CancelCall j) ctx st = (res, st1)"
    by (metis prod.collapse)
  note f1 = call_resource_frame[OF c]
  have t1: "resource_tables st1 = snd (Cancel (rs ! j) ctx (resource_tables st))"
    using c by (auto simp: call_resource_result)
  have j: "j \<le> 3" "j < 3" "j \<le> length rs" "j < length rs" using Suc.prems by simp_all
  have tk: "rev (take (Suc j) rs) = rs ! j # rev (take j rs)"
    using j(4) by (simp add: take_Suc_conv_app_nth)
  show ?case
  proof (cases res)
    case None
    from markResourceCompleted_defined[OF j(2)] obtain st2 where
      m: "markResourceCompleted PhaseCancel (TransactionID ctx) j st1 = Some st2" by blast
    note f2 = markResourceCompleted_frame[OF m]
    note t2 = markResourceCompleted_tables[OF m]
    from Suc.IH[OF j(1) j(3), of st2] obtain st' where
      "compensate_tried rs j ctx st2 = Some st'"
      "resource_tables st' = tables_after Cancel ctx (rev (take j rs)) (resource_tables st2)"
      "calls st' = calls st2 @ map CancelCall (rev [0..<j])"
      "tcc_transaction_log st' = tcc_transaction_log st2" by blast
    then show ?thesis using c None m f1 f2 t1 t2 tk by simp
  next
    case (Some e)
    from Suc.IH[OF j(1) j(3), of st1] obtain st' where
      "compensate_tried rs j ctx st1 = Some st'"
      "resource_tables st' = tables_after Cancel ctx (rev (take j rs)) (resource_tables st1)"
      "calls st' = calls st1 @ map CancelCall (rev [0..<j])"
      "tcc_transaction_log st' = tcc_transaction_log st1" by blast
    then show ?thesis using c Some f1 t1 tk by simp
  qed
qed

lemma tryResources_from_fails_at:
  assumes "i + length rest \<le> 3" "i + length rest \<le> length rs" "k < length rest"
    and "\<forall>m<k. fst (Try (rest ! m) ctx
            (tables_after Try ctx (take m rest) (resource_tables st))) = None"
    and "fst (Try (rest ! k) ctx (tables_after Try ctx (take k rest) (resource_tables st))) =
           Some err"
  shows "\<exists>st'. tryResources_from rs rest i ctx st = Some (Some err, st') \<and>
           resource_tables st' =
             tables_after Cancel ctx (rev (take (i + k) rs))
               (tables_after Try ctx (take (Suc k) rest) (resource_tables st)) \<and>
           calls st' = calls st @ map TryCall [i..<Suc (i + k)] @
                         map CancelCall (rev [0..<i + k]) \<and>
           tcc_transaction_log st' = tcc_transaction_log st"
  using assms
proof (induction rest arbitrary: i st k)
  case Nil
  then show ?case by simp
next
  case (Cons r rest)
  obtain res st1 where c: "call_resource (Try r) (TryCall i) ctx st = (res, st1)"
    by (metis prod.collapse)
  note f1 = call_resource_frame[OF c]
  have r1: "res = fst (Try r ctx (resource_tables st))"
    and t1: "resource_tables st1 = snd (Try r ctx (resource_tables st))"
    using c by (auto simp: call_resource_result)
  have i: "i < 3" "i \<le> 3" "i \<le> length rs" "Suc i + length rest \<le> 3"
    "Suc i + length rest \<le> length rs" using Cons.prems(1,2) by simp_all
  show ?case
  proof (cases k)
    case 0
    with Cons.prems(5) r1 have res: "res = Some err" by simp
    from compensate_tried_exact[OF i(2,3), of ctx st1] obtain st' where
      ct: "compensate_tried rs i ctx st1 = Some st'"
      "resource_tables st' = tables_after Cancel ctx (rev (take i rs)) (resource_tables st1)"
      "calls st' = calls st1 @ map CancelCall (rev [0..<i])"
      "tcc_transaction_log st' = tcc_transaction_log st1" by blast
    have eq: "tryResources_from rs (r # rest) i ctx st = Some (Some err, st')"
      using c res ct(1) by simp
    show ?thesis using eq ct(2,3,4) f1 t1 0 by simp
  next
    case (Suc k')
    with Cons.prems(4) have
      "fst (Try ((r # rest) ! 0) ctx
         (tables_after Try ctx (take 0 (r # rest)) (resource_tables st))) = None" by blast
    with r1 have res: "res = None" by simp
    from markResourceCompleted_defined[OF i(1)] obtain st2 where
      m: "markResourceCompleted PhaseTry (TransactionID ctx) i st1 = Some st2" by blast
    note f2 = markResourceCompleted_frame[OF m]
    note t2 = markResourceCompleted_tables[OF m]
    have k': "k' < length rest" using Cons.prems(3) Suc by simp
    have before: "\<forall>m<k'. fst (Try (rest ! m) ctx
            (tables_after Try ctx (take m rest) (resource_tables st2))) = None"
    proof (intro allI impI)
      fix m assume "m < k'"
      then have "Suc m < k" using Suc by simp
      from Cons.prems(4)[rule_format, OF this] t1 t2 show
        "fst (Try (rest ! m) ctx (tables_after Try ctx (take m rest) (resource_tables st2))) = None"
        by simp
    qed
    have at: "fst (Try (rest ! k') ctx (tables_after Try ctx (take k' rest) (resource_tables st2))) =
        Some err"
      using Cons.prems(5) Suc t1 t2 by simp
    from Cons.IH[OF i(4,5) k' before at] obtain st' where IH:
      "tryResources_from rs rest (Suc i) ctx st2 = Some (Some err, st')"
      "resource_tables st' =
         tables_after Cancel ctx (rev (take (Suc i + k') rs))
           (tables_after Try ctx (take (Suc k') rest) (resource_tables st2))"
      "calls st' = calls st2 @ map TryCall [Suc i..<Suc (Suc i + k')] @
                     map CancelCall (rev [0..<Suc i + k'])"
      "tcc_transaction_log st' = tcc_transaction_log st2" by blast
    have eq: "tryResources_from rs (r # rest) i ctx st = Some (Some err, st')"
      using c res m IH(1) by simp
    have up: "TryCall i # map TryCall [Suc i..<Suc (Suc (i + k'))] =
              map TryCall [i..<Suc (Suc (i + k'))]"
      by (simp del: upt_Suc add: upt_shift_Cons2)
    have cl: "calls st' = calls st @ map TryCall [i..<Suc (i + k)] @
                map CancelCall (rev [0..<i + k])"
      using IH(3) f1 f2 up Suc by (simp del: upt_Suc)
    show ?thesis using eq IH(2,4) cl f1 f2 t1 t2 Suc by simp
  qed
qed

lemma direct_cancelResources_from_exact:
  assumes "i + length rs \<le> 3"
  shows "\<exists>st'. direct_cancelResources_from rs i ctx st = Some st' \<and>
           resource_tables st' = tables_after Cancel ctx rs (resource_tables st) \<and>
           calls st' = calls st @ map CancelCall [i..<i + length rs] \<and>
           tcc_transaction_log st' = tcc_transaction_log st"
  using assms
proof (induction rs arbitrary: i st)
  case Nil
  then show ?case by simp
next
  case (Cons r rs)
  obtain res st1 where c: "call_resource (Cancel r) (CancelCall i) ctx st = (res, st1)"
    by (metis prod.collapse)
  note f1 = call_resource_frame[OF c]
  have t1: "resource_tables st1 = snd (Cancel r ctx (resource_tables st))"
    using c by (auto simp: call_resource_result)
  have i: "i < 3" "Suc i + length rs \<le> 3" using Cons.prems by simp_all
  have up: "CancelCall i # map CancelCall [Suc i..<Suc (i + length rs)] =
            map CancelCall [i..<Suc (i + length rs)]"
    by (simp del: upt_Suc add: upt_shift_Cons)
  show ?case
  proof (cases res)
    case None
    from markResourceCompleted_defined[OF i(1)] obtain st2 where
      m: "markResourceCompleted PhaseCancel (TransactionID ctx) i st1 = Some st2" by blast
    note f2 = markResourceCompleted_frame[OF m]
    note t2 = markResourceCompleted_tables[OF m]
    from Cons.IH[OF i(2), of st2] obtain st' where
      "direct_cancelResources_from rs (Suc i) ctx st2 = Some st'"
      "resource_tables st' = tables_after Cancel ctx rs (resource_tables st2)"
      "calls st' = calls st2 @ map CancelCall [Suc i..<Suc i + length rs]"
      "tcc_transaction_log st' = tcc_transaction_log st2" by blast
    then show ?thesis using c None m f1 f2 t1 t2 up by (simp del: upt_Suc)
  next
    case (Some e)
    from Cons.IH[OF i(2), of st1] obtain st' where
      "direct_cancelResources_from rs (Suc i) ctx st1 = Some st'"
      "resource_tables st' = tables_after Cancel ctx rs (resource_tables st1)"
      "calls st' = calls st1 @ map CancelCall [Suc i..<Suc i + length rs]"
      "tcc_transaction_log st' = tcc_transaction_log st1" by blast
    then show ?thesis using c Some f1 t1 up by (simp del: upt_Suc)
  qed
qed

text \<open>
  What the manager writes to \<^verbatim>\<open>tcc_resource_status\<close> while it tries and cancels: rows
  with the status \<^verbatim>\<open>'completed'\<close>, and nothing else.
\<close>

lemma only_marks_added_refl: "only_marks_added st st"
  by (simp add: only_marks_added_def)

lemma only_marks_added_trans:
  "only_marks_added st st' \<Longrightarrow> only_marks_added st' st'' \<Longrightarrow> only_marks_added st st''"
  unfolding only_marks_added_def by metis

lemma call_resource_marks:
  "call_resource method ev ctx st = (res, st') \<Longrightarrow> only_marks_added st st'"
  by (auto simp: call_resource_result only_marks_added_def)

lemma markResourceCompleted_marks:
  "markResourceCompleted phase txid i st = Some st' \<Longrightarrow> only_marks_added st st'"
  by (auto simp: markResourceCompleted_def only_marks_added_def Let_def
      split: if_splits option.splits)

lemma logTCCTransaction_marks:
  "only_marks_added st (logTCCTransaction txid status st)"
  by (simp add: logTCCTransaction_def only_marks_added_def)

lemma compensate_tried_marks:
  "compensate_tried rs j ctx st = Some st' \<Longrightarrow> only_marks_added st st'"
proof (induction j arbitrary: st)
  case 0
  then show ?case by (simp add: only_marks_added_refl)
next
  case (Suc j)
  obtain res st1 where c: "call_resource (Cancel (rs ! j)) (CancelCall j) ctx st = (res, st1)"
    by (metis prod.collapse)
  note m1 = call_resource_marks[OF c]
  show ?case
  proof (cases res)
    case None
    with Suc.prems c obtain st2 where
      m: "markResourceCompleted PhaseCancel (TransactionID ctx) j st1 = Some st2"
      and r: "compensate_tried rs j ctx st2 = Some st'"
      by (auto split: option.splits)
    from only_marks_added_trans[OF m1 markResourceCompleted_marks[OF m]] Suc.IH[OF r]
    show ?thesis by (rule only_marks_added_trans)
  next
    case (Some e)
    with Suc.prems c have "compensate_tried rs j ctx st1 = Some st'" by simp
    from m1 Suc.IH[OF this] show ?thesis by (rule only_marks_added_trans)
  qed
qed

lemma tryResources_from_marks:
  "tryResources_from rs rest i ctx st = Some (res, st') \<Longrightarrow> only_marks_added st st'"
proof (induction rest arbitrary: i st)
  case Nil
  then show ?case by (simp add: only_marks_added_refl)
next
  case (Cons r rest)
  obtain e st1 where c: "call_resource (Try r) (TryCall i) ctx st = (e, st1)"
    by (metis prod.collapse)
  note m1 = call_resource_marks[OF c]
  show ?case
  proof (cases e)
    case None
    with Cons.prems c obtain st2 where
      m: "markResourceCompleted PhaseTry (TransactionID ctx) i st1 = Some st2"
      and r: "tryResources_from rs rest (Suc i) ctx st2 = Some (res, st')"
      by (auto split: option.splits)
    from only_marks_added_trans[OF m1 markResourceCompleted_marks[OF m]] Cons.IH[OF r]
    show ?thesis by (rule only_marks_added_trans)
  next
    case (Some err)
    with Cons.prems c have "compensate_tried rs i ctx st1 = Some st'"
      by (auto split: option.splits)
    from m1 compensate_tried_marks[OF this] show ?thesis by (rule only_marks_added_trans)
  qed
qed

lemma direct_cancelResources_from_marks:
  "direct_cancelResources_from rs i ctx st = Some st' \<Longrightarrow> only_marks_added st st'"
proof (induction rs arbitrary: i st)
  case Nil
  then show ?case by (simp add: only_marks_added_refl)
next
  case (Cons r rs)
  obtain e st1 where c: "call_resource (Cancel r) (CancelCall i) ctx st = (e, st1)"
    by (metis prod.collapse)
  note m1 = call_resource_marks[OF c]
  show ?case
  proof (cases e)
    case None
    with Cons.prems c obtain st2 where
      m: "markResourceCompleted PhaseCancel (TransactionID ctx) i st1 = Some st2"
      and r: "direct_cancelResources_from rs (Suc i) ctx st2 = Some st'"
      by (auto split: option.splits)
    from only_marks_added_trans[OF m1 markResourceCompleted_marks[OF m]] Cons.IH[OF r]
    show ?thesis by (rule only_marks_added_trans)
  next
    case (Some err)
    with Cons.prems c have "direct_cancelResources_from rs (Suc i) ctx st1 = Some st'" by simp
    from m1 Cons.IH[OF this] show ?thesis by (rule only_marks_added_trans)
  qed
qed

lemma ExecuteSeckill_try_fails_at:
  assumes len: "length rs = 3"
    and fresh: "tcc_transaction_log st (TransactionID ctx) \<noteq> Some TCCStatusConfirmed"
               "tcc_transaction_log st (TransactionID ctx) \<noteq> Some TCCStatusCancelled"
    and k: "k < 3"
    and before: "\<forall>m<k. fst (Try (rs ! m) ctx
            (tables_after Try ctx (take m rs) (resource_tables st))) = None"
    and at: "fst (Try (rs ! k) ctx (tables_after Try ctx (take k rs) (resource_tables st))) =
           Some err"
  shows "\<exists>st2. ExecuteSeckill rs ctx st = Some (Some (SeckillFailed err), st2) \<and>
           resource_tables st2 =
             tables_after Cancel ctx rs
               (tables_after Cancel ctx (rev (take k rs))
                  (tables_after Try ctx (take (Suc k) rs) (resource_tables st))) \<and>
           tcc_transaction_log st2 =
             (tcc_transaction_log st)(TransactionID ctx \<mapsto> TCCStatusCancelled) \<and>
           calls st2 = calls st @ map TryCall [0..<Suc k] @ map CancelCall (rev [0..<k]) @
                         map CancelCall [0..<3] \<and>
           only_marks_added st st2"
proof -
  have k': "k < length rs" using k len by simp
  from tryResources_from_fails_at[of 0 rs rs k ctx st err, OF _ _ k' before at] len
  obtain st1 where t:
    "tryResources rs ctx st = Some (Some err, st1)"
    "resource_tables st1 =
       tables_after Cancel ctx (rev (take k rs))
         (tables_after Try ctx (take (Suc k) rs) (resource_tables st))"
    "calls st1 = calls st @ map TryCall [0..<Suc k] @ map CancelCall (rev [0..<k])"
    "tcc_transaction_log st1 = tcc_transaction_log st"
    by (auto simp: tryResources_def)
  let ?st1' = "logTCCTransaction (TransactionID ctx) TCCStatusCancelled st1"
  from direct_cancelResources_from_exact[of 0 rs ctx ?st1'] len obtain st2 where
    c: "direct_cancelResources_from rs 0 ctx ?st1' = Some st2"
    "resource_tables st2 = tables_after Cancel ctx rs (resource_tables ?st1')"
    "calls st2 = calls ?st1' @ map CancelCall [0..<3]"
    "tcc_transaction_log st2 = tcc_transaction_log ?st1'" by auto
  have ex: "ExecuteSeckill rs ctx st = Some (Some (SeckillFailed err), st2)"
    using fresh t(1) c(1)
    by (auto simp: ExecuteSeckill_def split: option.splits TCCTransactionStatus.splits)
  have "only_marks_added st st1"
    using t(1) tryResources_from_marks[of rs rs 0 ctx st "Some err" st1]
    by (simp add: tryResources_def)
  from this logTCCTransaction_marks[of st1 "TransactionID ctx" TCCStatusCancelled]
  have "only_marks_added st ?st1'" by (rule only_marks_added_trans)
  from this direct_cancelResources_from_marks[OF c(1)]
  have mk: "only_marks_added st st2" by (rule only_marks_added_trans)
  show ?thesis
    using ex c(2,3,4) t(2,3,4) mk
    by (intro exI[of _ st2]) (simp add: logTCCTransaction_def)
qed
section \<open>The sweepers\<close>

text \<open>
  What the Go sweeper \<^verbatim>\<open>Compensate\<close> selects and calls, what the sweep query of the design
  notes selects, and what the two methods of the version-based coordinator do with a
  transaction that is, or is not, in status \<^verbatim>\<open>TRIED\<close>.
\<close>

lemma Compensate_query_iff:
  "(txID, st) \<in> set (Compensate_query now rows) \<longleftrightarrow>
     (\<exists>r \<in> set rows. t_tx_id r = txID \<and> t_status r = st \<and> non_terminal st \<and>
        t_create_time r < now - 300)"
  by (auto simp: Compensate_query_def)

lemma Compensate_rows_step:
  assumes "non_terminal status"
  shows "Compensate_rows yield now ((txID, status) # rest) (db, cs) =
           (case spec_redrive yield now (txID, status) db of
              Panics \<Rightarrow> (db, cs @ [spec_redrive_call (txID, status)], ProcessPanicked)
            | Returns (err, db') \<Rightarrow>
                Compensate_rows yield now rest (db', cs @ [spec_redrive_call (txID, status)]))"
  using assms by (cases status) (auto simp: non_terminal_def Let_def split: go_result.splits)

lemma spec_redriven_Cons:
  "spec_redriven yield now (x # xs) db =
     spec_redriven yield now xs
       (case spec_redrive yield now x db of Returns (err, d') \<Rightarrow> d' | Panics \<Rightarrow> db)"
  by (simp add: spec_redriven_def)

lemma Compensate_rows_completes:
  assumes "\<forall>x \<in> set xs. non_terminal (snd x)"
    and "\<forall>i<length xs. spec_redrive yield now (xs ! i)
            (spec_redriven yield now (take i xs) db) \<noteq> Panics"
  shows "Compensate_rows yield now xs (db, cs) =
           (spec_redriven yield now xs db, cs @ map spec_redrive_call xs, SweepCompleted)"
  using assms
proof (induction xs arbitrary: db cs)
  case Nil
  then show ?case by (simp add: spec_redriven_def)
next
  case (Cons x xs)
  obtain txID status where x: "x = (txID, status)" by (cases x)
  have nt: "non_terminal status" using Cons.prems(1) x by simp
  have rest: "\<forall>x \<in> set xs. non_terminal (snd x)" using Cons.prems(1) by simp
  from Cons.prems(2)[rule_format, of 0] have
    "spec_redrive yield now x db \<noteq> Panics" by (simp add: spec_redriven_def)
  then obtain err db' where r: "spec_redrive yield now x db = Returns (err, db')"
    by (cases "spec_redrive yield now x db") auto
  have later: "\<forall>i<length xs. spec_redrive yield now (xs ! i)
            (spec_redriven yield now (take i xs) db') \<noteq> Panics"
  proof (intro allI impI)
    fix i assume "i < length xs"
    then have "Suc i < length (x # xs)" by simp
    from Cons.prems(2)[rule_format, OF this] r show
      "spec_redrive yield now (xs ! i) (spec_redriven yield now (take i xs) db') \<noteq> Panics"
      by (simp add: spec_redriven_Cons)
  qed
  show ?case
    using Cons.IH[OF rest later, of "cs @ [spec_redrive_call x]"] r
    unfolding x Compensate_rows_step[OF nt]
    by (simp add: spec_redriven_Cons)
qed

lemma Compensate_rows_panics_at:
  assumes "\<forall>x \<in> set xs. non_terminal (snd x)"
    and "n < length xs"
    and "\<forall>i<n. spec_redrive yield now (xs ! i)
            (spec_redriven yield now (take i xs) db) \<noteq> Panics"
    and "spec_redrive yield now (xs ! n) (spec_redriven yield now (take n xs) db) = Panics"
  shows "Compensate_rows yield now xs (db, cs) =
           (spec_redriven yield now (take n xs) db,
            cs @ map spec_redrive_call (take (Suc n) xs), ProcessPanicked)"
  using assms
proof (induction xs arbitrary: db cs n)
  case Nil
  then show ?case by simp
next
  case (Cons x xs)
  obtain txID status where x: "x = (txID, status)" by (cases x)
  have nt: "non_terminal status" using Cons.prems(1) x by simp
  have rest: "\<forall>x \<in> set xs. non_terminal (snd x)" using Cons.prems(1) by simp
  show ?case
  proof (cases n)
    case 0
    with Cons.prems(4) have "spec_redrive yield now x db = Panics"
      by (simp add: spec_redriven_def)
    then show ?thesis
      using 0 unfolding x Compensate_rows_step[OF nt]
      by (simp add: spec_redriven_def)
  next
    case (Suc n')
    from Cons.prems(3)[rule_format, of 0] Suc have
      "spec_redrive yield now x db \<noteq> Panics" by (simp add: spec_redriven_def)
    then obtain err db' where r: "spec_redrive yield now x db = Returns (err, db')"
      by (cases "spec_redrive yield now x db") auto
    have n': "n' < length xs" using Cons.prems(2) Suc by simp
    have before: "\<forall>i<n'. spec_redrive yield now (xs ! i)
            (spec_redriven yield now (take i xs) db') \<noteq> Panics"
    proof (intro allI impI)
      fix i assume "i < n'"
      then have "Suc i < n" using Suc by simp
      from Cons.prems(3)[rule_format, OF this] r show
        "spec_redrive yield now (xs ! i) (spec_redriven yield now (take i xs) db') \<noteq> Panics"
        by (simp add: spec_redriven_Cons)
    qed
    have at: "spec_redrive yield now (xs ! n') (spec_redriven yield now (take n' xs) db') =
        Panics"
      using Cons.prems(4) Suc r by (simp add: spec_redriven_Cons)
    show ?thesis
      using Cons.IH[OF rest n' before at, of "cs @ [spec_redrive_call x]"] r Suc
      unfolding x Compensate_rows_step[OF nt]
      by (simp add: spec_redriven_Cons)
  qed
qed

lemma Compensate_query_non_terminal:
  "\<forall>x \<in> set (Compensate_query now rows). non_terminal (snd x)"
  by (auto simp: Compensate_query_def)

lemma Compensate_sweep_completes:
  assumes "\<forall>i<length (Compensate_query now (std_tcc_transaction db)).
      spec_redrive yield now (Compensate_query now (std_tcc_transaction db) ! i)
        (spec_redriven yield now (take i (Compensate_query now (std_tcc_transaction db))) db) \<noteq>
      Panics"
  shows "Compensate_sweep yield now db =
           (spec_redriven yield now (Compensate_query now (std_tcc_transaction db)) db,
            map spec_redrive_call (Compensate_query now (std_tcc_transaction db)),
            SweepCompleted)"
  using Compensate_rows_completes[OF Compensate_query_non_terminal assms, of "[]"]
  by (simp add: Compensate_sweep_def)

lemma Compensate_sweep_panics_at:
  assumes "n < length (Compensate_query now (std_tcc_transaction db))"
    and "\<forall>i<n. spec_redrive yield now (Compensate_query now (std_tcc_transaction db) ! i)
        (spec_redriven yield now (take i (Compensate_query now (std_tcc_transaction db))) db) \<noteq>
      Panics"
    and "spec_redrive yield now (Compensate_query now (std_tcc_transaction db) ! n)
        (spec_redriven yield now (take n (Compensate_query now (std_tcc_transaction db))) db) =
      Panics"
  shows "Compensate_sweep yield now db =
           (spec_redriven yield now (take n (Compensate_query now (std_tcc_transaction db))) db,
            map spec_redrive_call (take (Suc n) (Compensate_query now (std_tcc_transaction db))),
            ProcessPanicked)"
  using Compensate_rows_panics_at[OF Compensate_query_non_terminal assms, of "[]"]
  by (simp add: Compensate_sweep_def)

lemma sweep_query_sound:
  assumes "r \<in> set (sweep_query now rows)"
  shows "r \<in> set rows \<and> non_terminal (t_status r) \<and> t_retry_count r < t_max_retry r \<and>
         before_timeout now r"
proof -
  from assms have "r \<in> set (sort_key t_update_time
       (filter (\<lambda>r. non_terminal (t_status r) \<and> t_retry_count r < t_max_retry r \<and> before_timeout now r)
          rows))"
    unfolding sweep_query_def by (rule in_set_takeD)
  then show ?thesis by simp
qed

lemma sweep_query_bounded:
  "length (sweep_query now rows) \<le> 100 \<and> sorted (map t_update_time (sweep_query now rows))"
  unfolding sweep_query_def
  by (simp add: take_map[symmetric] sorted_wrt_take del: take_map)

lemma sweep_case_dispatch:
  "non_terminal (t_status r) \<Longrightarrow>
   sweep_case r = Some (if t_status r = GT_TRIED \<or> t_status r = GT_CONFIRMING
                        then CallConfirm (t_tx_id r) else CallCancel (t_tx_id r))"
  by (cases "t_status r") (simp_all add: non_terminal_def)

lemma timeout_failed_marks:
  assumes "r \<in> set rows" "t_tx_id r = txID" "past_timeout now r"
  shows "r\<lparr>t_status := GT_FAILED, t_update_time := now\<rparr> \<in> set (timeout_failed now txID rows)"
  using assms by (force simp: timeout_failed_def update_where_def)

lemma timeout_failed_excluded:
  assumes "r \<in> set (sweep_query now' (timeout_failed now txID rows))"
  shows "\<not> (t_tx_id r = txID \<and> past_timeout now r)"
proof
  assume p: "t_tx_id r = txID \<and> past_timeout now r"
  from sweep_query_sound[OF assms] have r: "r \<in> set (timeout_failed now txID rows)"
    "non_terminal (t_status r)" by simp_all
  from r(1) obtain r0 where r0: "r0 \<in> set rows"
    "r = (if t_tx_id r0 = txID \<and> past_timeout now r0
          then r0\<lparr>t_status := GT_FAILED, t_update_time := now\<rparr> else r0)"
    by (auto simp: timeout_failed_def update_where_def)
  show False
  proof (cases "t_tx_id r0 = txID \<and> past_timeout now r0")
    case True
    with r0(2) r(2) show False by (simp add: non_terminal_def)
  next
    case False
    with r0(2) p show False by simp
  qed
qed

lemma Coordinator_Confirm_not_TRIED:
  assumes "\<forall>r \<in> set (std_tcc_transaction db). \<not> (t_tx_id r = txID \<and> t_status r = GT_TRIED)"
  shows "Coordinator_Confirm entries now txID args db = Returns (Some InvalidStateForConfirmStd, db)"
  using assms by (simp add: Coordinator_Confirm_def filter_empty_conv)

lemma Coordinator_Cancel_not_TRIED:
  assumes "\<forall>r \<in> set (std_tcc_transaction db). \<not> (t_tx_id r = txID \<and> t_status r = GT_TRIED)"
  shows "Coordinator_Cancel entries now txID args db = Returns (Some InvalidStateForCancelStd, db)"
  using assms by (simp add: Coordinator_Cancel_def filter_empty_conv)

lemma Coordinator_Confirm_TRIED:
  assumes "r \<in> set (std_tcc_transaction db)" "t_tx_id r = txID" "t_status r = GT_TRIED"
    and "range_resources Confirm ConfirmCall entries args (std_rm_tables db, []) = (None, st)"
  shows "\<exists>db'. Coordinator_Confirm entries now txID args db = Returns (None, db') \<and>
           r\<lparr>t_status := GT_CONFIRMED, t_update_time := now\<rparr> \<in> set (std_tcc_transaction db')"
proof -
  have ne: "filter (\<lambda>r. t_tx_id r = txID \<and> t_status r = GT_TRIED) (std_tcc_transaction db) \<noteq> []"
    using assms(1-3) by (auto simp: filter_empty_conv)
  obtain s' tr where st: "st = (s', tr)" by (cases st)
  have "r\<lparr>t_status := GT_CONFIRMED, t_update_time := now\<rparr>
          \<in> set (set_t_status now txID GT_CONFIRMING GT_CONFIRMED
                  (set_t_status now txID GT_TRIED GT_CONFIRMING (std_tcc_transaction db)))"
    using assms(1-3) by (force simp: set_t_status_def update_where_def)
  then show ?thesis
    using ne assms(4) st by (simp add: Coordinator_Confirm_def Let_def)
qed

text \<open>
  The bundle of \<^verbatim>\<open>recoverArgs\<close> has no entry \<^verbatim>\<open>account_id\<close>: the Confirm and the Cancel
  of the account manager panic on it, whatever the tables. A sequence of managers that
  yields the account manager first makes the coordinator's Confirm of a transaction in
  status \<^verbatim>\<open>TRIED\<close> panic.
\<close>

lemma Std_AccountRM_recoverArgs_panics:
  "Confirm Std_AccountRM (recoverArgs txID) s = (Some TypeAssertionPanic, s) \<and>
   Cancel Std_AccountRM (recoverArgs txID) s = (Some TypeAssertionPanic, s)"
  by (simp add: Std_AccountRM_def on_account_def Std_AccountRM_Confirm_def
      Std_AccountRM_Cancel_def recoverArgs_def assert_int_def)

lemma Coordinator_Confirm_account_first_panics:
  assumes "r \<in> set (std_tcc_transaction db)" "t_tx_id r = txID" "t_status r = GT_TRIED"
  shows "Coordinator_Confirm ((name, Std_AccountRM) # entries) now txID (recoverArgs txID) db =
           Panics"
proof -
  have ne: "filter (\<lambda>r. t_tx_id r = txID \<and> t_status r = GT_TRIED) (std_tcc_transaction db) \<noteq> []"
    using assms by (auto simp: filter_empty_conv)
  show ?thesis
    using ne Std_AccountRM_recoverArgs_panics[of txID "std_rm_tables db"]
    by (simp add: Coordinator_Confirm_def Let_def)
qed

lemma Std_InventoryRM_recoverArgs_missing_item:
  assumes "std_inventory s 1 = None"
  shows "Confirm Std_InventoryRM (recoverArgs txID) s = (Some ErrNoRows, s)"
  using assms
  by (simp add: Std_InventoryRM_def on_inventory_def Std_InventoryRM_Confirm_def
      recoverArgs_def assert_int_def)

lemma Coordinator_Confirm_inventory_first_missing_item:
  assumes "r \<in> set (std_tcc_transaction db)" "t_tx_id r = txID" "t_status r = GT_TRIED"
    and "std_inventory (std_rm_tables db) 1 = None"
  shows "Coordinator_Confirm ((name, Std_InventoryRM) # entries) now txID (recoverArgs txID) db =
           Returns (Some (RMFailedStd ErrNoRows), db)"
proof -
  have ne: "filter (\<lambda>r. t_tx_id r = txID \<and> t_status r = GT_TRIED) (std_tcc_transaction db) \<noteq> []"
    using assms(1-3) by (auto simp: filter_empty_conv)
  show ?thesis
    using ne Std_InventoryRM_recoverArgs_missing_item[OF assms(4), of txID]
    by (simp add: Coordinator_Confirm_def Let_def)
qed
section \<open>The claims\<close>

text \<open>
  C1. As the claim states it, no coordinator calls Cancel once a Confirm has been issued.
  \<^verbatim>\<open>ExecuteSeckillTCC\<close> is written the other way (the comment at line 479 of
  seckill\_tcc.go: a failed Confirm is compensated by Cancel). What holds: in
  \<^verbatim>\<open>ExecuteSeckillTCC\<close>, when the Try of every resource has succeeded and the Confirm of
  the resource at index \<open>j\<close> is the first that fails, no Confirm is called again and none
  is called on the resources after \<open>j\<close>; the manager calls Cancel on every registered
  resource, in slice order, and returns the failure of the Confirm phase; the tables are
  those the Try of every resource, the Confirm of the resources up to \<open>j\<close> and the Cancel
  of every resource leave, in that order. The manager keeps no status of the
  transaction. In the freeze-table prototype the claim about the statuses holds: no
  sequence of calls of \<^verbatim>\<open>StartTransaction\<close>, \<^verbatim>\<open>Confirm\<close> and \<^verbatim>\<open>Cancel\<close> of
  \<^verbatim>\<open>ImprovedCoordinator\<close> commits the status \<^verbatim>\<open>CONFIRMING\<close>, so that no transaction goes
  from \<^verbatim>\<open>CONFIRMING\<close> to \<^verbatim>\<open>CANCELLING\<close>; a \<^verbatim>\<open>Confirm\<close> that returns an error leaves the
  tables as they were, a \<^verbatim>\<open>Confirm\<close> that returns \<^verbatim>\<open>nil\<close> has taken the transaction from
  \<^verbatim>\<open>TRIED\<close> to \<^verbatim>\<open>CONFIRMED\<close>, and it calls nothing but the Confirm of its managers, each
  at most once.
\<close>

theorem confirm_failure_is_answered_with_cancel:
  "(j < length rs \<and>
    (\<forall>k<length rs. fst (Try (rs ! k) ctx (tables_after Try ctx (take k rs) s)) = None) \<and>
    (\<forall>k<j. fst (Confirm (rs ! k) ctx
               (tables_after Confirm ctx (take k rs) (tables_after Try ctx rs s))) = None) \<and>
    fst (Confirm (rs ! j) ctx
           (tables_after Confirm ctx (take j rs) (tables_after Try ctx rs s))) = Some err \<longrightarrow>
      ExecuteSeckillTCC rs ctx s =
        (Some (ConfirmPhaseFailed err),
         (tables_after Cancel ctx rs
            (tables_after Confirm ctx (take (Suc j) rs) (tables_after Try ctx rs s)),
          map TryCall [0..<length rs] @ map ConfirmCall [0..<Suc j] @
          map CancelCall [0..<length rs]))) \<and>
   ((\<forall>t. tcc_transaction db t \<noteq> Some GT_CONFIRMING) \<longrightarrow>
      (\<forall>t. tcc_transaction (ImprovedCoordinator_run requests db) t \<noteq> Some GT_CONFIRMING)) \<and>
   (fst (ImprovedCoordinator_Confirm entries1 txID1 args1 db1) \<noteq> None \<longrightarrow>
      fst (snd (ImprovedCoordinator_Confirm entries1 txID1 args1 db1)) = db1) \<and>
   (fst (ImprovedCoordinator_Confirm entries2 txID2 args2 db2) = None \<longrightarrow>
      tcc_transaction db2 txID2 = Some GT_TRIED \<and>
      tcc_transaction (fst (snd (ImprovedCoordinator_Confirm entries2 txID2 args2 db2))) txID2 =
        Some GT_CONFIRMED) \<and>
   (\<exists>n. n \<le> length entries3 \<and>
      snd (snd (ImprovedCoordinator_Confirm entries3 txID3 args3 db3)) =
        map ConfirmCall (take n (map fst entries3)))"
proof (intro conjI impI)
  assume "j < length rs \<and>
    (\<forall>k<length rs. fst (Try (rs ! k) ctx (tables_after Try ctx (take k rs) s)) = None) \<and>
    (\<forall>k<j. fst (Confirm (rs ! k) ctx
               (tables_after Confirm ctx (take k rs) (tables_after Try ctx rs s))) = None) \<and>
    fst (Confirm (rs ! j) ctx
           (tables_after Confirm ctx (take j rs) (tables_after Try ctx rs s))) = Some err"
  then show "ExecuteSeckillTCC rs ctx s =
        (Some (ConfirmPhaseFailed err),
         (tables_after Cancel ctx rs
            (tables_after Confirm ctx (take (Suc j) rs) (tables_after Try ctx rs s)),
          map TryCall [0..<length rs] @ map ConfirmCall [0..<Suc j] @
          map CancelCall [0..<length rs]))"
    using ExecuteSeckillTCC_confirm_fails_at[of j rs ctx s err] by blast
next
  assume "\<forall>t. tcc_transaction db t \<noteq> Some GT_CONFIRMING"
  then show "\<forall>t. tcc_transaction (ImprovedCoordinator_run requests db) t \<noteq> Some GT_CONFIRMING"
    by (rule ImprovedCoordinator_run_never_CONFIRMING)
next
  assume "fst (ImprovedCoordinator_Confirm entries1 txID1 args1 db1) \<noteq> None"
  then show "fst (snd (ImprovedCoordinator_Confirm entries1 txID1 args1 db1)) = db1"
    by (rule ImprovedCoordinator_Confirm_failure_rolls_back)
next
  assume a: "fst (ImprovedCoordinator_Confirm entries2 txID2 args2 db2) = None"
  from ImprovedCoordinator_Confirm_success[OF a]
  show "tcc_transaction db2 txID2 = Some GT_TRIED"
    "tcc_transaction (fst (snd (ImprovedCoordinator_Confirm entries2 txID2 args2 db2))) txID2 =
        Some GT_CONFIRMED" by simp_all
next
  show "\<exists>n. n \<le> length entries3 \<and>
      snd (snd (ImprovedCoordinator_Confirm entries3 txID3 args3 db3)) =
        map ConfirmCall (take n (map fst entries3))"
    by (rule ImprovedCoordinator_Confirm_calls)
qed

theorem confirm_failure_is_answered_with_cancel_witness:
  "fst (Try (ex_seckill_resources ! 0) ex_ctx ex_seckill_db) = None \<and>
   fst (Try (ex_seckill_resources ! 1) ex_ctx ex_seckill_db_frozen) = None \<and>
   tables_after Try ex_ctx ex_seckill_resources ex_seckill_db = ex_seckill_db_frozen \<and>
   fst (Confirm (ex_seckill_resources ! 0) ex_ctx ex_seckill_db_frozen) = None \<and>
   fst (Confirm (ex_seckill_resources ! 1) ex_ctx ex_seckill_db_confirmed) =
     Some FreezeRecordNotFound \<and>
   ExecuteSeckillTCC ex_seckill_resources ex_ctx ex_seckill_db =
     (Some (ConfirmPhaseFailed FreezeRecordNotFound),
      (ex_seckill_db_cancelled,
       [TryCall 0, TryCall 1, ConfirmCall 0, ConfirmCall 1, CancelCall 0, CancelCall 1])) \<and>
   tcc_transaction ex_coordinator_db_new = Map.empty \<and>
   ImprovedCoordinator_run
       [(RequestStart, ex_entries, ''tx1'', ex_seata_args),
        (RequestConfirm, ex_entries, ''tx1'', ex_seata_args)] ex_coordinator_db_new =
     \<lparr>tcc_transaction = [''tx1'' \<mapsto> GT_CONFIRMED], rm_tables = ex_seata_db_confirmed\<rparr> \<and>
   (\<forall>t. tcc_transaction (ImprovedCoordinator_run
           [(RequestStart, ex_entries, ''tx1'', ex_seata_args),
            (RequestConfirm, ex_entries, ''tx1'', ex_seata_args)] ex_coordinator_db_new) t \<noteq>
         Some GT_CONFIRMING) \<and>
   ImprovedCoordinator_Confirm ex_entries_confirm_fails ''tx1'' ex_seata_args
       ex_coordinator_db_tried =
     (Some (RMFailed QueryInventoryFailed), ex_coordinator_db_tried,
      [ConfirmCall ''inventory'', ConfirmCall ''account'']) \<and>
   ImprovedCoordinator_Confirm ex_entries ''tx1'' ex_seata_args ex_coordinator_db_tried =
     (None, \<lparr>tcc_transaction = [''tx1'' \<mapsto> GT_CONFIRMED], rm_tables = ex_seata_db_confirmed\<rparr>,
      [ConfirmCall ''inventory'']) \<and>
   tcc_transaction ex_coordinator_db_tried ''tx1'' = Some GT_TRIED \<and>
   fst (snd (ImprovedCoordinator_Confirm ex_entries_confirm_fails ''tx1'' ex_seata_args
       ex_coordinator_db_tried)) = ex_coordinator_db_tried \<and>
   tcc_transaction (fst (snd (ImprovedCoordinator_Confirm ex_entries ''tx1'' ex_seata_args
       ex_coordinator_db_tried))) ''tx1'' = Some GT_CONFIRMED"
proof -
  have t: "SeckillInventoryResource_Try ex_ctx ex_seckill_db = (None, ex_seckill_db_frozen)"
    by (simp add: SeckillInventoryResource_Try_def ex_ctx_def ex_seckill_db_def
        ex_seckill_db_frozen_def)
  have c: "SeckillInventoryResource_Confirm ex_ctx ex_seckill_db_frozen =
      (None, ex_seckill_db_confirmed)"
    by (simp add: SeckillInventoryResource_Confirm_def ex_ctx_def freeze_key_def
        update_row_def update_where_def ex_seckill_db_frozen_def ex_seckill_db_confirmed_def)
  have x: "SeckillInventoryResource_Cancel ex_ctx ex_seckill_db_confirmed =
      (None, ex_seckill_db_cancelled)"
    by (simp add: SeckillInventoryResource_Cancel_def ex_ctx_def freeze_key_def
        update_row_def update_where_def ex_seckill_db_confirmed_def ex_seckill_db_cancelled_def)
  have len: "length ex_seckill_resources = 2"
    by (simp add: ex_seckill_resources_def)
  have h1: "fst (Try (ex_seckill_resources ! 0) ex_ctx ex_seckill_db) = None"
    by (simp add: ex_seckill_resources_def SeckillInventoryResource_def t)
  have h2: "fst (Try (ex_seckill_resources ! 1) ex_ctx ex_seckill_db_frozen) = None"
    by (simp add: ex_seckill_resources_def confirm_failing_resource_def)
  have ta: "tables_after Try ex_ctx ex_seckill_resources ex_seckill_db = ex_seckill_db_frozen"
    by (simp add: ex_seckill_resources_def SeckillInventoryResource_def
        confirm_failing_resource_def t)
  have h3: "fst (Confirm (ex_seckill_resources ! 0) ex_ctx ex_seckill_db_frozen) = None"
    by (simp add: ex_seckill_resources_def SeckillInventoryResource_def c)
  have h4: "fst (Confirm (ex_seckill_resources ! 1) ex_ctx ex_seckill_db_confirmed) =
      Some FreezeRecordNotFound"
    by (simp add: ex_seckill_resources_def confirm_failing_resource_def)
  have tries: "\<forall>k<length ex_seckill_resources.
      fst (Try (ex_seckill_resources ! k) ex_ctx
             (tables_after Try ex_ctx (take k ex_seckill_resources) ex_seckill_db)) = None"
  proof (intro allI impI)
    fix k assume "k < length ex_seckill_resources"
    then consider "k = 0" | "k = 1" using len by linarith
    then show "fst (Try (ex_seckill_resources ! k) ex_ctx
             (tables_after Try ex_ctx (take k ex_seckill_resources) ex_seckill_db)) = None"
    proof cases
      case 1
      then show ?thesis using h1 by simp
    next
      case 2
      then show ?thesis
        using h2 by (simp add: ex_seckill_resources_def SeckillInventoryResource_def t)
    qed
  qed
  have confirms: "\<forall>k<1. fst (Confirm (ex_seckill_resources ! k) ex_ctx
      (tables_after Confirm ex_ctx (take k ex_seckill_resources)
         (tables_after Try ex_ctx ex_seckill_resources ex_seckill_db))) = None"
    using h3 by (simp add: ta)
  have fails: "fst (Confirm (ex_seckill_resources ! 1) ex_ctx
      (tables_after Confirm ex_ctx (take 1 ex_seckill_resources)
         (tables_after Try ex_ctx ex_seckill_resources ex_seckill_db))) = Some FreezeRecordNotFound"
    by (simp add: ta ex_seckill_resources_def confirm_failing_resource_def)
  have j: "(1::nat) < length ex_seckill_resources" by (simp add: len)
  have u: "[0..<2::nat] = [0, 1]" by (simp add: numeral_2_eq_2)
  note T = confirm_failure_is_answered_with_cancel
    [of 1 ex_seckill_resources ex_ctx ex_seckill_db FreezeRecordNotFound
        ex_coordinator_db_new
        "[(RequestStart, ex_entries, ''tx1'', ex_seata_args),
          (RequestConfirm, ex_entries, ''tx1'', ex_seata_args)]"
        ex_entries_confirm_fails "''tx1''" ex_seata_args ex_coordinator_db_tried
        ex_entries "''tx1''" ex_seata_args ex_coordinator_db_tried
        ex_entries "''tx1''" ex_seata_args ex_coordinator_db_tried]
  note A = mp[OF T[THEN conjunct1] conjI[OF j conjI[OF tries conjI[OF confirms fails]]]]
  have run: "ExecuteSeckillTCC ex_seckill_resources ex_ctx ex_seckill_db =
     (Some (ConfirmPhaseFailed FreezeRecordNotFound),
      (ex_seckill_db_cancelled,
       [TryCall 0, TryCall 1, ConfirmCall 0, ConfirmCall 1, CancelCall 0, CancelCall 1]))"
    using A unfolding ta len u
    by (simp add: ex_seckill_resources_def SeckillInventoryResource_def
          confirm_failing_resource_def c x)
  have e: "tcc_transaction ex_coordinator_db_new = Map.empty"
    by (simp add: ex_coordinator_db_new_def)
  then have inv: "\<forall>t. tcc_transaction ex_coordinator_db_new t \<noteq> Some GT_CONFIRMING" by simp
  note B = mp[OF T[THEN conjunct2, THEN conjunct1] inv]
  have st: "Seata_InventoryRM_Try ex_seata_args ex_seata_db = (None, ex_seata_db_tried)"
    by (simp add: Seata_InventoryRM_Try_def ex_seata_args_def ex_seata_db_def
        ex_seata_db_tried_def)
  have sc: "Seata_InventoryRM_Confirm ex_seata_args ex_seata_db_tried = (None, ex_seata_db_confirmed)"
    by (simp add: Seata_InventoryRM_Confirm_def ex_seata_args_def ex_seata_db_tried_def
        ex_seata_db_confirmed_def update_row_def)
  have a1: "ex_seata_args\<lparr>tx_id := ''tx1''\<rparr> = ex_seata_args"
    by (simp add: ex_seata_args_def)
  have start: "ImprovedCoordinator_StartTransaction ex_entries ''tx1'' ex_seata_args
      ex_coordinator_db_new = (None, ex_coordinator_db_tried, [TryCall ''inventory''])"
    by (simp add: ImprovedCoordinator_StartTransaction_def ex_coordinator_db_new_def
        ex_coordinator_db_tried_def ex_entries_def Seata_InventoryRM_def a1 st
        set_status_where_def)
  have ok: "ImprovedCoordinator_Confirm ex_entries ''tx1'' ex_seata_args ex_coordinator_db_tried =
     (None, \<lparr>tcc_transaction = [''tx1'' \<mapsto> GT_CONFIRMED], rm_tables = ex_seata_db_confirmed\<rparr>,
      [ConfirmCall ''inventory''])"
    by (simp add: ImprovedCoordinator_Confirm_def ex_coordinator_db_tried_def ex_entries_def
        Seata_InventoryRM_def a1 sc set_status_where_def)
  have ko: "ImprovedCoordinator_Confirm ex_entries_confirm_fails ''tx1'' ex_seata_args
       ex_coordinator_db_tried =
     (Some (RMFailed QueryInventoryFailed), ex_coordinator_db_tried,
      [ConfirmCall ''inventory'', ConfirmCall ''account''])"
    by (simp add: ImprovedCoordinator_Confirm_def ex_coordinator_db_tried_def
        ex_entries_confirm_fails_def Seata_InventoryRM_def confirm_failing_resource_def a1 sc)
  have r: "ImprovedCoordinator_run
       [(RequestStart, ex_entries, ''tx1'', ex_seata_args),
        (RequestConfirm, ex_entries, ''tx1'', ex_seata_args)] ex_coordinator_db_new =
     \<lparr>tcc_transaction = [''tx1'' \<mapsto> GT_CONFIRMED], rm_tables = ex_seata_db_confirmed\<rparr>"
    by (simp add: ImprovedCoordinator_run_def start ok)
  have tr: "tcc_transaction ex_coordinator_db_tried ''tx1'' = Some GT_TRIED"
    by (simp add: ex_coordinator_db_tried_def)
  have kf: "fst (ImprovedCoordinator_Confirm ex_entries_confirm_fails ''tx1'' ex_seata_args
       ex_coordinator_db_tried) \<noteq> None" by (simp add: ko)
  have kn: "fst (ImprovedCoordinator_Confirm ex_entries ''tx1'' ex_seata_args
       ex_coordinator_db_tried) = None" by (simp add: ok)
  note F = mp[OF T[THEN conjunct2, THEN conjunct2, THEN conjunct1] kf]
  note S = mp[OF T[THEN conjunct2, THEN conjunct2, THEN conjunct2, THEN conjunct1] kn]
  show ?thesis by (intro conjI h1 h2 ta h3 h4 run e r B ko ok tr F S[THEN conjunct2])
qed

theorem cancel_after_confirm_counterexample:
  "ExecuteSeckillTCC ex_resources_confirm_fails ex_ctx () =
     (Some (ConfirmPhaseFailed ''confirm failed''),
      ((), [TryCall 0, TryCall 1, ConfirmCall 0, ConfirmCall 1, CancelCall 0, CancelCall 1])) \<and>
   fst (ExecuteSeckillTCC ex_seckill_resources ex_ctx ex_seckill_db) =
     Some (ConfirmPhaseFailed FreezeRecordNotFound) \<and>
   snd (snd (ExecuteSeckillTCC ex_seckill_resources ex_ctx ex_seckill_db)) =
     [TryCall 0, TryCall 1, ConfirmCall 0, ConfirmCall 1, CancelCall 0, CancelCall 1] \<and>
   map fz_status (seckill_inventory_freeze
       (fst (snd (ExecuteSeckillTCC ex_seckill_resources ex_ctx ex_seckill_db)))) = [CANCELLED] \<and>
   seckill_inventory (fst (snd (ExecuteSeckillTCC ex_seckill_resources ex_ctx ex_seckill_db))) 2001 =
     Some \<lparr>stock = 100, frozen_stock = 0, sold_stock = 0\<rparr>"
proof -
  have a: "ExecuteSeckillTCC ex_resources_confirm_fails ex_ctx () =
     (Some (ConfirmPhaseFailed ''confirm failed''),
      ((), [TryCall 0, TryCall 1, ConfirmCall 0, ConfirmCall 1, CancelCall 0, CancelCall 1]))"
    by (simp add: ExecuteSeckillTCC_def ex_resources_confirm_fails_def ok_resource_def
        confirm_failing_resource_def)
  have t: "SeckillInventoryResource_Try ex_ctx ex_seckill_db = (None, ex_seckill_db_frozen)"
    by (simp add: SeckillInventoryResource_Try_def ex_ctx_def ex_seckill_db_def
        ex_seckill_db_frozen_def)
  have c: "SeckillInventoryResource_Confirm ex_ctx ex_seckill_db_frozen =
      (None, ex_seckill_db_confirmed)"
    by (simp add: SeckillInventoryResource_Confirm_def ex_ctx_def freeze_key_def
        update_row_def update_where_def ex_seckill_db_frozen_def ex_seckill_db_confirmed_def)
  have x: "SeckillInventoryResource_Cancel ex_ctx ex_seckill_db_confirmed =
      (None, ex_seckill_db_cancelled)"
    by (simp add: SeckillInventoryResource_Cancel_def ex_ctx_def freeze_key_def
        update_row_def update_where_def ex_seckill_db_confirmed_def ex_seckill_db_cancelled_def)
  have run: "ExecuteSeckillTCC ex_seckill_resources ex_ctx ex_seckill_db =
     (Some (ConfirmPhaseFailed FreezeRecordNotFound),
      (ex_seckill_db_cancelled,
       [TryCall 0, TryCall 1, ConfirmCall 0, ConfirmCall 1, CancelCall 0, CancelCall 1]))"
    by (simp add: ExecuteSeckillTCC_def ex_seckill_resources_def SeckillInventoryResource_def
        confirm_failing_resource_def t c x)
  show ?thesis using a run by (simp add: ex_seckill_db_cancelled_def)
qed

text \<open>
  C2. As the claim states it, Try is idempotent for every resource. The inventory
  resource of seckill\_tcc.go looks up no earlier record: what it does on a second Try is
  the third part below. What holds: \<^verbatim>\<open>InventoryRM.Try\<close> of the freeze-table prototype and
  \<^verbatim>\<open>DirectInventoryResource.Try\<close> are idempotent: a second Try with the same arguments
  returns what the first returned (success after a success) and leaves the tables as the
  first Try left them. \<^verbatim>\<open>SeckillInventoryResource.Try\<close> applies its effect again: when two
  Try calls for the same transaction both succeed, the quantity has been moved from
  \<^verbatim>\<open>stock\<close> to \<^verbatim>\<open>frozen_stock\<close> twice and there are two more freeze records.
\<close>

theorem repeated_try_of_the_freeze_table_and_direct_prototypes:
  "Seata_InventoryRM_Try args (snd (Seata_InventoryRM_Try args sdb)) =
     Seata_InventoryRM_Try args sdb \<and>
   DirectInventoryResource_Try dctx (snd (DirectInventoryResource_Try dctx d)) =
     DirectInventoryResource_Try dctx d \<and>
   (SeckillInventoryResource_Try ctx db = (None, db1) \<and>
    SeckillInventoryResource_Try ctx db1 = (None, db2) \<longrightarrow>
      (\<exists>row. seckill_inventory db (ProductID ctx) = Some row \<and>
         seckill_inventory db2 (ProductID ctx) =
           Some (row\<lparr>stock := stock row - 2 * Quantity ctx,
                     frozen_stock := frozen_stock row + 2 * Quantity ctx\<rparr>) \<and>
         length (seckill_inventory_freeze db2) = length (seckill_inventory_freeze db) + 2))"
  using Seata_InventoryRM_Try_idem[of args sdb] DirectInventoryResource_Try_idem[of dctx d]
    SeckillInventoryResource_Try_twice[of ctx db db1 db2]
  by blast

theorem repeated_try_of_the_freeze_table_and_direct_prototypes_witness:
  "Seata_InventoryRM_Try ex_seata_args (snd (Seata_InventoryRM_Try ex_seata_args ex_seata_db)) =
     Seata_InventoryRM_Try ex_seata_args ex_seata_db \<and>
   fst (Seata_InventoryRM_Try ex_seata_args ex_seata_db) = None \<and>
   seata_inventory (snd (Seata_InventoryRM_Try ex_seata_args ex_seata_db)) 2001 =
     Some \<lparr>total = 10, available = 8\<rparr> \<and>
   DirectInventoryResource_Try ex_ctx (snd (DirectInventoryResource_Try ex_ctx ex_direct_db)) =
     DirectInventoryResource_Try ex_ctx ex_direct_db \<and>
   SeckillInventoryResource_Try ex_ctx ex_seckill_db =
     (None, snd (SeckillInventoryResource_Try ex_ctx ex_seckill_db)) \<and>
   SeckillInventoryResource_Try ex_ctx (snd (SeckillInventoryResource_Try ex_ctx ex_seckill_db)) =
     (None, snd (SeckillInventoryResource_Try ex_ctx
                   (snd (SeckillInventoryResource_Try ex_ctx ex_seckill_db)))) \<and>
   (\<exists>row. seckill_inventory ex_seckill_db (ProductID ex_ctx) = Some row \<and>
      seckill_inventory (snd (SeckillInventoryResource_Try ex_ctx
                   (snd (SeckillInventoryResource_Try ex_ctx ex_seckill_db)))) (ProductID ex_ctx) =
        Some (row\<lparr>stock := stock row - 2 * Quantity ex_ctx,
                  frozen_stock := frozen_stock row + 2 * Quantity ex_ctx\<rparr>) \<and>
      length (seckill_inventory_freeze (snd (SeckillInventoryResource_Try ex_ctx
                   (snd (SeckillInventoryResource_Try ex_ctx ex_seckill_db))))) =
        length (seckill_inventory_freeze ex_seckill_db) + 2)"
proof -
  let ?db1 = "snd (SeckillInventoryResource_Try ex_ctx ex_seckill_db)"
  let ?db2 = "snd (SeckillInventoryResource_Try ex_ctx ?db1)"
  have a: "SeckillInventoryResource_Try ex_ctx ex_seckill_db = (None, ?db1)"
    by (simp add: SeckillInventoryResource_Try_def ex_ctx_def ex_seckill_db_def)
  have b: "SeckillInventoryResource_Try ex_ctx ?db1 = (None, ?db2)"
    by (simp add: SeckillInventoryResource_Try_def ex_ctx_def ex_seckill_db_def)
  have c: "fst (Seata_InventoryRM_Try ex_seata_args ex_seata_db) = None"
    by (simp add: Seata_InventoryRM_Try_def ex_seata_args_def ex_seata_db_def)
  have d: "seata_inventory (snd (Seata_InventoryRM_Try ex_seata_args ex_seata_db)) 2001 =
     Some \<lparr>total = 10, available = 8\<rparr>"
    by (simp add: Seata_InventoryRM_Try_def ex_seata_args_def ex_seata_db_def)
  note T = repeated_try_of_the_freeze_table_and_direct_prototypes
    [of ex_seata_args ex_seata_db ex_ctx ex_direct_db ex_ctx ex_seckill_db ?db1 ?db2]
  show ?thesis
    by (intro conjI a b c d T[THEN conjunct1] T[THEN conjunct2, THEN conjunct1]
        mp[OF T[THEN conjunct2, THEN conjunct2] conjI[OF a b]])
qed

theorem repeated_try_counterexample:
  "fst (SeckillInventoryResource_Try ex_ctx ex_seckill_db) = None \<and>
   fst (SeckillInventoryResource_Try ex_ctx
          (snd (SeckillInventoryResource_Try ex_ctx ex_seckill_db))) = None \<and>
   seckill_inventory (snd (SeckillInventoryResource_Try ex_ctx ex_seckill_db)) 2001 =
     Some \<lparr>stock = 99, frozen_stock = 1, sold_stock = 0\<rparr> \<and>
   seckill_inventory (snd (SeckillInventoryResource_Try ex_ctx
          (snd (SeckillInventoryResource_Try ex_ctx ex_seckill_db)))) 2001 =
     Some \<lparr>stock = 98, frozen_stock = 2, sold_stock = 0\<rparr> \<and>
   length (seckill_inventory_freeze (snd (SeckillInventoryResource_Try ex_ctx ex_seckill_db))) = 1 \<and>
   length (seckill_inventory_freeze (snd (SeckillInventoryResource_Try ex_ctx
          (snd (SeckillInventoryResource_Try ex_ctx ex_seckill_db))))) = 2"
  by (simp add: SeckillInventoryResource_Try_def ex_ctx_def ex_seckill_db_def)

text \<open>
  C3. As the claim states it, every successful Try followed by Cancel restores the
  counters. A Try that finds a record of the transaction succeeds without reserving
  anything, and the Cancel after it gives back what an earlier Try reserved. What holds:
  for a transaction that has no record yet (in seckill\_tcc.go: no freeze record of the
  transaction and product in status \<^verbatim>\<open>FROZEN\<close> or \<^verbatim>\<open>CONFIRMED\<close>; in the freeze-table
  prototype: no freeze record of the transaction and item; in the direct-deduct
  prototype: no row of the transaction in the deduct log), a successful Try followed by
  Cancel returns success and leaves the inventory table exactly as it was before the Try.
\<close>

theorem first_try_then_cancel_restores_counters:
  "((\<forall>r \<in> set (seckill_inventory_freeze db).
        \<not> (freeze_key ctx r \<and> (fz_status r = FROZEN \<or> fz_status r = CONFIRMED))) \<and>
    SeckillInventoryResource_Try ctx db = (None, db1) \<longrightarrow>
      (\<exists>db2. SeckillInventoryResource_Cancel ctx db1 = (None, db2) \<and>
             seckill_inventory db2 = seckill_inventory db)) \<and>
   (inventory_freeze sdb (tx_id args, item_id args) = None \<and>
    Seata_InventoryRM_Try args sdb = (None, sdb1) \<longrightarrow>
      (\<exists>sdb2. Seata_InventoryRM_Cancel args sdb1 = (None, sdb2) \<and>
              seata_inventory sdb2 = seata_inventory sdb)) \<and>
   ((\<forall>r \<in> set (inventory_deduct_log d). log_transaction_id r \<noteq> TransactionID dctx) \<and>
    DirectInventoryResource_Try dctx d = (None, d1) \<longrightarrow>
      (\<exists>d2. DirectInventoryResource_Cancel dctx d1 = (None, d2) \<and>
            direct_inventory d2 = direct_inventory d))"
  using SeckillInventoryResource_Try_Cancel[of db ctx db1]
    Seata_InventoryRM_Try_Cancel[of sdb args sdb1]
    DirectInventoryResource_Try_Cancel[of d dctx d1]
  by blast

theorem first_try_then_cancel_restores_counters_witness:
  "SeckillInventoryResource_Try ex_ctx ex_seckill_db =
     (None, snd (SeckillInventoryResource_Try ex_ctx ex_seckill_db)) \<and>
   (\<exists>db2. SeckillInventoryResource_Cancel ex_ctx
            (snd (SeckillInventoryResource_Try ex_ctx ex_seckill_db)) = (None, db2) \<and>
          seckill_inventory db2 = seckill_inventory ex_seckill_db) \<and>
   inventory_freeze ex_seata_db (tx_id ex_seata_args, item_id ex_seata_args) = None \<and>
   Seata_InventoryRM_Try ex_seata_args ex_seata_db =
     (None, snd (Seata_InventoryRM_Try ex_seata_args ex_seata_db)) \<and>
   (\<exists>sdb2. Seata_InventoryRM_Cancel ex_seata_args
             (snd (Seata_InventoryRM_Try ex_seata_args ex_seata_db)) = (None, sdb2) \<and>
           seata_inventory sdb2 = seata_inventory ex_seata_db) \<and>
   DirectInventoryResource_Try ex_ctx ex_direct_db =
     (None, snd (DirectInventoryResource_Try ex_ctx ex_direct_db)) \<and>
   (\<exists>d2. DirectInventoryResource_Cancel ex_ctx
            (snd (DirectInventoryResource_Try ex_ctx ex_direct_db)) = (None, d2) \<and>
          direct_inventory d2 = direct_inventory ex_direct_db)"
proof -
  have a1: "\<forall>r \<in> set (seckill_inventory_freeze ex_seckill_db).
        \<not> (freeze_key ex_ctx r \<and> (fz_status r = FROZEN \<or> fz_status r = CONFIRMED))"
    by (simp add: ex_seckill_db_def)
  have a2: "SeckillInventoryResource_Try ex_ctx ex_seckill_db =
     (None, snd (SeckillInventoryResource_Try ex_ctx ex_seckill_db))"
    by (simp add: SeckillInventoryResource_Try_def ex_ctx_def ex_seckill_db_def)
  have b1: "inventory_freeze ex_seata_db (tx_id ex_seata_args, item_id ex_seata_args) = None"
    by (simp add: ex_seata_db_def)
  have b2: "Seata_InventoryRM_Try ex_seata_args ex_seata_db =
     (None, snd (Seata_InventoryRM_Try ex_seata_args ex_seata_db))"
    by (simp add: Seata_InventoryRM_Try_def ex_seata_args_def ex_seata_db_def)
  have c1: "\<forall>r \<in> set (inventory_deduct_log ex_direct_db). log_transaction_id r \<noteq> TransactionID ex_ctx"
    by (simp add: ex_direct_db_def)
  have c2: "DirectInventoryResource_Try ex_ctx ex_direct_db =
     (None, snd (DirectInventoryResource_Try ex_ctx ex_direct_db))"
    by (simp add: DirectInventoryResource_Try_def ex_ctx_def ex_direct_db_def update_row_def)
  note T = first_try_then_cancel_restores_counters
    [of ex_seckill_db ex_ctx "snd (SeckillInventoryResource_Try ex_ctx ex_seckill_db)"
        ex_seata_db ex_seata_args "snd (Seata_InventoryRM_Try ex_seata_args ex_seata_db)"
        ex_direct_db ex_ctx "snd (DirectInventoryResource_Try ex_ctx ex_direct_db)"]
  show ?thesis
    by (intro conjI a2 b1 b2 c2
        mp[OF T[THEN conjunct1] conjI[OF a1 a2]]
        mp[OF T[THEN conjunct2, THEN conjunct1] conjI[OF b1 b2]]
        mp[OF T[THEN conjunct2, THEN conjunct2] conjI[OF c1 c2]])
qed

theorem replayed_try_then_cancel_counterexample:
  "seata_inventory ex_seata_db_tried 2001 = Some \<lparr>total = 10, available = 8\<rparr> \<and>
   quantity ex_seata_args = 2 \<and>
   Seata_InventoryRM_Try ex_seata_args ex_seata_db_tried = (None, ex_seata_db_tried) \<and>
   fst (Seata_InventoryRM_Cancel ex_seata_args ex_seata_db_tried) = None \<and>
   seata_inventory (snd (Seata_InventoryRM_Cancel ex_seata_args ex_seata_db_tried)) 2001 =
     Some \<lparr>total = 10, available = 10\<rparr>"
  by (simp add: Seata_InventoryRM_Try_def Seata_InventoryRM_Cancel_def ex_seata_args_def
      ex_seata_db_tried_def update_row_def)

text \<open>
  C4. A Confirm for a branch in phase \<^verbatim>\<open>CANCELLED\<close> is to return an error and change
  nothing. \<^verbatim>\<open>InventoryRM.Confirm\<close> of the freeze-table prototype does not: on a freeze
  record in state \<^verbatim>\<open>CANCELLED\<close> it returns success and reduces the total of the item by
  the quantity of the call; only its second statement asks for state \<^verbatim>\<open>TRIED\<close>, so the
  record stays \<^verbatim>\<open>CANCELLED\<close>. The other prototypes reject that Confirm and change
  nothing (\<open>SeckillInventoryResource_Confirm_after_cancel\<close>,
  \<open>DirectInventoryResource_Confirm_after_cancel\<close>). The evaluation at one input:
\<close>

theorem confirm_after_cancel_reduces_total:
  "inventory_freeze ex_seata_db_cancelled (tx_id ex_seata_args, item_id ex_seata_args) =
     Some \<lparr>freeze_quantity = 2, state = ST_CANCELLED\<rparr> \<and>
   seata_inventory ex_seata_db_cancelled 2001 = Some \<lparr>total = 10, available = 10\<rparr> \<and>
   fst (Seata_InventoryRM_Confirm ex_seata_args ex_seata_db_cancelled) = None \<and>
   seata_inventory (snd (Seata_InventoryRM_Confirm ex_seata_args ex_seata_db_cancelled)) 2001 =
     Some \<lparr>total = 8, available = 10\<rparr> \<and>
   inventory_freeze (snd (Seata_InventoryRM_Confirm ex_seata_args ex_seata_db_cancelled))
       (''tx1'', 2001) = Some \<lparr>freeze_quantity = 2, state = ST_CANCELLED\<rparr>"
  by (simp add: Seata_InventoryRM_Confirm_def ex_seata_args_def ex_seata_db_cancelled_def
      update_row_def)

text \<open>
  C5. As the claim states it, every Try that asks for more than is available fails. In
  the direct-deduct prototype a Try of a transaction that already has a row in the deduct
  log returns success before it looks at the stock. What holds: a Try that asks for more
  than the stock fails and changes nothing, no record included, in seckill\_tcc.go always
  (with the error of line 61) and in the direct-deduct prototype when the transaction has
  no row in the deduct log yet (with the error of line 106); a Try of a transaction that
  has such a row returns success and changes nothing either.
\<close>

theorem try_without_capacity_fails_unless_replayed:
  "(seckill_inventory db (ProductID ctx) = Some row \<and> stock row < Quantity ctx \<longrightarrow>
      SeckillInventoryResource_Try ctx db =
        (Some (InsufficientStock (stock row) (Quantity ctx)), db)) \<and>
   ((\<forall>r \<in> set (inventory_deduct_log d). log_transaction_id r \<noteq> TransactionID dctx) \<and>
    direct_inventory d (ProductID dctx) = Some drow \<and> d_stock drow < Quantity dctx \<longrightarrow>
      DirectInventoryResource_Try dctx d = (Some StockInsufficientOrUnavailable, d)) \<and>
   ((\<exists>r \<in> set (inventory_deduct_log d). log_transaction_id r = TransactionID dctx) \<longrightarrow>
      DirectInventoryResource_Try dctx d = (None, d))"
  using SeckillInventoryResource_Try_insufficient[of db ctx row]
    DirectInventoryResource_Try_insufficient[of d dctx drow]
    DirectInventoryResource_Try_replay[of d dctx]
  by blast

theorem try_without_capacity_fails_unless_replayed_witness:
  "seckill_inventory ex_seckill_db (ProductID (ex_ctx\<lparr>Quantity := 1000\<rparr>)) =
     Some \<lparr>stock = 100, frozen_stock = 0, sold_stock = 0\<rparr> \<and>
   stock \<lparr>stock = 100, frozen_stock = 0, sold_stock = 0\<rparr> < Quantity (ex_ctx\<lparr>Quantity := 1000\<rparr>) \<and>
   SeckillInventoryResource_Try (ex_ctx\<lparr>Quantity := 1000\<rparr>) ex_seckill_db =
     (Some (InsufficientStock (stock \<lparr>stock = 100, frozen_stock = 0, sold_stock = 0\<rparr>)
        (Quantity (ex_ctx\<lparr>Quantity := 1000\<rparr>))), ex_seckill_db) \<and>
   inventory_deduct_log ex_direct_db = [] \<and>
   direct_inventory ex_direct_db (ProductID (ex_ctx\<lparr>Quantity := 1000\<rparr>)) =
     Some \<lparr>d_stock = 100, d_sold_count = 0, d_status = ACTIVE\<rparr> \<and>
   DirectInventoryResource_Try (ex_ctx\<lparr>Quantity := 1000\<rparr>) ex_direct_db =
     (Some StockInsufficientOrUnavailable, ex_direct_db)"
proof -
  let ?c = "ex_ctx\<lparr>Quantity := 1000\<rparr>"
  let ?row = "\<lparr>stock = 100, frozen_stock = 0, sold_stock = 0\<rparr>"
  let ?drow = "\<lparr>d_stock = 100, d_sold_count = 0, d_status = ACTIVE\<rparr>"
  have a: "seckill_inventory ex_seckill_db (ProductID ?c) = Some ?row"
    by (simp add: ex_seckill_db_def ex_ctx_def)
  have b: "stock ?row < Quantity ?c" by simp
  have c: "\<forall>r \<in> set (inventory_deduct_log ex_direct_db). log_transaction_id r \<noteq> TransactionID ?c"
    by (simp add: ex_direct_db_def)
  have d: "direct_inventory ex_direct_db (ProductID ?c) = Some ?drow"
    by (simp add: ex_direct_db_def ex_ctx_def)
  have e: "d_stock ?drow < Quantity ?c" by simp
  note T = try_without_capacity_fails_unless_replayed
    [of ex_seckill_db ?c ?row ex_direct_db ?c ?drow]
  have c': "inventory_deduct_log ex_direct_db = []"
    by (simp add: ex_direct_db_def)
  show ?thesis
    by (intro conjI a b c' d mp[OF T[THEN conjunct1] conjI[OF a b]]
        mp[OF T[THEN conjunct2, THEN conjunct1] conjI[OF c conjI[OF d e]]])
qed

theorem replayed_try_succeeds_counterexample:
  "direct_inventory ex_direct_db_sold_out (ProductID ex_ctx) =
     Some \<lparr>d_stock = 0, d_sold_count = 100, d_status = ACTIVE\<rparr> \<and>
   Quantity ex_ctx = 1 \<and>
   DirectInventoryResource_Try ex_ctx ex_direct_db_sold_out = (None, ex_direct_db_sold_out)"
  by (simp add: DirectInventoryResource_Try_def ex_direct_db_sold_out_def ex_ctx_def)

text \<open>
  C6. As the claim states it, every Try keeps the frozen counter at zero or above; a Try
  with a negative quantity does not (the source checks \<^verbatim>\<open>stock >= quantity\<close> only, and the
  columns are signed). What holds: the sum of \<^verbatim>\<open>stock\<close>, \<^verbatim>\<open>frozen_stock\<close> and
  \<^verbatim>\<open>sold_stock\<close> of every product (its capacity; the table has no column for the total)
  is the same before and after every Try, every Confirm and every Cancel, whatever the
  tables and the arguments. And from tables in which \<^verbatim>\<open>stock\<close> and \<^verbatim>\<open>frozen_stock\<close> of
  every product are at least zero, every freeze record has a quantity of at least zero
  and the frozen counter of each product covers its records in status \<^verbatim>\<open>FROZEN\<close>, a Try
  with a quantity of at least zero, every Confirm and every Cancel lead to tables of
  which the same is true.
\<close>

theorem inventory_operations_keep_invariant:
  "map_option conserved_sum (seckill_inventory (snd (SeckillInventoryResource_Try ctx db)) p) =
     map_option conserved_sum (seckill_inventory db p) \<and>
   map_option conserved_sum (seckill_inventory (snd (SeckillInventoryResource_Confirm ctx db)) p) =
     map_option conserved_sum (seckill_inventory db p) \<and>
   map_option conserved_sum (seckill_inventory (snd (SeckillInventoryResource_Cancel ctx db)) p) =
     map_option conserved_sum (seckill_inventory db p) \<and>
   (counters_nonneg db' \<and> freeze_backed db' \<longrightarrow>
      (0 \<le> Quantity ctx' \<longrightarrow>
         counters_nonneg (snd (SeckillInventoryResource_Try ctx' db')) \<and>
         freeze_backed (snd (SeckillInventoryResource_Try ctx' db'))) \<and>
      counters_nonneg (snd (SeckillInventoryResource_Confirm ctx' db')) \<and>
      freeze_backed (snd (SeckillInventoryResource_Confirm ctx' db')) \<and>
      counters_nonneg (snd (SeckillInventoryResource_Cancel ctx' db')) \<and>
      freeze_backed (snd (SeckillInventoryResource_Cancel ctx' db')))"
  using SeckillInventoryResource_Try_conserved[of ctx db p]
    SeckillInventoryResource_Confirm_conserved[of ctx db p]
    SeckillInventoryResource_Cancel_conserved[of ctx db p]
    SeckillInventoryResource_Try_backed[of db' ctx']
    SeckillInventoryResource_Confirm_backed[of db' ctx']
    SeckillInventoryResource_Cancel_backed[of db' ctx']
  by blast

theorem inventory_operations_keep_invariant_witness:
  "counters_nonneg ex_seckill_db_frozen \<and> freeze_backed ex_seckill_db_frozen \<and>
   0 \<le> Quantity ex_ctx \<and>
   SeckillInventoryResource_Try ex_ctx ex_seckill_db = (None, ex_seckill_db_frozen) \<and>
   fst (SeckillInventoryResource_Try ex_ctx ex_seckill_db_frozen) = None \<and>
   seckill_inventory (snd (SeckillInventoryResource_Try ex_ctx ex_seckill_db_frozen)) 2001 =
     Some \<lparr>stock = 98, frozen_stock = 2, sold_stock = 0\<rparr> \<and>
   fst (SeckillInventoryResource_Confirm ex_ctx ex_seckill_db_frozen) = None \<and>
   seckill_inventory (snd (SeckillInventoryResource_Confirm ex_ctx ex_seckill_db_frozen)) 2001 =
     Some \<lparr>stock = 99, frozen_stock = 0, sold_stock = 1\<rparr> \<and>
   fst (SeckillInventoryResource_Cancel ex_ctx ex_seckill_db_frozen) = None \<and>
   seckill_inventory (snd (SeckillInventoryResource_Cancel ex_ctx ex_seckill_db_frozen)) 2001 =
     Some \<lparr>stock = 100, frozen_stock = 0, sold_stock = 0\<rparr> \<and>
   map_option conserved_sum
       (seckill_inventory (snd (SeckillInventoryResource_Try ex_ctx ex_seckill_db_frozen)) 2001) =
     map_option conserved_sum (seckill_inventory ex_seckill_db_frozen 2001) \<and>
   map_option conserved_sum
       (seckill_inventory (snd (SeckillInventoryResource_Confirm ex_ctx ex_seckill_db_frozen)) 2001) =
     map_option conserved_sum (seckill_inventory ex_seckill_db_frozen 2001) \<and>
   map_option conserved_sum
       (seckill_inventory (snd (SeckillInventoryResource_Cancel ex_ctx ex_seckill_db_frozen)) 2001) =
     map_option conserved_sum (seckill_inventory ex_seckill_db_frozen 2001) \<and>
   map_option conserved_sum (seckill_inventory ex_seckill_db_frozen 2001) = Some 100 \<and>
   counters_nonneg (snd (SeckillInventoryResource_Try ex_ctx ex_seckill_db_frozen)) \<and>
   freeze_backed (snd (SeckillInventoryResource_Try ex_ctx ex_seckill_db_frozen)) \<and>
   counters_nonneg (snd (SeckillInventoryResource_Confirm ex_ctx ex_seckill_db_frozen)) \<and>
   freeze_backed (snd (SeckillInventoryResource_Confirm ex_ctx ex_seckill_db_frozen)) \<and>
   counters_nonneg (snd (SeckillInventoryResource_Cancel ex_ctx ex_seckill_db_frozen)) \<and>
   freeze_backed (snd (SeckillInventoryResource_Cancel ex_ctx ex_seckill_db_frozen))"
proof -
  have a: "counters_nonneg ex_seckill_db_frozen"
    by (simp add: counters_nonneg_def ex_seckill_db_frozen_def)
  have b: "freeze_backed ex_seckill_db_frozen"
    by (simp add: freeze_backed_def ex_seckill_db_frozen_def frozen_sum_def)
  have c: "0 \<le> Quantity ex_ctx" by (simp add: ex_ctx_def)
  have t0: "SeckillInventoryResource_Try ex_ctx ex_seckill_db = (None, ex_seckill_db_frozen)"
    by (simp add: SeckillInventoryResource_Try_def ex_ctx_def ex_seckill_db_def
        ex_seckill_db_frozen_def)
  have t1: "fst (SeckillInventoryResource_Try ex_ctx ex_seckill_db_frozen) = None"
    by (simp add: SeckillInventoryResource_Try_def ex_ctx_def ex_seckill_db_frozen_def)
  have t2: "seckill_inventory (snd (SeckillInventoryResource_Try ex_ctx ex_seckill_db_frozen)) 2001 =
     Some \<lparr>stock = 98, frozen_stock = 2, sold_stock = 0\<rparr>"
    by (simp add: SeckillInventoryResource_Try_def ex_ctx_def ex_seckill_db_frozen_def)
  have c1: "fst (SeckillInventoryResource_Confirm ex_ctx ex_seckill_db_frozen) = None"
    by (simp add: SeckillInventoryResource_Confirm_def ex_ctx_def ex_seckill_db_frozen_def
        freeze_key_def)
  have c2: "seckill_inventory (snd (SeckillInventoryResource_Confirm ex_ctx ex_seckill_db_frozen)) 2001 =
     Some \<lparr>stock = 99, frozen_stock = 0, sold_stock = 1\<rparr>"
    by (simp add: SeckillInventoryResource_Confirm_def ex_ctx_def ex_seckill_db_frozen_def
        freeze_key_def update_row_def)
  have x1: "fst (SeckillInventoryResource_Cancel ex_ctx ex_seckill_db_frozen) = None"
    by (simp add: SeckillInventoryResource_Cancel_def ex_ctx_def ex_seckill_db_frozen_def
        freeze_key_def)
  have x2: "seckill_inventory (snd (SeckillInventoryResource_Cancel ex_ctx ex_seckill_db_frozen)) 2001 =
     Some \<lparr>stock = 100, frozen_stock = 0, sold_stock = 0\<rparr>"
    by (simp add: SeckillInventoryResource_Cancel_def ex_ctx_def ex_seckill_db_frozen_def
        freeze_key_def update_row_def)
  have s: "map_option conserved_sum (seckill_inventory ex_seckill_db_frozen 2001) = Some 100"
    by (simp add: ex_seckill_db_frozen_def conserved_sum_def)
  note T = inventory_operations_keep_invariant
    [of ex_ctx ex_seckill_db_frozen 2001 ex_seckill_db_frozen ex_ctx]
  note K = mp[OF T[THEN conjunct2, THEN conjunct2, THEN conjunct2] conjI[OF a b]]
  note K1 = mp[OF K[THEN conjunct1] c]
  show ?thesis
    by (intro conjI a b c t0 t1 t2 c1 c2 x1 x2 s
        T[THEN conjunct1] T[THEN conjunct2, THEN conjunct1]
        T[THEN conjunct2, THEN conjunct2, THEN conjunct1]
        K1[THEN conjunct1] K1[THEN conjunct2]
        K[THEN conjunct2, THEN conjunct1]
        K[THEN conjunct2, THEN conjunct2, THEN conjunct1]
        K[THEN conjunct2, THEN conjunct2, THEN conjunct2, THEN conjunct1]
        K[THEN conjunct2, THEN conjunct2, THEN conjunct2, THEN conjunct2])
qed

theorem negative_quantity_counterexample:
  "counters_nonneg ex_seckill_db \<and>
   fst (SeckillInventoryResource_Try (ex_ctx\<lparr>Quantity := - 1\<rparr>) ex_seckill_db) = None \<and>
   seckill_inventory (snd (SeckillInventoryResource_Try (ex_ctx\<lparr>Quantity := - 1\<rparr>) ex_seckill_db)) 2001 =
     Some \<lparr>stock = 101, frozen_stock = - 1, sold_stock = 0\<rparr> \<and>
   \<not> counters_nonneg (snd (SeckillInventoryResource_Try (ex_ctx\<lparr>Quantity := - 1\<rparr>) ex_seckill_db)) \<and>
   counters_nonneg ex_seckill_db_unbacked \<and>
   fst (SeckillInventoryResource_Confirm ex_ctx ex_seckill_db_unbacked) = None \<and>
   seckill_inventory (snd (SeckillInventoryResource_Confirm ex_ctx ex_seckill_db_unbacked)) 2001 =
     Some \<lparr>stock = 100, frozen_stock = - 5, sold_stock = 5\<rparr> \<and>
   \<not> counters_nonneg (snd (SeckillInventoryResource_Confirm ex_ctx ex_seckill_db_unbacked))"
proof -
  have a: "counters_nonneg ex_seckill_db"
    by (simp add: counters_nonneg_def ex_seckill_db_def)
  have b: "fst (SeckillInventoryResource_Try (ex_ctx\<lparr>Quantity := - 1\<rparr>) ex_seckill_db) = None"
    by (simp add: SeckillInventoryResource_Try_def ex_ctx_def ex_seckill_db_def)
  have c: "seckill_inventory (snd (SeckillInventoryResource_Try (ex_ctx\<lparr>Quantity := - 1\<rparr>) ex_seckill_db)) 2001 =
     Some \<lparr>stock = 101, frozen_stock = - 1, sold_stock = 0\<rparr>"
    by (simp add: SeckillInventoryResource_Try_def ex_ctx_def ex_seckill_db_def)
  have d: "\<not> counters_nonneg (snd (SeckillInventoryResource_Try (ex_ctx\<lparr>Quantity := - 1\<rparr>) ex_seckill_db))"
    using c unfolding counters_nonneg_def by fastforce
  have e: "counters_nonneg ex_seckill_db_unbacked"
    by (simp add: counters_nonneg_def ex_seckill_db_unbacked_def)
  have f: "fst (SeckillInventoryResource_Confirm ex_ctx ex_seckill_db_unbacked) = None"
    by (simp add: SeckillInventoryResource_Confirm_def ex_ctx_def ex_seckill_db_unbacked_def
        freeze_key_def)
  have g: "seckill_inventory (snd (SeckillInventoryResource_Confirm ex_ctx ex_seckill_db_unbacked)) 2001 =
     Some \<lparr>stock = 100, frozen_stock = - 5, sold_stock = 5\<rparr>"
    by (simp add: SeckillInventoryResource_Confirm_def ex_ctx_def ex_seckill_db_unbacked_def
        freeze_key_def update_row_def)
  have h: "\<not> counters_nonneg (snd (SeckillInventoryResource_Confirm ex_ctx ex_seckill_db_unbacked))"
    using g unfolding counters_nonneg_def by fastforce
  show ?thesis by (intro conjI a b c d e f g h)
qed

text \<open>
  C7. As the claim states it, the coordinator records the error and sets a global phase,
  and the Cancel of the resource whose Try failed does nothing. \<^verbatim>\<open>ExecuteSeckillTCC\<close> keeps
  no record of the transaction at all, neither manager stores the error (it is returned
  and written to the log output; \<^verbatim>\<open>tcc_transaction_log\<close> has a status column only), and
  the Cancel of the inventory resource of seckill\_tcc.go gives back whatever record of
  the transaction it finds, also one that an earlier run has confirmed. What holds: when
  the Try of the resource at index \<open>k\<close> is the first that fails, \<^verbatim>\<open>ExecuteSeckillTCC\<close>
  calls no further Try and no Confirm, calls Cancel on every registered resource in
  slice order (those attempted, the failed one, and those after it), and returns the
  failure of the Try phase; the tables are those the Try of the resources up to \<open>k\<close> and
  the Cancel of every resource leave. \<^verbatim>\<open>ExecuteSeckill\<close> of the direct-deduct manager, with
  its three resources and a transaction not yet logged as confirmed or cancelled, calls
  Cancel on the resources before \<open>k\<close>, last first (inside \<^verbatim>\<open>tryResources\<close>), logs the
  transaction \<^verbatim>\<open>CANCELLED\<close>, calls Cancel on all three resources in slice order, calls no
  Confirm and returns the failure; to \<^verbatim>\<open>tcc_resource_status\<close> it writes rows with the
  status \<^verbatim>\<open>'completed'\<close> only. For the inventory resource of seckill\_tcc.go a
  failed Try changes nothing, and the Cancel after it does nothing when the tables hold
  no freeze record of the transaction and product in status \<^verbatim>\<open>FROZEN\<close> or \<^verbatim>\<open>CONFIRMED\<close>.
\<close>

theorem try_failure_cancels_and_returns:
  "(k < length rs \<and>
    (\<forall>m<k. fst (Try (rs ! m) ctx (tables_after Try ctx (take m rs) s)) = None) \<and>
    fst (Try (rs ! k) ctx (tables_after Try ctx (take k rs) s)) = Some err \<longrightarrow>
      ExecuteSeckillTCC rs ctx s =
        (Some (TryPhaseFailed err),
         (tables_after Cancel ctx rs (tables_after Try ctx (take (Suc k) rs) s),
          map TryCall [0..<Suc k] @ map CancelCall [0..<length rs]))) \<and>
   (length ds = 3 \<and>
    tcc_transaction_log mst (TransactionID dctx) \<noteq> Some TCCStatusConfirmed \<and>
    tcc_transaction_log mst (TransactionID dctx) \<noteq> Some TCCStatusCancelled \<and>
    n < 3 \<and>
    (\<forall>m<n. fst (Try (ds ! m) dctx
               (tables_after Try dctx (take m ds) (resource_tables mst))) = None) \<and>
    fst (Try (ds ! n) dctx (tables_after Try dctx (take n ds) (resource_tables mst))) =
      Some derr \<longrightarrow>
      (\<exists>mst'. ExecuteSeckill ds dctx mst = Some (Some (SeckillFailed derr), mst') \<and>
         resource_tables mst' =
           tables_after Cancel dctx ds
             (tables_after Cancel dctx (rev (take n ds))
                (tables_after Try dctx (take (Suc n) ds) (resource_tables mst))) \<and>
         tcc_transaction_log mst' =
           (tcc_transaction_log mst)(TransactionID dctx \<mapsto> TCCStatusCancelled) \<and>
         calls mst' = calls mst @ map TryCall [0..<Suc n] @ map CancelCall (rev [0..<n]) @
                        map CancelCall [0..<3] \<and>
         only_marks_added mst mst')) \<and>
   ((\<forall>r \<in> set (seckill_inventory_freeze db).
        \<not> (freeze_key ictx r \<and> (fz_status r = FROZEN \<or> fz_status r = CONFIRMED))) \<and>
    SeckillInventoryResource_Try ictx db = (Some e, db1) \<longrightarrow>
      db1 = db \<and> SeckillInventoryResource_Cancel ictx db1 = (None, db))"
proof (intro conjI impI)
  assume "k < length rs \<and>
    (\<forall>m<k. fst (Try (rs ! m) ctx (tables_after Try ctx (take m rs) s)) = None) \<and>
    fst (Try (rs ! k) ctx (tables_after Try ctx (take k rs) s)) = Some err"
  then show "ExecuteSeckillTCC rs ctx s =
        (Some (TryPhaseFailed err),
         (tables_after Cancel ctx rs (tables_after Try ctx (take (Suc k) rs) s),
          map TryCall [0..<Suc k] @ map CancelCall [0..<length rs]))"
    using ExecuteSeckillTCC_try_fails_at[of k rs ctx s err] by blast
next
  assume "length ds = 3 \<and>
    tcc_transaction_log mst (TransactionID dctx) \<noteq> Some TCCStatusConfirmed \<and>
    tcc_transaction_log mst (TransactionID dctx) \<noteq> Some TCCStatusCancelled \<and>
    n < 3 \<and>
    (\<forall>m<n. fst (Try (ds ! m) dctx
               (tables_after Try dctx (take m ds) (resource_tables mst))) = None) \<and>
    fst (Try (ds ! n) dctx (tables_after Try dctx (take n ds) (resource_tables mst))) =
      Some derr"
  then show "\<exists>mst'. ExecuteSeckill ds dctx mst = Some (Some (SeckillFailed derr), mst') \<and>
         resource_tables mst' =
           tables_after Cancel dctx ds
             (tables_after Cancel dctx (rev (take n ds))
                (tables_after Try dctx (take (Suc n) ds) (resource_tables mst))) \<and>
         tcc_transaction_log mst' =
           (tcc_transaction_log mst)(TransactionID dctx \<mapsto> TCCStatusCancelled) \<and>
         calls mst' = calls mst @ map TryCall [0..<Suc n] @ map CancelCall (rev [0..<n]) @
                        map CancelCall [0..<3] \<and>
         only_marks_added mst mst'"
    using ExecuteSeckill_try_fails_at[of ds mst dctx n derr] by blast
next
  assume a: "(\<forall>r \<in> set (seckill_inventory_freeze db).
        \<not> (freeze_key ictx r \<and> (fz_status r = FROZEN \<or> fz_status r = CONFIRMED))) \<and>
    SeckillInventoryResource_Try ictx db = (Some e, db1)"
  then show "db1 = db" using SeckillInventoryResource_Try_error_unchanged by blast
  with a show "SeckillInventoryResource_Cancel ictx db1 = (None, db)"
    using SeckillInventoryResource_Cancel_nothing[of db ictx] by simp
qed

theorem try_failure_cancels_and_returns_witness:
  "fst (Try (ex_seckill_resources_try_fails ! 0) ex_ctx ex_seckill_db) = None \<and>
   fst (Try (ex_seckill_resources_try_fails ! 1) ex_ctx ex_seckill_db_frozen) =
     Some StockInsufficientOrMissing \<and>
   ExecuteSeckillTCC ex_seckill_resources_try_fails ex_ctx ex_seckill_db =
     (Some (TryPhaseFailed StockInsufficientOrMissing),
      (ex_seckill_db_cancelled, [TryCall 0, TryCall 1, CancelCall 0, CancelCall 1, CancelCall 2])) \<and>
   length ex_direct_resources_try_fails = 3 \<and>
   tcc_transaction_log ex_direct_manager_state (TransactionID ex_ctx) = None \<and>
   fst (Try (ex_direct_resources_try_fails ! 0) ex_ctx ex_direct_db) = None \<and>
   fst (Try (ex_direct_resources_try_fails ! 1) ex_ctx ex_direct_db_tried) =
     Some StockInsufficientOrUnavailable \<and>
   (\<exists>mst'. ExecuteSeckill ex_direct_resources_try_fails ex_ctx ex_direct_manager_state =
             Some (Some (SeckillFailed StockInsufficientOrUnavailable), mst') \<and>
           resource_tables mst' = ex_direct_db_cancelled \<and>
           tcc_transaction_log mst' = [''tx1'' \<mapsto> TCCStatusCancelled] \<and>
           calls mst' = [TryCall 0, TryCall 1, CancelCall 0, CancelCall 0, CancelCall 1,
                         CancelCall 2] \<and>
           only_marks_added ex_direct_manager_state mst') \<and>
   seckill_inventory_freeze ex_seckill_db = [] \<and>
   SeckillInventoryResource_Try (ex_ctx\<lparr>Quantity := 1000\<rparr>) ex_seckill_db =
     (Some (InsufficientStock 100 1000), ex_seckill_db) \<and>
   SeckillInventoryResource_Cancel (ex_ctx\<lparr>Quantity := 1000\<rparr>) ex_seckill_db =
     (None, ex_seckill_db)"
proof -
  have t: "SeckillInventoryResource_Try ex_ctx ex_seckill_db = (None, ex_seckill_db_frozen)"
    by (simp add: SeckillInventoryResource_Try_def ex_ctx_def ex_seckill_db_def
        ex_seckill_db_frozen_def)
  have x: "SeckillInventoryResource_Cancel ex_ctx ex_seckill_db_frozen =
      (None, ex_seckill_db_cancelled)"
    by (simp add: SeckillInventoryResource_Cancel_def ex_ctx_def freeze_key_def
        update_row_def update_where_def ex_seckill_db_frozen_def ex_seckill_db_cancelled_def)
  have len: "length ex_seckill_resources_try_fails = 3"
    by (simp add: ex_seckill_resources_try_fails_def)
  have h1: "fst (Try (ex_seckill_resources_try_fails ! 0) ex_ctx ex_seckill_db) = None"
    by (simp add: ex_seckill_resources_try_fails_def SeckillInventoryResource_def t)
  have h2: "fst (Try (ex_seckill_resources_try_fails ! 1) ex_ctx ex_seckill_db_frozen) =
      Some StockInsufficientOrMissing"
    by (simp add: ex_seckill_resources_try_fails_def try_failing_resource_def)
  have k: "(1::nat) < length ex_seckill_resources_try_fails" by (simp add: len)
  have before: "\<forall>m<1. fst (Try (ex_seckill_resources_try_fails ! m) ex_ctx
      (tables_after Try ex_ctx (take m ex_seckill_resources_try_fails) ex_seckill_db)) = None"
    using h1 by simp
  have at: "fst (Try (ex_seckill_resources_try_fails ! 1) ex_ctx
      (tables_after Try ex_ctx (take 1 ex_seckill_resources_try_fails) ex_seckill_db)) =
      Some StockInsufficientOrMissing"
    by (simp add: ex_seckill_resources_try_fails_def SeckillInventoryResource_def t
        try_failing_resource_def)
  have dt: "DirectInventoryResource_Try ex_ctx ex_direct_db = (None, ex_direct_db_tried)"
    by (simp add: DirectInventoryResource_Try_def ex_ctx_def ex_direct_db_def
        ex_direct_db_tried_def update_row_def)
  have dx: "DirectInventoryResource_Cancel ex_ctx ex_direct_db_tried =
      (None, ex_direct_db_cancelled)"
    by (simp add: DirectInventoryResource_Cancel_def latest_log_def ex_ctx_def
        ex_direct_db_tried_def ex_direct_db_cancelled_def update_row_def update_where_def)
  have dx2: "DirectInventoryResource_Cancel ex_ctx ex_direct_db_cancelled =
      (None, ex_direct_db_cancelled)"
    by (simp add: DirectInventoryResource_Cancel_def latest_log_def ex_ctx_def
        ex_direct_db_cancelled_def)
  have dlen: "length ex_direct_resources_try_fails = 3"
    by (simp add: ex_direct_resources_try_fails_def NewSeckillDirectTCCManager_def)
  have fresh: "tcc_transaction_log ex_direct_manager_state (TransactionID ex_ctx) = None"
    by (simp add: ex_direct_manager_state_def)
  have rt: "resource_tables ex_direct_manager_state = ex_direct_db"
    by (simp add: ex_direct_manager_state_def)
  have d1: "fst (Try (ex_direct_resources_try_fails ! 0) ex_ctx ex_direct_db) = None"
    by (simp add: ex_direct_resources_try_fails_def NewSeckillDirectTCCManager_def
        DirectInventoryResource_def dt)
  have d2: "fst (Try (ex_direct_resources_try_fails ! 1) ex_ctx ex_direct_db_tried) =
      Some StockInsufficientOrUnavailable"
    by (simp add: ex_direct_resources_try_fails_def NewSeckillDirectTCCManager_def
        try_failing_resource_def)
  have dbefore: "\<forall>m<1. fst (Try (ex_direct_resources_try_fails ! m) ex_ctx
      (tables_after Try ex_ctx (take m ex_direct_resources_try_fails)
         (resource_tables ex_direct_manager_state))) = None"
    using d1 by (simp add: rt)
  have dat: "fst (Try (ex_direct_resources_try_fails ! 1) ex_ctx
      (tables_after Try ex_ctx (take 1 ex_direct_resources_try_fails)
         (resource_tables ex_direct_manager_state))) = Some StockInsufficientOrUnavailable"
    by (simp add: rt ex_direct_resources_try_fails_def NewSeckillDirectTCCManager_def
        DirectInventoryResource_def dt try_failing_resource_def)
  have fresh2: "tcc_transaction_log ex_direct_manager_state (TransactionID ex_ctx) \<noteq>
      Some TCCStatusConfirmed"
    "tcc_transaction_log ex_direct_manager_state (TransactionID ex_ctx) \<noteq>
      Some TCCStatusCancelled"
    using fresh by simp_all
  have n: "(1::nat) < 3" by simp
  have e: "seckill_inventory_freeze ex_seckill_db = []" by (simp add: ex_seckill_db_def)
  then have nofreeze: "\<forall>r \<in> set (seckill_inventory_freeze ex_seckill_db).
      \<not> (freeze_key (ex_ctx\<lparr>Quantity := 1000\<rparr>) r \<and>
         (fz_status r = FROZEN \<or> fz_status r = CONFIRMED))"
    by simp
  have i: "SeckillInventoryResource_Try (ex_ctx\<lparr>Quantity := 1000\<rparr>) ex_seckill_db =
     (Some (InsufficientStock 100 1000), ex_seckill_db)"
    by (simp add: SeckillInventoryResource_Try_def ex_ctx_def ex_seckill_db_def)
  note T = try_failure_cancels_and_returns
    [of 1 ex_seckill_resources_try_fails ex_ctx ex_seckill_db StockInsufficientOrMissing
        ex_direct_resources_try_fails ex_direct_manager_state ex_ctx 1
        StockInsufficientOrUnavailable
        ex_seckill_db "ex_ctx\<lparr>Quantity := 1000\<rparr>" "InsufficientStock 100 1000" ex_seckill_db]
  note A = mp[OF T[THEN conjunct1] conjI[OF k conjI[OF before at]]]
  have u3: "[0..<3::nat] = [0, 1, 2]" by (simp add: numeral_3_eq_3)
  have u2: "[0..<Suc 1] = [0, 1]" by simp
  have run: "ExecuteSeckillTCC ex_seckill_resources_try_fails ex_ctx ex_seckill_db =
     (Some (TryPhaseFailed StockInsufficientOrMissing),
      (ex_seckill_db_cancelled, [TryCall 0, TryCall 1, CancelCall 0, CancelCall 1, CancelCall 2]))"
    using A unfolding len u3 u2
    by (simp add: ex_seckill_resources_try_fails_def SeckillInventoryResource_def
        try_failing_resource_def ok_resource_def t x)
  note B = mp[OF T[THEN conjunct2, THEN conjunct1]
      conjI[OF dlen conjI[OF fresh2(1) conjI[OF fresh2(2) conjI[OF n conjI[OF dbefore dat]]]]]]
  have tl: "(tcc_transaction_log ex_direct_manager_state)(TransactionID ex_ctx \<mapsto> TCCStatusCancelled) =
      [''tx1'' \<mapsto> TCCStatusCancelled]"
    by (simp add: ex_direct_manager_state_def ex_ctx_def)
  have cl: "calls ex_direct_manager_state = []" by (simp add: ex_direct_manager_state_def)
  have tb: "tables_after Cancel ex_ctx ex_direct_resources_try_fails
             (tables_after Cancel ex_ctx (rev (take 1 ex_direct_resources_try_fails))
                (tables_after Try ex_ctx (take (Suc 1) ex_direct_resources_try_fails)
                   (resource_tables ex_direct_manager_state))) = ex_direct_db_cancelled"
    by (simp add: rt ex_direct_resources_try_fails_def NewSeckillDirectTCCManager_def
        DirectInventoryResource_def try_failing_resource_def ok_resource_def dt dx dx2)
  have run2: "\<exists>mst'. ExecuteSeckill ex_direct_resources_try_fails ex_ctx ex_direct_manager_state =
             Some (Some (SeckillFailed StockInsufficientOrUnavailable), mst') \<and>
           resource_tables mst' = ex_direct_db_cancelled \<and>
           tcc_transaction_log mst' = [''tx1'' \<mapsto> TCCStatusCancelled] \<and>
           calls mst' = [TryCall 0, TryCall 1, CancelCall 0, CancelCall 0, CancelCall 1,
                         CancelCall 2] \<and>
           only_marks_added ex_direct_manager_state mst'"
    using B unfolding tl tb cl u3 u2 by simp
  note C = mp[OF T[THEN conjunct2, THEN conjunct2] conjI[OF nofreeze i], THEN conjunct2]
  show ?thesis by (intro conjI h1 h2 run dlen fresh d1 d2 run2 e i C)
qed

theorem second_run_cancel_reverts_counterexample:
  "ExecuteSeckillTCC [SeckillInventoryResource] ex_ctx ex_seckill_db_last_unit =
     (None, (ex_seckill_db_sold_out, [TryCall 0, ConfirmCall 0])) \<and>
   SeckillInventoryResource_Try ex_ctx ex_seckill_db_sold_out =
     (Some (InsufficientStock 0 1), ex_seckill_db_sold_out) \<and>
   SeckillInventoryResource_Cancel ex_ctx ex_seckill_db_sold_out = (None, ex_seckill_db_reverted) \<and>
   ExecuteSeckillTCC [SeckillInventoryResource] ex_ctx ex_seckill_db_sold_out =
     (Some (TryPhaseFailed (InsufficientStock 0 1)),
      (ex_seckill_db_reverted, [TryCall 0, CancelCall 0])) \<and>
   seckill_inventory ex_seckill_db_sold_out 2001 =
     Some \<lparr>stock = 0, frozen_stock = 0, sold_stock = 1\<rparr> \<and>
   seckill_inventory ex_seckill_db_reverted 2001 =
     Some \<lparr>stock = 1, frozen_stock = 0, sold_stock = 0\<rparr>"
proof -
  have t: "SeckillInventoryResource_Try ex_ctx ex_seckill_db_last_unit =
      (None,
       \<lparr>seckill_inventory = [2001 \<mapsto> \<lparr>stock = 0, frozen_stock = 1, sold_stock = 0\<rparr>],
        seckill_inventory_freeze =
          [\<lparr>fz_transaction_id = ''tx1'', fz_product_id = 2001, fz_quantity = 1,
            fz_status = FROZEN\<rparr>]\<rparr>)"
    by (simp add: SeckillInventoryResource_Try_def ex_ctx_def ex_seckill_db_last_unit_def)
  have c: "SeckillInventoryResource_Confirm ex_ctx
       \<lparr>seckill_inventory = [2001 \<mapsto> \<lparr>stock = 0, frozen_stock = 1, sold_stock = 0\<rparr>],
        seckill_inventory_freeze =
          [\<lparr>fz_transaction_id = ''tx1'', fz_product_id = 2001, fz_quantity = 1,
            fz_status = FROZEN\<rparr>]\<rparr> = (None, ex_seckill_db_sold_out)"
    by (simp add: SeckillInventoryResource_Confirm_def ex_ctx_def freeze_key_def
        update_row_def update_where_def ex_seckill_db_sold_out_def)
  have first: "ExecuteSeckillTCC [SeckillInventoryResource] ex_ctx ex_seckill_db_last_unit =
     (None, (ex_seckill_db_sold_out, [TryCall 0, ConfirmCall 0]))"
    by (simp add: ExecuteSeckillTCC_def SeckillInventoryResource_def t c)
  have t2: "SeckillInventoryResource_Try ex_ctx ex_seckill_db_sold_out =
     (Some (InsufficientStock 0 1), ex_seckill_db_sold_out)"
    by (simp add: SeckillInventoryResource_Try_def ex_ctx_def ex_seckill_db_sold_out_def)
  have x: "SeckillInventoryResource_Cancel ex_ctx ex_seckill_db_sold_out =
      (None, ex_seckill_db_reverted)"
     by (simp add: SeckillInventoryResource_Cancel_def ex_ctx_def freeze_key_def
        update_row_def update_where_def ex_seckill_db_sold_out_def ex_seckill_db_reverted_def)
  have second: "ExecuteSeckillTCC [SeckillInventoryResource] ex_ctx ex_seckill_db_sold_out =
     (Some (TryPhaseFailed (InsufficientStock 0 1)),
      (ex_seckill_db_reverted, [TryCall 0, CancelCall 0]))"
    by (simp add: ExecuteSeckillTCC_def SeckillInventoryResource_def t2 x)
  have s1: "seckill_inventory ex_seckill_db_sold_out 2001 =
     Some \<lparr>stock = 0, frozen_stock = 0, sold_stock = 1\<rparr>"
    by (simp add: ex_seckill_db_sold_out_def)
  have s2: "seckill_inventory ex_seckill_db_reverted 2001 =
     Some \<lparr>stock = 1, frozen_stock = 0, sold_stock = 0\<rparr>"
    by (simp add: ex_seckill_db_reverted_def)
  show ?thesis by (intro conjI first t2 x second s1 s2)
qed

text \<open>
  C8. As the claim states it, the sweeper selects only transactions with
  \<^verbatim>\<open>retry_count < max_retry\<close> and \<^verbatim>\<open>now < timeout_at\<close> and marks the ones past their timeout
  \<^verbatim>\<open>FAILED\<close>. The Go sweeper \<^verbatim>\<open>Compensate\<close> reads neither column and writes no
  \<^verbatim>\<open>FAILED\<close>; the query with the two conditions and the timeout statement are those of
  the design notes. What holds: \<^verbatim>\<open>Compensate\<close> selects exactly the transactions in a
  non-terminal status whose creation time is more than five minutes (300 seconds) before
  now, and re-drives them in the order selected, each on the tables the calls before it
  left: it calls the coordinator's Cancel for \<^verbatim>\<open>TRYING\<close> and \<^verbatim>\<open>CANCELLING\<close> and its
  Confirm for \<^verbatim>\<open>TRIED\<close> and \<^verbatim>\<open>CONFIRMING\<close>. When no call panics, every selected
  transaction is re-driven and the sweep completes; a call that panics is the last call
  of the sweep, which ends there with the tables the calls before it left. The sweep
  query of the design notes selects at most 100 transactions, each in a non-terminal
  status with \<^verbatim>\<open>retry_count < max_retry\<close> and now before its timeout, and its case list
  names the same call for each status; the timeout statement marks a transaction past
  its timeout \<^verbatim>\<open>FAILED\<close>, and the query selects no transaction so marked. Whether a call
  brings the transaction to a terminal status is left open here.
\<close>

theorem sweepers_select_and_dispatch:
  "((txID, st) \<in> set (Compensate_query now rows) \<longleftrightarrow>
      (\<exists>r \<in> set rows. t_tx_id r = txID \<and> t_status r = st \<and> non_terminal st \<and>
         t_create_time r < now - 300)) \<and>
   ((\<forall>i<length (Compensate_query now_a (std_tcc_transaction db_a)).
       spec_redrive yield_a now_a (Compensate_query now_a (std_tcc_transaction db_a) ! i)
         (spec_redriven yield_a now_a (take i (Compensate_query now_a (std_tcc_transaction db_a))) db_a) \<noteq>
       Panics) \<longrightarrow>
      Compensate_sweep yield_a now_a db_a =
        (spec_redriven yield_a now_a (Compensate_query now_a (std_tcc_transaction db_a)) db_a,
         map spec_redrive_call (Compensate_query now_a (std_tcc_transaction db_a)),
         SweepCompleted)) \<and>
   (n < length (Compensate_query now_b (std_tcc_transaction db_b)) \<and>
    (\<forall>i<n. spec_redrive yield_b now_b (Compensate_query now_b (std_tcc_transaction db_b) ! i)
       (spec_redriven yield_b now_b (take i (Compensate_query now_b (std_tcc_transaction db_b))) db_b) \<noteq>
     Panics) \<and>
    spec_redrive yield_b now_b (Compensate_query now_b (std_tcc_transaction db_b) ! n)
      (spec_redriven yield_b now_b (take n (Compensate_query now_b (std_tcc_transaction db_b))) db_b) =
    Panics \<longrightarrow>
      Compensate_sweep yield_b now_b db_b =
        (spec_redriven yield_b now_b (take n (Compensate_query now_b (std_tcc_transaction db_b))) db_b,
         map spec_redrive_call (take (Suc n) (Compensate_query now_b (std_tcc_transaction db_b))),
         ProcessPanicked)) \<and>
   (r \<in> set (sweep_query now rows) \<longrightarrow>
      r \<in> set rows \<and> non_terminal (t_status r) \<and> t_retry_count r < t_max_retry r \<and>
      before_timeout now r \<and>
      sweep_case r = Some (if t_status r = GT_TRIED \<or> t_status r = GT_CONFIRMING
                           then CallConfirm (t_tx_id r) else CallCancel (t_tx_id r))) \<and>
   length (sweep_query now rows) \<le> 100 \<and>
   (q \<in> set rows \<and> t_tx_id q = qID \<and> past_timeout now q \<longrightarrow>
      q\<lparr>t_status := GT_FAILED, t_update_time := now\<rparr> \<in> set (timeout_failed now qID rows)) \<and>
   (q' \<in> set (sweep_query now' (timeout_failed now qID rows)) \<longrightarrow>
      \<not> (t_tx_id q' = qID \<and> past_timeout now q'))"
proof (intro conjI impI)
  show "((txID, st) \<in> set (Compensate_query now rows)) =
      (\<exists>r \<in> set rows. t_tx_id r = txID \<and> t_status r = st \<and> non_terminal st \<and>
         t_create_time r < now - 300)"
    by (rule Compensate_query_iff)
  show "length (sweep_query now rows) \<le> 100"
    using sweep_query_bounded by blast
next
  assume "\<forall>i<length (Compensate_query now_a (std_tcc_transaction db_a)).
       spec_redrive yield_a now_a (Compensate_query now_a (std_tcc_transaction db_a) ! i)
         (spec_redriven yield_a now_a (take i (Compensate_query now_a (std_tcc_transaction db_a))) db_a) \<noteq>
       Panics"
  then show "Compensate_sweep yield_a now_a db_a =
        (spec_redriven yield_a now_a (Compensate_query now_a (std_tcc_transaction db_a)) db_a,
         map spec_redrive_call (Compensate_query now_a (std_tcc_transaction db_a)),
         SweepCompleted)"
    by (rule Compensate_sweep_completes)
next
  assume a: "n < length (Compensate_query now_b (std_tcc_transaction db_b)) \<and>
    (\<forall>i<n. spec_redrive yield_b now_b (Compensate_query now_b (std_tcc_transaction db_b) ! i)
       (spec_redriven yield_b now_b (take i (Compensate_query now_b (std_tcc_transaction db_b))) db_b) \<noteq>
     Panics) \<and>
    spec_redrive yield_b now_b (Compensate_query now_b (std_tcc_transaction db_b) ! n)
      (spec_redriven yield_b now_b (take n (Compensate_query now_b (std_tcc_transaction db_b))) db_b) =
    Panics"
  show "Compensate_sweep yield_b now_b db_b =
        (spec_redriven yield_b now_b (take n (Compensate_query now_b (std_tcc_transaction db_b))) db_b,
         map spec_redrive_call (take (Suc n) (Compensate_query now_b (std_tcc_transaction db_b))),
         ProcessPanicked)"
    using Compensate_sweep_panics_at[OF a[THEN conjunct1] a[THEN conjunct2, THEN conjunct1]
        a[THEN conjunct2, THEN conjunct2]] .
next
  assume r: "r \<in> set (sweep_query now rows)"
  from sweep_query_sound[OF r] show "r \<in> set rows" "non_terminal (t_status r)"
    "t_retry_count r < t_max_retry r" "before_timeout now r" by simp_all
  then show "sweep_case r = Some (if t_status r = GT_TRIED \<or> t_status r = GT_CONFIRMING
                           then CallConfirm (t_tx_id r) else CallCancel (t_tx_id r))"
    using sweep_case_dispatch by blast
next
  assume "q \<in> set rows \<and> t_tx_id q = qID \<and> past_timeout now q"
  then show "q\<lparr>t_status := GT_FAILED, t_update_time := now\<rparr> \<in> set (timeout_failed now qID rows)"
    using timeout_failed_marks by blast
next
  assume "q' \<in> set (sweep_query now' (timeout_failed now qID rows))"
  then show "\<not> (t_tx_id q' = qID \<and> past_timeout now q')"
    by (rule timeout_failed_excluded)
qed

theorem sweepers_select_and_dispatch_witness:
  "((''tx1'', GT_TRIED) \<in> set (Compensate_query 1000 [ex_tx_row, ex_tx_row_fresh]) \<longleftrightarrow>
      (\<exists>r \<in> set [ex_tx_row, ex_tx_row_fresh]. t_tx_id r = ''tx1'' \<and> t_status r = GT_TRIED \<and>
         non_terminal GT_TRIED \<and> t_create_time r < 1000 - 300)) \<and>
   Compensate_query 1000 (std_tcc_transaction ex_std_db) = [(''tx1'', GT_TRIED)] \<and>
   Coordinator_Confirm ex_inventory_first 1000 ''tx1'' (recoverArgs ''tx1'') ex_std_db =
     Returns (Some (RMFailedStd ErrNoRows), ex_std_db) \<and>
   Compensate_sweep (\<lambda>txID. ex_inventory_first) 1000 ex_std_db =
     (ex_std_db, [CallConfirm ''tx1''], SweepCompleted) \<and>
   Compensate_query 1000 (std_tcc_transaction ex_std_db3) =
     [(''tx1'', GT_TRIED), (''tx3'', GT_TRIED), (''tx4'', GT_TRIED)] \<and>
   Coordinator_Confirm (ex_yield ''tx1'') 1000 ''tx1'' (recoverArgs ''tx1'') ex_std_db3 =
     Returns (Some (RMFailedStd ErrNoRows), ex_std_db3) \<and>
   Coordinator_Confirm (ex_yield ''tx3'') 1000 ''tx3'' (recoverArgs ''tx3'') ex_std_db3 = Panics \<and>
   Compensate_sweep ex_yield 1000 ex_std_db3 =
     (ex_std_db3, [CallConfirm ''tx1'', CallConfirm ''tx3''], ProcessPanicked) \<and>
   ex_tx_row_fresh \<in> set (sweep_query 1000 [ex_tx_row, ex_tx_row_fresh]) \<and>
   t_retry_count ex_tx_row_fresh < t_max_retry ex_tx_row_fresh \<and>
   before_timeout 1000 ex_tx_row_fresh \<and>
   sweep_case ex_tx_row_fresh =
     Some (if t_status ex_tx_row_fresh = GT_TRIED \<or> t_status ex_tx_row_fresh = GT_CONFIRMING
           then CallConfirm (t_tx_id ex_tx_row_fresh) else CallCancel (t_tx_id ex_tx_row_fresh)) \<and>
   ex_tx_row \<in> set [ex_tx_row, ex_tx_row_fresh] \<and> t_tx_id ex_tx_row = ''tx1'' \<and>
   past_timeout 1000 ex_tx_row \<and>
   ex_tx_row\<lparr>t_status := GT_FAILED, t_update_time := 1000\<rparr>
     \<in> set (timeout_failed 1000 ''tx1'' [ex_tx_row, ex_tx_row_fresh]) \<and>
   ex_tx_row_fresh \<in> set (sweep_query 1000 (timeout_failed 1000 ''tx1'' [ex_tx_row, ex_tx_row_fresh])) \<and>
   \<not> (t_tx_id ex_tx_row_fresh = ''tx1'' \<and> past_timeout 1000 ex_tx_row_fresh)"
proof -
  let ?rows = "[ex_tx_row, ex_tx_row_fresh]"
  have a: "ex_tx_row_fresh \<in> set (sweep_query 1000 ?rows)"
    by (simp add: sweep_query_def ex_tx_row_def ex_tx_row_fresh_def non_terminal_def
        before_timeout_def)
  have b: "ex_tx_row \<in> set ?rows \<and> t_tx_id ex_tx_row = ''tx1'' \<and> past_timeout 1000 ex_tx_row"
    by (simp add: ex_tx_row_def past_timeout_def)
  have c: "ex_tx_row_fresh \<in> set (sweep_query 1000 (timeout_failed 1000 ''tx1'' ?rows))"
    by (simp add: sweep_query_def timeout_failed_def update_where_def ex_tx_row_def
        ex_tx_row_fresh_def non_terminal_def before_timeout_def past_timeout_def)
  have q1: "Compensate_query 1000 (std_tcc_transaction ex_std_db) = [(''tx1'', GT_TRIED)]"
    by (simp add: Compensate_query_def ex_std_db_def ex_tx_row_def non_terminal_def)
  have q3: "Compensate_query 1000 (std_tcc_transaction ex_std_db3) =
     [(''tx1'', GT_TRIED), (''tx3'', GT_TRIED), (''tx4'', GT_TRIED)]"
    by (simp add: Compensate_query_def ex_std_db3_def ex_tx_row_def ex_tx_row3_def
        ex_tx_row4_def non_terminal_def)
  have c1: "Coordinator_Confirm ex_inventory_first 1000 ''tx1'' (recoverArgs ''tx1'') ex_std_db =
     Returns (Some (RMFailedStd ErrNoRows), ex_std_db)"
    unfolding ex_inventory_first_def
    by (rule Coordinator_Confirm_inventory_first_missing_item[of ex_tx_row])
       (simp_all add: ex_std_db_def ex_tx_row_def ex_std_tables_def)
  have c31: "Coordinator_Confirm (ex_yield ''tx1'') 1000 ''tx1'' (recoverArgs ''tx1'') ex_std_db3 =
     Returns (Some (RMFailedStd ErrNoRows), ex_std_db3)"
    unfolding ex_yield_def ex_inventory_first_def
    by (simp, rule Coordinator_Confirm_inventory_first_missing_item[of ex_tx_row])
       (simp_all add: ex_std_db3_def ex_tx_row_def ex_std_tables_def)
  have c33: "Coordinator_Confirm (ex_yield ''tx3'') 1000 ''tx3'' (recoverArgs ''tx3'') ex_std_db3 =
     Panics"
    unfolding ex_yield_def ex_account_first_def
    by (simp, rule Coordinator_Confirm_account_first_panics[of ex_tx_row3])
       (simp_all add: ex_std_db3_def ex_tx_row3_def)
  have h1: "\<forall>i<length (Compensate_query 1000 (std_tcc_transaction ex_std_db)).
       spec_redrive (\<lambda>txID. ex_inventory_first) 1000
         (Compensate_query 1000 (std_tcc_transaction ex_std_db) ! i)
         (spec_redriven (\<lambda>txID. ex_inventory_first) 1000
            (take i (Compensate_query 1000 (std_tcc_transaction ex_std_db))) ex_std_db) \<noteq>
       Panics"
    unfolding q1 by (simp add: spec_redriven_def c1)
  have h2a: "(1::nat) < length (Compensate_query 1000 (std_tcc_transaction ex_std_db3))"
    unfolding q3 by simp
  have h2b: "\<forall>i<1. spec_redrive ex_yield 1000
         (Compensate_query 1000 (std_tcc_transaction ex_std_db3) ! i)
         (spec_redriven ex_yield 1000
            (take i (Compensate_query 1000 (std_tcc_transaction ex_std_db3))) ex_std_db3) \<noteq>
       Panics"
    unfolding q3 by (simp add: spec_redriven_def c31)
  have h2c: "spec_redrive ex_yield 1000
         (Compensate_query 1000 (std_tcc_transaction ex_std_db3) ! 1)
         (spec_redriven ex_yield 1000
            (take 1 (Compensate_query 1000 (std_tcc_transaction ex_std_db3))) ex_std_db3) =
       Panics"
    unfolding q3 by (simp add: spec_redriven_def c31 c33)
  note T = sweepers_select_and_dispatch
    [where txID = "''tx1''" and st = GT_TRIED and now = 1000 and rows = ?rows
       and yield_a = "\<lambda>txID. ex_inventory_first" and now_a = 1000 and db_a = ex_std_db
       and n = 1 and yield_b = ex_yield and now_b = 1000 and db_b = ex_std_db3
       and r = ex_tx_row_fresh and q = ex_tx_row and qID = "''tx1''"
       and q' = ex_tx_row_fresh and now' = 1000]
  note T1 = T[THEN conjunct1]
  note R = T[THEN conjunct2]
  have s1: "Compensate_sweep (\<lambda>txID. ex_inventory_first) 1000 ex_std_db =
     (ex_std_db, [CallConfirm ''tx1''], SweepCompleted)"
    using mp[OF R[THEN conjunct1] h1] unfolding q1 by (simp add: spec_redriven_def c1)
  note R2 = R[THEN conjunct2]
  have s2: "Compensate_sweep ex_yield 1000 ex_std_db3 =
     (ex_std_db3, [CallConfirm ''tx1'', CallConfirm ''tx3''], ProcessPanicked)"
    using mp[OF R2[THEN conjunct1] conjI[OF h2a conjI[OF h2b h2c]]] unfolding q3
    by (simp add: spec_redriven_def c31)
  note D = R2[THEN conjunct2]
  note T3 = mp[OF D[THEN conjunct1] a]
  note T5 = mp[OF D[THEN conjunct2, THEN conjunct2, THEN conjunct1] b]
  note T6 = mp[OF D[THEN conjunct2, THEN conjunct2, THEN conjunct2] c]
  show ?thesis
    by (intro conjI T1 q1 c1 s1 q3 c31 c33 s2 a
        T3[THEN conjunct2, THEN conjunct2, THEN conjunct1]
        T3[THEN conjunct2, THEN conjunct2, THEN conjunct2, THEN conjunct1]
        T3[THEN conjunct2, THEN conjunct2, THEN conjunct2, THEN conjunct2]
        b[THEN conjunct1] b[THEN conjunct2, THEN conjunct1] b[THEN conjunct2, THEN conjunct2]
        T5 c T6)
qed

theorem compensate_ignores_retry_and_timeout_counterexample:
  "Compensate_query 1000 (std_tcc_transaction ex_std_db) = [(''tx1'', GT_TRIED)] \<and>
   std_tcc_transaction ex_std_db = [ex_tx_row] \<and>
   \<not> t_retry_count ex_tx_row < t_max_retry ex_tx_row \<and>
   \<not> before_timeout 1000 ex_tx_row \<and>
   past_timeout 1000 ex_tx_row \<and>
   Compensate_sweep (\<lambda>txID. ex_account_first) 1000 ex_std_db =
     (ex_std_db, [CallConfirm ''tx1''], ProcessPanicked) \<and>
   Compensate_sweep (\<lambda>txID. ex_inventory_first) 1000 ex_std_db =
     (ex_std_db, [CallConfirm ''tx1''], SweepCompleted) \<and>
   map t_status (std_tcc_transaction ex_std_db) = [GT_TRIED]"
proof -
  have q1: "Compensate_query 1000 (std_tcc_transaction ex_std_db) = [(''tx1'', GT_TRIED)]"
    by (simp add: Compensate_query_def ex_std_db_def ex_tx_row_def non_terminal_def)
  have rows: "std_tcc_transaction ex_std_db = [ex_tx_row]" by (simp add: ex_std_db_def)
  have f: "\<not> t_retry_count ex_tx_row < t_max_retry ex_tx_row"
    "\<not> before_timeout 1000 ex_tx_row" "past_timeout 1000 ex_tx_row"
    by (simp_all add: ex_tx_row_def before_timeout_def past_timeout_def)
  have c1: "Coordinator_Confirm ex_inventory_first 1000 ''tx1'' (recoverArgs ''tx1'') ex_std_db =
     Returns (Some (RMFailedStd ErrNoRows), ex_std_db)"
    unfolding ex_inventory_first_def
    by (rule Coordinator_Confirm_inventory_first_missing_item[of ex_tx_row])
       (simp_all add: ex_std_db_def ex_tx_row_def ex_std_tables_def)
  have c2: "Coordinator_Confirm ex_account_first 1000 ''tx1'' (recoverArgs ''tx1'') ex_std_db =
     Panics"
    unfolding ex_account_first_def
    by (rule Coordinator_Confirm_account_first_panics[of ex_tx_row])
       (simp_all add: ex_std_db_def ex_tx_row_def)
  have s1: "Compensate_sweep (\<lambda>txID. ex_account_first) 1000 ex_std_db =
     (ex_std_db, [CallConfirm ''tx1''], ProcessPanicked)"
    unfolding Compensate_sweep_def q1 by (simp add: c2)
  have s2: "Compensate_sweep (\<lambda>txID. ex_inventory_first) 1000 ex_std_db =
     (ex_std_db, [CallConfirm ''tx1''], SweepCompleted)"
    unfolding Compensate_sweep_def q1 by (simp add: c1)
  have st: "map t_status (std_tcc_transaction ex_std_db) = [GT_TRIED]"
    by (simp add: ex_std_db_def ex_tx_row_def)
  show ?thesis by (intro conjI q1 rows f s1 s2 st)
qed

text \<open>
  C9. As the claim states it, two runs over the same resource managers and inputs make
  the same calls in the same order. That holds for the slice-based manager:
  \<^verbatim>\<open>ExecuteSeckillTCC\<close> calls Try on the resources 0, 1, ... in slice order, then Confirm
  in slice order, and Cancel, when it cancels, on all of them in slice order.
  \<^verbatim>\<open>ImprovedCoordinator\<close> ranges over a Go map: its calls follow the order in which the
  loop yields the map's entries, which Go leaves open, so two runs over the same map may
  call the managers in different orders.
\<close>

theorem calls_follow_slice_or_map_order:
  "(\<exists>k j c. k \<le> length rs \<and> j \<le> length rs \<and>
      snd (snd (ExecuteSeckillTCC rs ctx s)) =
        map TryCall [0..<k] @ map ConfirmCall [0..<j] @
        (if c then map CancelCall [0..<length rs] else [])) \<and>
   (\<exists>k. k \<le> length entries \<and>
      snd (snd (ImprovedCoordinator_StartTransaction entries txID args db)) =
        map TryCall (take k (map fst entries))) \<and>
   (\<exists>k. k \<le> length entries \<and>
      snd (snd (ImprovedCoordinator_Confirm entries txID args db)) =
        map ConfirmCall (take k (map fst entries))) \<and>
   (\<exists>k. k \<le> length entries \<and>
      snd (snd (ImprovedCoordinator_Cancel entries txID args db)) =
        map CancelCall (take k (map fst entries)))"
  using ExecuteSeckillTCC_calls_shape[of rs ctx s]
    ImprovedCoordinator_StartTransaction_calls[of entries txID args db]
    ImprovedCoordinator_Confirm_calls[of entries txID args db]
    ImprovedCoordinator_Cancel_calls[of entries txID args db]
  by (intro conjI)

theorem calls_follow_slice_or_map_order_witness:
  "(\<exists>k j c. k \<le> length ex_resources_confirm_fails \<and> j \<le> length ex_resources_confirm_fails \<and>
      snd (snd (ExecuteSeckillTCC ex_resources_confirm_fails ex_ctx ())) =
        map TryCall [0..<k] @ map ConfirmCall [0..<j] @
        (if c then map CancelCall [0..<length ex_resources_confirm_fails] else [])) \<and>
   (\<exists>k. k \<le> length ex_entries \<and>
      snd (snd (ImprovedCoordinator_StartTransaction ex_entries ''tx2'' ex_seata_args ex_coordinator_db)) =
        map TryCall (take k (map fst ex_entries)))"
  using calls_follow_slice_or_map_order
    [of ex_resources_confirm_fails ex_ctx "()" ex_entries "''tx2''" ex_seata_args ex_coordinator_db]
  by (intro conjI) (erule conjunct1, erule conjunct2[THEN conjunct1])

theorem map_order_counterexample:
  "set [(''inventory'', Seata_InventoryRM), (''order'', ok_resource)] =
     set [(''order'', ok_resource), (''inventory'', Seata_InventoryRM)] \<and>
   ImprovedCoordinator_StartTransaction
       [(''inventory'', Seata_InventoryRM), (''order'', ok_resource)]
       ''tx2'' ex_seata_args ex_coordinator_db \<noteq>
   ImprovedCoordinator_StartTransaction
       [(''order'', ok_resource), (''inventory'', Seata_InventoryRM)]
       ''tx2'' ex_seata_args ex_coordinator_db \<and>
   snd (snd (ImprovedCoordinator_StartTransaction
       [(''inventory'', Seata_InventoryRM), (''order'', ok_resource)]
       ''tx2'' ex_seata_args ex_coordinator_db)) = [TryCall ''inventory'', TryCall ''order''] \<and>
   snd (snd (ImprovedCoordinator_StartTransaction
       [(''order'', ok_resource), (''inventory'', Seata_InventoryRM)]
       ''tx2'' ex_seata_args ex_coordinator_db)) = [TryCall ''order'', TryCall ''inventory'']"
proof -
  have a: "snd (snd (ImprovedCoordinator_StartTransaction
       [(''inventory'', Seata_InventoryRM), (''order'', ok_resource)]
       ''tx2'' ex_seata_args ex_coordinator_db)) = [TryCall ''inventory'', TryCall ''order'']"
    by (simp add: ImprovedCoordinator_StartTransaction_def ex_coordinator_db_def
        Seata_InventoryRM_def Seata_InventoryRM_Try_def ok_resource_def ex_seata_args_def
        ex_seata_db_def)
  have b: "snd (snd (ImprovedCoordinator_StartTransaction
       [(''order'', ok_resource), (''inventory'', Seata_InventoryRM)]
       ''tx2'' ex_seata_args ex_coordinator_db)) = [TryCall ''order'', TryCall ''inventory'']"
    by (simp add: ImprovedCoordinator_StartTransaction_def ex_coordinator_db_def
        Seata_InventoryRM_def Seata_InventoryRM_Try_def ok_resource_def ex_seata_args_def
        ex_seata_db_def)
  have c: "set [(''inventory'', Seata_InventoryRM), (''order'', ok_resource)] =
     set [(''order'', ok_resource), (''inventory'', Seata_InventoryRM)]"
    by auto
  have d: "ImprovedCoordinator_StartTransaction
       [(''inventory'', Seata_InventoryRM), (''order'', ok_resource)]
       ''tx2'' ex_seata_args ex_coordinator_db \<noteq>
   ImprovedCoordinator_StartTransaction
       [(''order'', ok_resource), (''inventory'', Seata_InventoryRM)]
       ''tx2'' ex_seata_args ex_coordinator_db"
    using a b by auto
  show ?thesis by (intro conjI a b c d)
qed

text \<open>
  C10. In the version-based prototype, Try followed by Confirm for the same account and
  amount both succeed on an existing account and leave its balance equal to the initial
  value: Try subtracts the amount, Confirm adds it back (only the version moves, by two);
  no other account changes.
\<close>

theorem Std_AccountRM_Try_Confirm_balance:
  assumes "args ''account_id'' = Some (GoInt aid)" "args ''amount'' = Some (GoInt m)"
    and "tbl aid = Some row"
  shows "\<exists>t1 t2 row2.
           Std_AccountRM_Try args tbl = (None, t1) \<and>
           t1 aid = Some (row\<lparr>balance := balance row - m, version := version row + 1\<rparr>) \<and>
           Std_AccountRM_Confirm args t1 = (None, t2) \<and>
           t2 aid = Some row2 \<and>
           balance row2 = balance row \<and>
           version row2 = version row + 2 \<and>
           (\<forall>k. k \<noteq> aid \<longrightarrow> t2 k = tbl k)"
  using assms by (simp add: Std_AccountRM_Try_def Std_AccountRM_Confirm_def assert_int_def)

theorem Std_AccountRM_Try_Confirm_balance_witness:
  "\<exists>t1 t2 row2.
     Std_AccountRM_Try [''account_id'' \<mapsto> GoInt 1, ''amount'' \<mapsto> GoInt 100]
        [1 \<mapsto> \<lparr>balance = 500, version = 0\<rparr>] = (None, t1) \<and>
     t1 1 = Some \<lparr>balance = 400, version = 1\<rparr> \<and>
     Std_AccountRM_Confirm [''account_id'' \<mapsto> GoInt 1, ''amount'' \<mapsto> GoInt 100] t1 = (None, t2) \<and>
     t2 1 = Some row2 \<and> balance row2 = 500 \<and> version row2 = 2"
  using Std_AccountRM_Try_Confirm_balance
    [of "[''account_id'' \<mapsto> GoInt 1, ''amount'' \<mapsto> GoInt 100]" 1 100
        "[1 \<mapsto> \<lparr>balance = 500, version = 0\<rparr>]" "\<lparr>balance = 500, version = 0\<rparr>"]
  by simp blast

end
